(* ===== verification/Prelude.thy ===== *)
theory Prelude
  imports Main "HOL-Library.Word" "HOL-Library.Multiset"
begin

text \<open>
  Shared vocabulary of the development: the Go machine integers the operator
  uses (\<open>int32\<close>, \<open>int64\<close>), Go's truncating conversion \<open>int32(x)\<close>, the
  string maps that model \<open>map[string]string\<close>, Go's \<open>error\<close> values, the
  collections of rewrite rules the component theories add to, and the generic
  lemmas on maps, words and folds they share.
\<close>

section \<open>Rule collections\<close>

named_theorems modification_defs "unfolding rules of the deployment modifications"
named_theorems store_defs "unfolding rules of the reconcile-apply protocol"
named_theorems status_defs "unfolding rules of the status aggregator"

section \<open>Types of the model\<close>

text \<open>
  Go's \<open>int32\<close> and \<open>int64\<close> are fixed-width two's-complement integers; they are
  \<open>32 word\<close> and \<open>64 word\<close>, read as signed values with \<open>sint\<close>. Go's \<open>int\<close>
  (64 bits on the platforms the operator runs on) is used by the source only as
  an argument that is compared or converted, never in arithmetic, so it is
  \<open>int\<close>. A \<open>map[string]string\<close> is a partial map; Go's \<open>nil\<close> map and an
  empty map read the same and are not distinguished. An \<open>error\<close> is its message;
  \<open>nil\<close> is \<open>None\<close>.
\<close>

type_synonym int32 = "32 word"
type_synonym int64 = "64 word"
type_synonym strmap = "string \<rightharpoonup> string"
type_synonym go_error = string

text \<open>Go's conversion \<open>int32(x)\<close> keeps the low 32 bits of \<open>x\<close>.\<close>

definition go_int32 :: "int \<Rightarrow> int32" where
  "go_int32 n = word_of_int n"

section \<open>Generic lemmas\<close>

subsection \<open>The int32 conversion\<close>

lemma sint_go_int32:
  assumes "- (2 ^ 31) \<le> n" and "n < 2 ^ 31"
  shows "sint (go_int32 n) = n"
  using assms by (simp add: go_int32_def sint_sbintrunc' signed_take_bit_int_eq_self)

lemma sint_go_int32_wrap: "sint (go_int32 n) = (n + 2 ^ 31) mod 2 ^ 32 - 2 ^ 31"
  by (simp add: go_int32_def sint_sbintrunc' signed_take_bit_eq_take_bit_shift take_bit_eq_mod)

lemma go_int32_wrap [simp]: "go_int32 (n + 2 ^ 32) = go_int32 n"
  by (simp add: go_int32_def wi_hom_add)

lemma go_int32_eq_iff:
  "go_int32 a = go_int32 b \<longleftrightarrow> a mod 2 ^ 32 = b mod 2 ^ 32"
  by (simp add: go_int32_def word_of_int_eq_iff take_bit_eq_mod)

lemma go_int32_sint [simp]: "go_int32 (sint w) = w"
  by (simp add: go_int32_def)

lemma go_int32_eq_sint_iff:
  assumes "- (2 ^ 31) \<le> n" and "n < 2 ^ 31"
  shows "go_int32 n = w \<longleftrightarrow> sint w = n"
  using assms sint_go_int32 go_int32_sint by metis

lemma go_int32_inj_on_range:
  assumes "- (2 ^ 31) \<le> a" "a < 2 ^ 31" "- (2 ^ 31) \<le> b" "b < 2 ^ 31"
  shows "go_int32 a = go_int32 b \<longleftrightarrow> a = b"
  by (metis assms sint_go_int32)

subsection \<open>Maps\<close>

text \<open>Merging a map in twice is merging it in once: the additive merge is idempotent.\<close>

lemma map_add_idem_right [simp]: "(m ++ a) ++ a = m ++ a"
  by (rule ext) (simp add: map_add_def split: option.splits)

lemma map_add_dom_keep:
  "k \<notin> dom a \<Longrightarrow> (m ++ a) k = m k"
  by (simp add: map_add_dom_app_simps(3))

subsection \<open>Folds of commuting functions\<close>

text \<open>
  A list of functions applied left to right; commuting, idempotent steps can be
  reordered and repeated.
\<close>

lemma mset_doubled: "mset (concat (map (\<lambda>f. [f, f]) fs)) = mset fs + mset fs"
  by (induction fs) simp_all

lemma fold_doubled:
  assumes "\<And>f. f \<in> set fs \<Longrightarrow> f \<circ> f = f"
  shows "fold (\<lambda>f. f) (concat (map (\<lambda>f. [f, f]) fs)) = fold (\<lambda>f. f) fs"
  using assms
proof (induction fs)
  case Nil
  then show ?case by simp
next
  case (Cons f fs)
  have ff: "f \<circ> f = f" by (rule Cons.prems) simp
  have "fold (\<lambda>f. f) (concat (map (\<lambda>f. [f, f]) fs)) = fold (\<lambda>f. f) fs"
    by (rule Cons.IH) (simp add: Cons.prems)
  moreover have "f (f x) = f x" for x using ff by (metis comp_apply)
  ultimately show ?case by (simp add: fun_eq_iff)
qed

lemma fold_apply_twice:
  assumes comm: "\<And>f g. f \<in> set fs \<Longrightarrow> g \<in> set fs \<Longrightarrow> f \<circ> g = g \<circ> f"
    and idem: "\<And>f. f \<in> set fs \<Longrightarrow> f \<circ> f = f"
  shows "fold (\<lambda>f. f) fs (fold (\<lambda>f. f) fs x) = fold (\<lambda>f. f) fs x"
proof -
  have "fold (\<lambda>f. f) fs (fold (\<lambda>f. f) fs x) = fold (\<lambda>f. f) (fs @ fs) x"
    by simp
  also have "fold (\<lambda>f. f) (fs @ fs) = fold (\<lambda>f. f) (concat (map (\<lambda>f. [f, f]) fs))"
  proof (rule fold_multiset_equiv)
    show "mset (fs @ fs) = mset (concat (map (\<lambda>f. [f, f]) fs))"
      by (simp add: mset_doubled)
    fix f g assume "f \<in> set (fs @ fs)" "g \<in> set (fs @ fs)"
    then show "f \<circ> g = g \<circ> f" by (simp add: comm)
  qed
  also have "\<dots> = fold (\<lambda>f. f) fs"
    using idem by (rule fold_doubled)
  finally show ?thesis .
qed

subsection \<open>Lists\<close>

lemma distinct_concat_disjoint:
  "distinct (concat (map f xs)) \<Longrightarrow> a \<in> set xs \<Longrightarrow> b \<in> set xs \<Longrightarrow> a \<noteq> b \<Longrightarrow>
   set (f a) \<inter> set (f b) = {}"
  by (induction xs) auto

lemma length_takeWhile_eq:
  "\<exists>x\<in>set xs. \<not> P x \<Longrightarrow>
   length (takeWhile P xs) = i \<longleftrightarrow> i < length xs \<and> \<not> P (xs ! i) \<and> (\<forall>j<i. P (xs ! j))"
proof (induction xs arbitrary: i)
  case Nil
  then show ?case by simp
next
  case (Cons x xs)
  show ?case
  proof (cases i)
    case 0
    then show ?thesis by simp
  next
    case (Suc k)
    show ?thesis
    proof (cases "P x")
      case True
      with Cons.prems have "\<exists>x\<in>set xs. \<not> P x" by auto
      with True Suc Cons.IH [of k] show ?thesis
        by (auto simp: less_Suc_eq_0_disj)
    next
      case False
      with Suc show ?thesis by auto
    qed
  qed
qed

lemma fold_keeps:
  "(\<forall>f\<in>set fs. \<forall>x. P x \<longrightarrow> P (f x)) \<Longrightarrow> P x \<Longrightarrow> P (fold (\<lambda>f x. f x) fs x)"
  by (induction fs arbitrary: x) auto

text \<open>Dropping a separator and what precedes it shortens a string: the measure of path walks.\<close>

lemma dropWhile_tail_shorter:
  "\<not> length (dropWhile P xs) \<le> Suc 0 \<Longrightarrow> length (dropWhile P xs) - Suc 0 < length xs"
  using length_dropWhile_le [of P xs] by linarith

end
