(* ===== verification/Api_Types.thy ===== *)
theory Api_Types
  imports Prelude
begin

text \<open>
  The custom resource of the operator (\<open>src/api/v1/opencgacommunity_types.go\<close>):
  its spec (the declared intent), its status (what the operator observed and
  reports) and the object itself with the metadata the controller reads. The
  Go string types \<open>Type\<close> and \<open>Phase\<close> stay strings, with their named constants
  as definitions, because any other string is a value of those types too.
\<close>

definition ReplicaSet :: string where "ReplicaSet = ''ReplicaSet''"

definition Running :: string where "Running = ''Running''"
definition Failed :: string where "Failed = ''Failed''"
definition Pending :: string where "Pending = ''Pending''"

definition defaultClusterDomain :: string where "defaultClusterDomain = ''cluster.local''"

text \<open>\<open>OpenCGACommunitySpec\<close>: \<open>Members\<close>, \<open>Type\<close>, \<open>Version\<close>.\<close>

record opencga_spec =
  members :: int
  spec_type :: string
  spec_version :: string

text \<open>\<open>OpenCGACommunityStatus\<close>.\<close>

record opencga_status =
  rest_uri :: string
  phase :: string
  status_version :: string
  current_statefulset_replicas :: int
  current_rest_members :: int
  message :: string

text \<open>
  \<open>OpenCGACommunity\<close>: \<open>ObjectMeta\<close> is reduced to the fields a reconciliation
  reads or writes (name, namespace, annotations, generation); \<open>TypeMeta\<close> is
  constant for the type and left out.
\<close>

record opencga_community =
  ocb_name :: string
  ocb_namespace :: string
  ocb_annotations :: strmap
  ocb_generation :: int64
  spec :: opencga_spec
  status :: opencga_status

text \<open>\<open>OpenCGACommunityList\<close>: the items of a list response; its \<open>TypeMeta\<close> and \<open>ListMeta\<close> are left out.\<close>

record opencga_community_list =
  Items :: "opencga_community list"

text \<open>The Go zero values of the records, \<open>OpenCGACommunity{}\<close> and its parts.\<close>

definition zero_opencga_spec :: opencga_spec where
  "zero_opencga_spec = \<lparr>members = 0, spec_type = [], spec_version = []\<rparr>"

definition zero_status :: opencga_status where
  "zero_status = \<lparr>rest_uri = [], phase = [], status_version = [],
     current_statefulset_replicas = 0, current_rest_members = 0, message = []\<rparr>"

definition zero_community :: opencga_community where
  "zero_community = \<lparr>ocb_name = [], ocb_namespace = [], ocb_annotations = Map.empty,
     ocb_generation = 0, spec = zero_opencga_spec, status = zero_status\<rparr>"

end
