(* ===== verification/Status.thy ===== *)
theory Status
  imports Api_Types
begin

text \<open>
  The status-decision aggregator (\<open>src/pkg/util/status/status.go\<close>).
  A \<open>status.Option\<close> is a pair of methods: \<open>ApplyOption\<close>, which writes its
  finding into the resource, and \<open>GetResult\<close>, the control-loop result it asks
  for. \<open>Update\<close> applies every option in order, writes the status once through
  the status writer and, when the write succeeds, reduces the options' results
  with \<open>determineReconciliationResult\<close>: errors first, then requeue requests,
  then success. The status writer is a collaborator with its own state \<open>'s\<close>.
\<close>

section \<open>Data\<close>

text \<open>
  \<open>reconcile.Result\<close> of controller-runtime: a requeue flag and a delay
  (\<open>time.Duration\<close>, nanoseconds; the code only compares it with 0).
\<close>

record reconcile_result =
  requeue :: bool
  requeue_after :: int

definition empty_result :: reconcile_result where
  "empty_result = \<lparr>requeue = False, requeue_after = 0\<rparr>"

record status_option =
  apply_option :: "opencga_community \<Rightarrow> opencga_community"
  get_result :: "reconcile_result \<times> go_error option"

text \<open>\<open>client.StatusWriter.Update\<close>: writes the resource, may fail.\<close>

type_synonym 's status_writer = "'s \<Rightarrow> opencga_community \<Rightarrow> go_error option \<times> 's"

section \<open>Operations\<close>

text \<open>The first loop of \<open>Update\<close>: \<open>opt.ApplyOption(ocb)\<close> for every option in order.\<close>

primrec apply_options :: "status_option list \<Rightarrow> opencga_community \<Rightarrow> opencga_community" where
  "apply_options [] ocb = ocb"
| "apply_options (opt # opts) ocb = apply_options opts (apply_option opt ocb)"

text \<open>The first loop of \<open>determineReconciliationResult\<close>: the first option with an error.\<close>

fun first_error :: "status_option list \<Rightarrow> (reconcile_result \<times> go_error) option" where
  "first_error [] = None"
| "first_error (opt # opts) =
     (case get_result opt of
        (res, Some err) \<Rightarrow> Some (res, err)
      | (res, None) \<Rightarrow> first_error opts)"

definition is_requeue :: "reconcile_result \<Rightarrow> bool" where
  "is_requeue res \<longleftrightarrow> requeue res \<or> 0 < requeue_after res"

text \<open>The second loop: the first option whose result asks for a requeue.\<close>

fun first_requeue :: "status_option list \<Rightarrow> reconcile_result option" where
  "first_requeue [] = None"
| "first_requeue (opt # opts) =
     (let res = fst (get_result opt) in
      if is_requeue res then Some res else first_requeue opts)"

definition determineReconciliationResult ::
  "status_option list \<Rightarrow> reconcile_result \<times> go_error option" where
  "determineReconciliationResult opts =
     (case first_error opts of
        Some (res, err) \<Rightarrow> (res, Some err)
      | None \<Rightarrow>
          (case first_requeue opts of
             Some res \<Rightarrow> (res, None)
           | None \<Rightarrow> (empty_result, None)))"

text \<open>
  \<open>Update\<close>: the options the builder returns, applied to the resource (which the
  caller sees mutated), one status write, then the reduction. The result is the
  pair Go returns, the resource after the options, and the writer's new state.
\<close>

definition Update ::
  "'s status_writer \<Rightarrow> 's \<Rightarrow> opencga_community \<Rightarrow> status_option list \<Rightarrow>
   (reconcile_result \<times> go_error option) \<times> opencga_community \<times> 's" where
  "Update w s ocb opts =
     (let ocb' = apply_options opts ocb in
      case w s ocb' of
        (Some err, s') \<Rightarrow> ((empty_result, Some err), ocb', s')
      | (None, s') \<Rightarrow> (determineReconciliationResult opts, ocb', s'))"

declare determineReconciliationResult_def [status_defs] Update_def [status_defs]

section \<open>The control decision: abstract specification\<close>

text \<open>
  What the controller does with the pair: an error is a failure, a positive
  delay a delayed requeue (it takes precedence over the flag), the flag an
  immediate requeue, anything else success.
\<close>

datatype control_decision =
  Error go_error | RequeueAfter int | RequeueImmediate | Done

fun to_decision :: "reconcile_result \<times> go_error option \<Rightarrow> control_decision" where
  "to_decision (_, Some e) = Error e"
| "to_decision (res, None) =
     (if 0 < requeue_after res then RequeueAfter (requeue_after res)
      else if requeue res then RequeueImmediate else Done)"

text \<open>
  The specification of the reduction as one left-to-right pass: a decision of a
  higher class (error over requeue over done) replaces the one kept so far, one
  of the same class does not, so the first of the highest class wins.
\<close>

fun decision_rank :: "control_decision \<Rightarrow> nat" where
  "decision_rank (Error _) = 2"
| "decision_rank (RequeueAfter _) = 1"
| "decision_rank RequeueImmediate = 1"
| "decision_rank Done = 0"

definition pick :: "control_decision \<Rightarrow> control_decision \<Rightarrow> control_decision" where
  "pick acc d = (if decision_rank acc < decision_rank d then d else acc)"

definition decide_spec :: "(reconcile_result \<times> go_error option) list \<Rightarrow> control_decision" where
  "decide_spec rs = foldl pick Done (map to_decision rs)"

text \<open>A status writer that records every object it is asked to write.\<close>

definition log_writer :: "'s status_writer \<Rightarrow> ('s \<times> opencga_community list) status_writer" where
  "log_writer w = (\<lambda>(s, log) ocb. let (r, s') = w s ocb in (r, (s', log @ [ocb])))"

section \<open>Properties\<close>

lemma first_error_skip:
  "\<forall>x\<in>set xs. snd (get_result x) = None \<Longrightarrow> first_error (xs @ ys) = first_error ys"
  by (induction xs) (auto split: prod.splits option.splits)

lemma first_error_None_iff:
  "first_error opts = None \<longleftrightarrow> (\<forall>x\<in>set opts. snd (get_result x) = None)"
  by (induction opts) (auto split: prod.splits option.splits)

lemma first_requeue_skip:
  "\<forall>x\<in>set xs. \<not> is_requeue (fst (get_result x)) \<Longrightarrow> first_requeue (xs @ ys) = first_requeue ys"
  by (induction xs) (auto simp: Let_def)

lemma first_requeue_None_iff:
  "first_requeue opts = None \<longleftrightarrow> (\<forall>x\<in>set opts. \<not> is_requeue (fst (get_result x)))"
  by (induction opts) (auto simp: Let_def)

lemma apply_options_append:
  "apply_options (xs @ ys) ocb = apply_options ys (apply_options xs ocb)"
  by (induction xs arbitrary: ocb) simp_all

text \<open>C1: an option that reports an error decides the result when no option before it reports one, whatever requeue requests come before or after it: \<open>determineReconciliationResult\<close> returns that option's result and error.\<close>

theorem error_dominates:
  assumes "\<forall>x\<in>set xs. snd (get_result x) = None"
    and "get_result opt = (res, Some e)"
  shows "determineReconciliationResult (xs @ opt # ys) = (res, Some e)"
  using assms by (simp add: determineReconciliationResult_def first_error_skip)

text \<open>C2: when no option reports an error, the first option that asks for a requeue (flag set or positive delay) decides the result, with no error.\<close>

theorem requeue_next:
  assumes "\<forall>x\<in>set (xs @ opt # ys). snd (get_result x) = None"
    and "\<forall>x\<in>set xs. \<not> is_requeue (fst (get_result x))"
    and "is_requeue (fst (get_result opt))"
  shows "determineReconciliationResult (xs @ opt # ys) = (fst (get_result opt), None)"
proof -
  from assms(1) have "first_error (xs @ opt # ys) = None"
    by (simp only: first_error_None_iff)
  moreover from assms(2,3) have "first_requeue (xs @ opt # ys) = Some (fst (get_result opt))"
    by (simp add: first_requeue_skip)
  ultimately show ?thesis by (simp add: determineReconciliationResult_def)
qed

text \<open>C33: when no option reports an error or asks for a requeue (in particular for no options at all, and for options that all report Ok, spec section 8) the result is the empty \<open>reconcile.Result\<close> with no error: the pass is done.\<close>

theorem done_when_quiet:
  assumes "\<forall>x\<in>set opts. snd (get_result x) = None \<and> \<not> is_requeue (fst (get_result x))"
  shows "determineReconciliationResult opts = (empty_result, None)"
proof -
  from assms have "first_error opts = None" and "first_requeue opts = None"
    by (simp_all add: first_error_None_iff first_requeue_None_iff)
  then show ?thesis by (simp add: determineReconciliationResult_def)
qed

lemma pick_Done [simp]: "pick Done d = d"
  by (cases d) (simp_all add: pick_def)

lemma pick_Error [simp]: "pick (Error e) d = Error e"
  by (cases d) (simp_all add: pick_def)

lemma foldl_pick_Error: "foldl pick (Error e) ds = Error e"
  by (induction ds) simp_all

lemma foldl_pick_requeue:
  "decision_rank acc = 1 \<Longrightarrow>
   foldl pick acc (map (to_decision \<circ> get_result) opts) =
     (case first_error opts of Some (r, e) \<Rightarrow> Error e | None \<Rightarrow> acc)"
proof (induction opts arbitrary: acc)
  case Nil
  then show ?case by simp
next
  case (Cons opt opts)
  obtain r eo where g: "get_result opt = (r, eo)" by fastforce
  show ?case
  proof (cases eo)
    case None
    have "decision_rank (to_decision (r, None)) \<le> 1"
      by (simp split: if_splits)
    then have "pick acc (to_decision (r, None)) = acc"
      using Cons.prems by (simp add: pick_def)
    with Cons g None show ?thesis by simp
  next
    case (Some e)
    from Cons.prems have "pick acc (Error e) = Error e" by (simp add: pick_def)
    with g Some show ?thesis by (simp add: foldl_pick_Error)
  qed
qed

lemma rank_requeue: "is_requeue r \<Longrightarrow> decision_rank (to_decision (r, None)) = 1"
  by (auto simp: is_requeue_def)

lemma to_decision_quiet: "\<not> is_requeue r \<Longrightarrow> to_decision (r, None) = Done"
  by (simp add: is_requeue_def)

text \<open>C4: the two-pass reduction implements the one-pass specification \<open>decide_spec\<close> (errors over requeues over done, first of the highest class wins) at the level of the controller's decision.\<close>

theorem determine_refines_spec:
  "to_decision (determineReconciliationResult opts) = decide_spec (map get_result opts)"
proof (induction opts)
  case Nil
  then show ?case
    by (simp add: determineReconciliationResult_def decide_spec_def empty_result_def)
next
  case (Cons opt opts)
  obtain r eo where g: "get_result opt = (r, eo)" by fastforce
  show ?case
  proof (cases eo)
    case (Some e)
    with g show ?thesis
      by (simp add: determineReconciliationResult_def decide_spec_def foldl_pick_Error)
  next
    case None
    show ?thesis
    proof (cases "is_requeue r")
      case True
      have "decide_spec (map get_result (opt # opts)) =
          foldl pick (to_decision (r, None)) (map (to_decision \<circ> get_result) opts)"
        by (simp add: decide_spec_def g None del: to_decision.simps)
      also have "\<dots> = (case first_error opts of Some (r', e) \<Rightarrow> Error e | None \<Rightarrow> to_decision (r, None))"
        using True by (simp add: foldl_pick_requeue rank_requeue del: to_decision.simps)
      finally show ?thesis using g None True
        by (simp add: determineReconciliationResult_def split: option.splits prod.splits)
    next
      case False
      have "decide_spec (map get_result (opt # opts)) =
          foldl pick Done (map (to_decision \<circ> get_result) opts)"
        using g None False by (simp add: decide_spec_def to_decision_quiet del: to_decision.simps)
      also have "\<dots> = to_decision (determineReconciliationResult opts)"
        using Cons.IH by (simp add: decide_spec_def)
      also have "determineReconciliationResult opts = determineReconciliationResult (opt # opts)"
        using g None False by (simp add: determineReconciliationResult_def Let_def split: option.split)
      finally show ?thesis by simp
    qed
  qed
qed

lemma Update_object: "fst (snd (Update w s ocb opts)) = apply_options opts ocb"
  by (cases "w s (apply_options opts ocb)") (simp add: Update_def Let_def split: option.split)

text \<open>C5: when the status write fails, \<open>Update\<close> returns that error with an empty result, whatever the options report.\<close>

theorem Update_write_error:
  assumes "w s (apply_options opts ocb) = (Some err, s')"
  shows "fst (Update w s ocb opts) = (empty_result, Some err)"
  using assms by (simp add: Update_def)

text \<open>C6: \<open>Update\<close> writes the status exactly once, and writes the resource with every option applied in the builder's order.\<close>

theorem Update_writes_once:
  "snd (snd (snd (Update (log_writer w) (s, log) ocb opts))) = log @ [apply_options opts ocb]"
  by (cases "w s (apply_options opts ocb)")
    (simp add: Update_def log_writer_def Let_def split: option.splits)

theorem error_dominates_witness:
  "determineReconciliationResult
     ([\<lparr>apply_option = id, get_result = (empty_result, None)\<rparr>,
       \<lparr>apply_option = id, get_result = (\<lparr>requeue = False, requeue_after = 5\<rparr>, None)\<rparr>] @
      \<lparr>apply_option = id, get_result = (empty_result, Some ''e1'')\<rparr> # []) =
   (empty_result, Some ''e1'')"
  by (rule error_dominates) simp_all

theorem requeue_next_witness:
  "determineReconciliationResult
     ([\<lparr>apply_option = id, get_result = (empty_result, None)\<rparr>] @
      \<lparr>apply_option = id, get_result = (\<lparr>requeue = False, requeue_after = 5\<rparr>, None)\<rparr> #
      [\<lparr>apply_option = id, get_result = (\<lparr>requeue = True, requeue_after = 0\<rparr>, None)\<rparr>]) =
   (\<lparr>requeue = False, requeue_after = 5\<rparr>, None)"
proof -
  have "determineReconciliationResult
     ([\<lparr>apply_option = id, get_result = (empty_result, None)\<rparr>] @
      \<lparr>apply_option = id, get_result = (\<lparr>requeue = False, requeue_after = 5\<rparr>, None)\<rparr> #
      [\<lparr>apply_option = id, get_result = (\<lparr>requeue = True, requeue_after = 0\<rparr>, None)\<rparr>]) =
   (fst (get_result \<lparr>apply_option = id, get_result = (\<lparr>requeue = False, requeue_after = 5\<rparr>, None)\<rparr>), None)"
    by (rule requeue_next) (simp_all add: is_requeue_def empty_result_def)
  then show ?thesis by simp
qed

theorem done_when_quiet_witness:
  "determineReconciliationResult
     [\<lparr>apply_option = id, get_result = (empty_result, None)\<rparr>,
      \<lparr>apply_option = id, get_result = (\<lparr>requeue = False, requeue_after = -3\<rparr>, None)\<rparr>] =
   (empty_result, None)"
  by (rule done_when_quiet) (simp add: is_requeue_def empty_result_def)

theorem Update_write_error_witness:
  "fst (Update (\<lambda>s ocb. (Some ''status write failed'', s)) () zero_community
     [\<lparr>apply_option = id, get_result = (empty_result, Some ''option error'')\<rparr>]) =
   (empty_result, Some ''status write failed'')"
  by (rule Update_write_error) simp

end
