(* ===== verification/Workload.thy ===== *)
theory Workload
  imports Prelude
begin

text \<open>
  The workload objects the operator builds and reads: the parts of
  \<open>appsv1.Deployment\<close>, \<open>corev1\<close> volumes, mounts and claims, and
  \<open>appsv1.StatefulSet\<close>'s status, as far as \<open>src/pkg/kube/statefulset/statefulset.go\<close>
  touches them. Pointer fields are \<open>option\<close> (\<open>nil\<close> is \<open>None\<close>); the
  resource version, an opaque string in Kubernetes, is a number with 0 for the
  empty string, which is what a freshly built object carries.
\<close>

section \<open>Object metadata and selectors\<close>

record owner_reference =
  or_api_version :: string
  or_kind :: string
  or_name :: string
  or_uid :: string
  or_controller :: "bool option"

record selector_requirement =
  req_key :: string
  req_operator :: string
  req_values :: "string list"

record label_selector =
  match_labels :: strmap
  match_expressions :: "selector_requirement list"

section \<open>Volumes, mounts and claims\<close>

record config_map_source =
  cm_name :: string
  cm_default_mode :: "int32 option"

record secret_source =
  secret_name :: string
  secret_default_mode :: "int32 option"

record empty_dir_source =
  ed_medium :: string

text \<open>
  \<open>corev1.VolumeSource\<close> is a struct of pointers, one per kind of source; the
  API accepts a volume with exactly one of them set, but the struct can hold
  several, so the model keeps each pointer.
\<close>

record volume_source =
  vs_config_map :: "config_map_source option"
  vs_secret :: "secret_source option"
  vs_empty_dir :: "empty_dir_source option"

record volume =
  vol_name :: string
  vol_source :: volume_source

record volume_mount =
  vm_name :: string
  vm_mount_path :: string
  vm_read_only :: bool
  vm_sub_path :: string

record volume_mount_data =
  vmd_name :: string
  vmd_mount_path :: string
  vmd_volume :: volume
  vmd_read_only :: bool

record container =
  c_name :: string
  c_image :: string
  c_volume_mounts :: "volume_mount list"

record pod_template =
  tmpl_labels :: strmap
  tmpl_annotations :: strmap
  tmpl_containers :: "container list"
  tmpl_volumes :: "volume list"
  tmpl_service_account :: string

record pvc =
  pvc_name :: string
  pvc_labels :: strmap
  pvc_access_modes :: "string list"
  pvc_storage :: string

section \<open>The deployment\<close>

record rolling_update_params =
  max_unavailable :: string
  max_surge :: string

record deployment_strategy =
  strategy_type :: string
  strategy_rolling :: "rolling_update_params option"

definition RollingUpdateDeploymentStrategyType :: string where
  "RollingUpdateDeploymentStrategyType = ''RollingUpdate''"

definition RecreateDeploymentStrategyType :: string where
  "RecreateDeploymentStrategyType = ''Recreate''"

text \<open>
  The spec fields the modifications write. \<open>PodManagementPolicy\<close> and
  \<open>VolumeClaimTemplates\<close> are written by the source on a Deployment although only
  \<open>appsv1.StatefulSetSpec\<close> declares them; the model keeps them as the source uses
  them.
\<close>

record deployment_spec =
  replicas :: "int32 option"
  selector :: "label_selector option"
  template :: pod_template
  strategy :: deployment_strategy
  revision_history_limit :: "int32 option"
  pod_management_policy :: string
  volume_claim_templates :: "pvc list"

record deployment =
  dep_name :: string
  dep_namespace :: string
  dep_labels :: strmap
  dep_annotations :: strmap
  owner_references :: "owner_reference list"
  dep_resource_version :: nat
  dep_generation :: int64
  dep_spec :: deployment_spec

text \<open>\<open>types.NamespacedName\<close>: name and namespace.\<close>

type_synonym object_key = "string \<times> string"

definition key_of :: "deployment \<Rightarrow> object_key" where
  "key_of dep = (dep_name dep, dep_namespace dep)"

section \<open>Zero values\<close>

definition zero_template :: pod_template where
  "zero_template = \<lparr>tmpl_labels = Map.empty, tmpl_annotations = Map.empty,
     tmpl_containers = [], tmpl_volumes = [], tmpl_service_account = []\<rparr>"

definition zero_pvc :: pvc where
  "zero_pvc = \<lparr>pvc_name = [], pvc_labels = Map.empty, pvc_access_modes = [], pvc_storage = []\<rparr>"

definition zero_deployment_spec :: deployment_spec where
  "zero_deployment_spec = \<lparr>replicas = None, selector = None, template = zero_template,
     strategy = \<lparr>strategy_type = [], strategy_rolling = None\<rparr>,
     revision_history_limit = None, pod_management_policy = [], volume_claim_templates = []\<rparr>"

definition zero_deployment :: deployment where
  "zero_deployment = \<lparr>dep_name = [], dep_namespace = [], dep_labels = Map.empty,
     dep_annotations = Map.empty, owner_references = [], dep_resource_version = 0,
     dep_generation = 0, dep_spec = zero_deployment_spec\<rparr>"

section \<open>StatefulSet status, read by the readiness check\<close>

record sts_status =
  updated_replicas :: int32
  ready_replicas :: int32
  observed_generation :: int64

record stateful_set =
  sts_generation :: int64
  sts_status :: sts_status

end
