(* ===== verification/Mem_Store.thy ===== *)
theory Mem_Store
  imports Store
begin

text \<open>
  An implementation of the client interface of \<open>Store\<close>: an in-memory object
  store with resource versions and optimistic concurrency, modelled from the
  spec's description of the cluster API (the API server is not part of the
  repository). Every interleaving of calls keeps its invariant; against it,
  \<open>CreateOrUpdate\<close> converges to the desired object, a write of a stale copy is
  refused, and \<open>GetAndUpdate\<close> loses no concurrent update.
\<close>

text \<open>
  The cluster API as the spec describes it (section 6): objects by key, each
  stored with a fresh resource version; Create fails on an existing key, Update
  on a missing one, and an Update that carries a resource version other than the
  stored one fails with Conflict (one with the empty version is unconditional).
\<close>

record mem_state =
  objects :: "object_key \<rightharpoonup> deployment"
  next_version :: nat

definition mem_init :: mem_state where
  "mem_init = \<lparr>objects = Map.empty, next_version = 1\<rparr>"

definition mem_get :: "mem_state \<Rightarrow> object_key \<Rightarrow> (store_error + deployment) \<times> mem_state" where
  "mem_get st k = ((case objects st k of None \<Rightarrow> Inl NotFound | Some d \<Rightarrow> Inr d), st)"

definition mem_store :: "mem_state \<Rightarrow> deployment \<Rightarrow> deployment \<times> mem_state" where
  "mem_store st d =
     (let d' = d\<lparr>dep_resource_version := next_version st\<rparr> in
      (d', st\<lparr>objects := (objects st)(key_of d \<mapsto> d'), next_version := Suc (next_version st)\<rparr>))"

definition mem_create :: "mem_state \<Rightarrow> deployment \<Rightarrow> store_error option \<times> mem_state" where
  "mem_create st d =
     (case objects st (key_of d) of
        Some _ \<Rightarrow> (Some AlreadyExists, st)
      | None \<Rightarrow> (None, snd (mem_store st d)))"

definition mem_update :: "mem_state \<Rightarrow> deployment \<Rightarrow> (store_error + deployment) \<times> mem_state" where
  "mem_update st d =
     (case objects st (key_of d) of
        None \<Rightarrow> (Inl NotFound, st)
      | Some cur \<Rightarrow>
          if dep_resource_version d \<noteq> 0 \<and> dep_resource_version d \<noteq> dep_resource_version cur
          then (Inl Conflict, st)
          else (case mem_store st d of (d', st') \<Rightarrow> (Inr d', st')))"

definition mem_delete :: "mem_state \<Rightarrow> object_key \<Rightarrow> store_error option \<times> mem_state" where
  "mem_delete st k =
     (case objects st k of
        None \<Rightarrow> (Some NotFound, st)
      | Some _ \<Rightarrow> (None, st\<lparr>objects := (objects st)(k := None)\<rparr>))"

definition mem_client :: "mem_state dep_client" where
  "mem_client = \<lparr>GetDeployment = mem_get, UpdateDeployment = mem_update,
     CreateDeployment = mem_create, DeleteDeployment = mem_delete\<rparr>"

definition mem_inv :: "mem_state \<Rightarrow> bool" where
  "mem_inv st \<longleftrightarrow> 0 < next_version st \<and>
     (\<forall>k d. objects st k = Some d \<longrightarrow>
        key_of d = k \<and> 0 < dep_resource_version d \<and> dep_resource_version d < next_version st)"

text \<open>
  Any writer may call the store at any time: a step is one call of any client,
  and the reachable states are those of every interleaving of such calls.
\<close>

inductive mem_step :: "mem_state \<Rightarrow> mem_state \<Rightarrow> bool" where
  get: "mem_step st (snd (mem_get st k))"
| create: "mem_step st (snd (mem_create st d))"
| update: "mem_step st (snd (mem_update st d))"
| delete: "mem_step st (snd (mem_delete st k))"

inductive mem_reachable :: "mem_state \<Rightarrow> bool" where
  init: "mem_reachable mem_init"
| step: "mem_reachable st \<Longrightarrow> mem_step st st' \<Longrightarrow> mem_reachable st'"

text \<open>An update function that leaves the object's key and resource version alone.\<close>

definition keeps_identity :: "(deployment \<Rightarrow> deployment) \<Rightarrow> bool" where
  "keeps_identity f \<longleftrightarrow>
     (\<forall>d. key_of (f d) = key_of d \<and> dep_resource_version (f d) = dep_resource_version d)"

lemma key_of_rv [simp]: "key_of (d\<lparr>dep_resource_version := v\<rparr>) = key_of d"
  by (simp add: key_of_def)

lemma mem_client_simps [simp]:
  "GetDeployment mem_client = mem_get" "UpdateDeployment mem_client = mem_update"
  "CreateDeployment mem_client = mem_create" "DeleteDeployment mem_client = mem_delete"
  by (simp_all add: mem_client_def)

lemma mem_inv_init: "mem_inv mem_init"
  by (simp add: mem_inv_def mem_init_def)

lemma mem_store_simps [simp]:
  "fst (mem_store st d) = d\<lparr>dep_resource_version := next_version st\<rparr>"
  "objects (snd (mem_store st d)) = (objects st)(key_of d \<mapsto> d\<lparr>dep_resource_version := next_version st\<rparr>)"
  "next_version (snd (mem_store st d)) = Suc (next_version st)"
  by (simp_all add: mem_store_def Let_def)

lemma mem_inv_objD:
  "mem_inv st \<Longrightarrow> objects st k = Some d \<Longrightarrow>
   key_of d = k \<and> 0 < dep_resource_version d \<and> dep_resource_version d < next_version st"
  unfolding mem_inv_def by blast

lemma mem_store_inv:
  assumes inv: "mem_inv st"
  shows "mem_inv (snd (mem_store st d))"
proof -
  have "0 < next_version (snd (mem_store st d))" by (simp add: mem_store_def Let_def)
  moreover have "\<forall>k d'. objects (snd (mem_store st d)) k = Some d' \<longrightarrow>
      key_of d' = k \<and> 0 < dep_resource_version d' \<and>
      dep_resource_version d' < next_version (snd (mem_store st d))"
  proof (intro allI impI)
    fix k d'
    assume o: "objects (snd (mem_store st d)) k = Some d'"
    show "key_of d' = k \<and> 0 < dep_resource_version d' \<and>
          dep_resource_version d' < next_version (snd (mem_store st d))"
    proof (cases "k = key_of d")
      case True
      with o inv show ?thesis by (auto simp: mem_store_def Let_def mem_inv_def)
    next
      case False
      with o have "objects st k = Some d'" by (simp add: mem_store_def Let_def)
      with inv have "key_of d' = k \<and> 0 < dep_resource_version d' \<and> dep_resource_version d' < next_version st"
        by (rule mem_inv_objD)
      then show ?thesis by (simp add: mem_store_def Let_def)
    qed
  qed
  ultimately show ?thesis unfolding mem_inv_def by blast
qed

lemma mem_get_inv: "mem_inv st \<Longrightarrow> mem_inv (snd (mem_get st k))"
  by (simp add: mem_get_def)

lemma mem_create_inv: "mem_inv st \<Longrightarrow> mem_inv (snd (mem_create st d))"
  by (simp add: mem_create_def mem_store_inv split: option.split)

lemma mem_update_inv: "mem_inv st \<Longrightarrow> mem_inv (snd (mem_update st d))"
  using mem_store_inv [of st d]
  by (cases "mem_store st d") (simp add: mem_update_def split: option.split)

lemma mem_delete_inv: "mem_inv st \<Longrightarrow> mem_inv (snd (mem_delete st k))"
  by (auto simp: mem_delete_def mem_inv_def split: option.split)

lemma mem_step_inv: "mem_step st st' \<Longrightarrow> mem_inv st \<Longrightarrow> mem_inv st'"
  by (induction rule: mem_step.induct)
    (simp_all add: mem_get_inv mem_create_inv mem_update_inv mem_delete_inv)

lemma mem_reachable_inv: "mem_reachable st \<Longrightarrow> mem_inv st"
proof (induction rule: mem_reachable.induct)
  case init
  show ?case by (rule mem_inv_init)
next
  case (step st st')
  then show ?case by (blast intro: mem_step_inv)
qed

lemma CreateOrUpdate_fresh_stores:
  assumes "dep_resource_version dep = 0"
  shows "CreateOrUpdate mem_client st dep =
    ((case objects st (key_of dep) of None \<Rightarrow> Inr zero_deployment
      | Some _ \<Rightarrow> Inr (dep\<lparr>dep_resource_version := next_version st\<rparr>)),
     snd (mem_store st dep))"
  using assms
  by (auto simp: CreateOrUpdate_def mem_get_def mem_create_def mem_update_def
      IsNotFound_def prod.case_eq_if split: option.split)

text \<open>C14: against the store, \<open>CreateOrUpdate\<close> of a freshly built object (empty resource version) always succeeds and leaves exactly that object, with a new version, under its key, whether or not it existed before.\<close>

theorem CreateOrUpdate_converges:
  assumes "dep_resource_version dep = 0"
  shows "objects (snd (CreateOrUpdate mem_client st dep)) (key_of dep) =
           Some (dep\<lparr>dep_resource_version := next_version st\<rparr>)
    \<and> \<not> isl (fst (CreateOrUpdate mem_client st dep))"
  using CreateOrUpdate_fresh_stores [OF assms, of st] by (simp split: option.split)

lemma GetAndUpdate_mem:
  assumes "objects st k = Some d" "key_of d = k" "keeps_identity f" "0 < dep_resource_version d"
  shows "GetAndUpdate mem_client st k f =
       (Inr ((f d)\<lparr>dep_resource_version := next_version st\<rparr>),
        snd (mem_store st (f d)))"
  using assms
  by (auto simp: GetAndUpdate_def mem_get_def mem_update_def keeps_identity_def mem_store_def Let_def)

text \<open>C15: a writer that updates a copy it read before another writer's \<open>GetAndUpdate\<close> is refused with Conflict: the interleaving that would lose an update cannot write.\<close>

theorem stale_update_conflicts:
  assumes "mem_inv st" and "objects st k = Some d" and "keeps_identity f" and "keeps_identity g"
  shows "fst (mem_update (snd (GetAndUpdate mem_client st k g)) (f d)) = Inl Conflict"
proof -
  from mem_inv_objD [OF assms(1,2)] have kd: "key_of d = k" and pos: "0 < dep_resource_version d"
    and lt: "dep_resource_version d < next_version st"
    by simp_all
  let ?st1 = "snd (mem_store st (g d))"
  have st1: "snd (GetAndUpdate mem_client st k g) = ?st1"
    using GetAndUpdate_mem [OF assms(2) kd assms(4) pos] by simp
  have "objects ?st1 k = Some ((g d)\<lparr>dep_resource_version := next_version st\<rparr>)"
    using assms(4) kd by (simp add: keeps_identity_def)
  moreover have "key_of (f d) = k" "dep_resource_version (f d) = dep_resource_version d"
    using assms(3) kd by (simp_all add: keeps_identity_def)
  ultimately show ?thesis
    using st1 pos lt by (simp add: mem_update_def)
qed

text \<open>C16: two \<open>GetAndUpdate\<close> calls in sequence compose: the second update function is applied to the object the first one wrote, so neither update is lost.\<close>

theorem fresh_update_keeps_both:
  assumes "mem_inv st" and "objects st k = Some d" and "keeps_identity f" and "keeps_identity g"
  shows "objects (snd (GetAndUpdate mem_client (snd (GetAndUpdate mem_client st k g)) k f)) k =
    Some ((f ((g d)\<lparr>dep_resource_version := next_version st\<rparr>))
            \<lparr>dep_resource_version := Suc (next_version st)\<rparr>)"
proof -
  from mem_inv_objD [OF assms(1,2)] have kd: "key_of d = k" and pos: "0 < dep_resource_version d"
    by simp_all
  let ?d1 = "(g d)\<lparr>dep_resource_version := next_version st\<rparr>"
  let ?st1 = "snd (mem_store st (g d))"
  have st1: "snd (GetAndUpdate mem_client st k g) = ?st1"
    using GetAndUpdate_mem [OF assms(2) kd assms(4) pos] by simp
  have o1: "objects ?st1 k = Some ?d1" and n1: "next_version ?st1 = Suc (next_version st)"
    using assms(4) kd by (simp_all add: keeps_identity_def)
  have k1: "key_of ?d1 = k" using assms(4) kd by (simp add: keeps_identity_def)
  have p1: "0 < dep_resource_version ?d1" using assms(1) by (simp add: mem_inv_def)
  show ?thesis
    using GetAndUpdate_mem [OF o1 k1 assms(3) p1] st1 n1 assms(3) k1
    by (simp add: keeps_identity_def)
qed

lemma mem_get_state [simp]: "snd (mem_get st k) = st"
  by (simp add: mem_get_def)

lemma CreateOrUpdate_mem_state:
  "snd (CreateOrUpdate mem_client st dep) =
     (case objects st (key_of dep) of
        None \<Rightarrow> snd (mem_create st dep)
      | Some _ \<Rightarrow> snd (mem_update st dep))"
  by (cases "mem_create st dep")
    (simp add: CreateOrUpdate_def mem_get_def IsNotFound_def split: option.split)

lemma GetAndUpdate_mem_state:
  "snd (GetAndUpdate mem_client st k f) =
     (case objects st k of None \<Rightarrow> st | Some d \<Rightarrow> snd (mem_update st (f d)))"
  by (simp add: GetAndUpdate_def mem_get_def split: option.split)

lemma reachable_create: "mem_reachable st \<Longrightarrow> mem_reachable (snd (mem_create st d))"
  by (blast intro: mem_reachable.step mem_step.create)

lemma reachable_update: "mem_reachable st \<Longrightarrow> mem_reachable (snd (mem_update st d))"
  by (blast intro: mem_reachable.step mem_step.update)

text \<open>Every state that runs of \<open>CreateOrUpdate\<close> and \<open>GetAndUpdate\<close> reach from a reachable store (any interleaving with other writers) satisfies the store invariant: keys match, versions are positive and below the next version.\<close>

theorem protocol_keeps_store_inv:
  assumes "mem_reachable st"
  shows "mem_inv (snd (CreateOrUpdate mem_client st dep)) \<and>
         mem_inv (snd (GetAndUpdate mem_client st k f))"
proof
  have "mem_reachable (snd (CreateOrUpdate mem_client st dep))"
    using assms by (simp add: CreateOrUpdate_mem_state reachable_create reachable_update
        split: option.split)
  then show "mem_inv (snd (CreateOrUpdate mem_client st dep))"
    by (rule mem_reachable_inv)
  have "mem_reachable (snd (GetAndUpdate mem_client st k f))"
    using assms by (simp add: GetAndUpdate_mem_state reachable_update split: option.split)
  then show "mem_inv (snd (GetAndUpdate mem_client st k f))"
    by (rule mem_reachable_inv)
qed

theorem CreateOrUpdate_converges_witness:
  "objects (snd (CreateOrUpdate mem_client mem_init (zero_deployment\<lparr>dep_name := ''opencga''\<rparr>)))
      (''opencga'', []) =
     Some (zero_deployment\<lparr>dep_name := ''opencga'', dep_resource_version := 1\<rparr>)
   \<and> \<not> isl (fst (CreateOrUpdate mem_client mem_init (zero_deployment\<lparr>dep_name := ''opencga''\<rparr>)))"
  using CreateOrUpdate_converges [of "zero_deployment\<lparr>dep_name := ''opencga''\<rparr>" mem_init]
  by (simp add: zero_deployment_def mem_init_def key_of_def)

lemma example_store_inv:
  "mem_inv \<lparr>objects = [([], []) \<mapsto> zero_deployment\<lparr>dep_resource_version := 1\<rparr>], next_version = 2\<rparr>"
  by (auto simp: mem_inv_def zero_deployment_def key_of_def)

lemma set_rolling_update_keeps_identity: "keeps_identity set_rolling_update"
  by (simp add: keeps_identity_def set_rolling_update_def key_of_def)

theorem stale_update_conflicts_witness:
  "fst (mem_update
     (snd (GetAndUpdate mem_client
        \<lparr>objects = [([], []) \<mapsto> zero_deployment\<lparr>dep_resource_version := 1\<rparr>], next_version = 2\<rparr>
        ([], []) set_rolling_update))
     (set_rolling_update (zero_deployment\<lparr>dep_resource_version := 1\<rparr>))) = Inl Conflict"
  using stale_update_conflicts [OF example_store_inv _ set_rolling_update_keeps_identity
      set_rolling_update_keeps_identity, of "([], [])" "zero_deployment\<lparr>dep_resource_version := 1\<rparr>"]
  by simp

theorem fresh_update_keeps_both_witness:
  "objects (snd (GetAndUpdate mem_client
     (snd (GetAndUpdate mem_client
        \<lparr>objects = [([], []) \<mapsto> zero_deployment\<lparr>dep_resource_version := 1\<rparr>], next_version = 2\<rparr>
        ([], []) set_rolling_update)) ([], []) set_rolling_update)) ([], []) =
   Some ((set_rolling_update ((set_rolling_update (zero_deployment\<lparr>dep_resource_version := 1\<rparr>))
            \<lparr>dep_resource_version := 2\<rparr>))\<lparr>dep_resource_version := 3\<rparr>)"
  using fresh_update_keeps_both [OF example_store_inv _ set_rolling_update_keeps_identity
      set_rolling_update_keeps_identity, of "([], [])" "zero_deployment\<lparr>dep_resource_version := 1\<rparr>"]
  by simp

theorem protocol_keeps_store_inv_witness:
  "mem_inv (snd (CreateOrUpdate mem_client mem_init zero_deployment)) \<and>
   mem_inv (snd (GetAndUpdate mem_client mem_init ([], []) set_rolling_update))"
  by (rule protocol_keeps_store_inv [OF mem_reachable.init])

end
