(* ===== verification/Modification.thy ===== *)
theory Modification
  imports Workload
begin

text \<open>
  The modification engine of \<open>src/pkg/kube/statefulset/statefulset.go\<close>: a
  \<open>Modification\<close> is a function that mutates a Deployment in place, so here a
  function from Deployment to Deployment; \<open>New\<close> and \<open>Apply\<close> run a list of them
  left to right, and each \<open>With*\<close> constructor is one such function. The
  volume, mount and claim helpers of the same file come with it. The helpers the
  file calls but does not define (\<open>copyMap\<close>, \<open>merge.StringToStringMap\<close>) are
  modelled from the spec's merge policies: a copied map has the same entries,
  and an additive merge keeps every key and lets the incoming map win.
\<close>

section \<open>Map helpers\<close>

definition copyMap :: "strmap \<Rightarrow> strmap" where
  "copyMap m = m"

definition StringToStringMap :: "strmap \<Rightarrow> strmap \<Rightarrow> strmap" where
  "StringToStringMap dest src = dest ++ src"

section \<open>Modifications and their composition\<close>

type_synonym modification = "deployment \<Rightarrow> deployment"

definition notFound :: int where
  "notFound = -1"

text \<open>\<open>New\<close>: start from the zero Deployment and run every modification in order.\<close>

definition New :: "modification list \<Rightarrow> deployment" where
  "New mods = fold (\<lambda>m dep. m dep) mods zero_deployment"

text \<open>\<open>Apply\<close>: the modification that runs the given ones in order.\<close>

definition Apply :: "modification list \<Rightarrow> modification" where
  "Apply funcs = (\<lambda>dep. fold (\<lambda>f dep. f dep) funcs dep)"

definition NOOP :: modification where
  "NOOP = (\<lambda>dep. dep)"

definition WithName :: "string \<Rightarrow> modification" where
  "WithName name = (\<lambda>dep. dep\<lparr>dep_name := name\<rparr>)"

definition WithNamespace :: "string \<Rightarrow> modification" where
  "WithNamespace namespace = (\<lambda>dep. dep\<lparr>dep_namespace := namespace\<rparr>)"

text \<open>The only statement of \<open>WithServiceName\<close> is commented out in the source.\<close>

definition WithServiceName :: "string \<Rightarrow> modification" where
  "WithServiceName svcName = (\<lambda>sts. sts)"

definition WithLabels :: "strmap \<Rightarrow> modification" where
  "WithLabels labels = (\<lambda>dep. dep\<lparr>dep_labels := copyMap labels\<rparr>)"

definition WithAnnotations :: "strmap \<Rightarrow> modification" where
  "WithAnnotations annotations =
     (\<lambda>dep. dep\<lparr>dep_annotations := StringToStringMap (dep_annotations dep) annotations\<rparr>)"

definition empty_selector :: label_selector where
  "empty_selector = \<lparr>match_labels = Map.empty, match_expressions = []\<rparr>"

definition WithMatchLabels :: "strmap \<Rightarrow> modification" where
  "WithMatchLabels matchLabels =
     (\<lambda>dep. let sel = (case selector (dep_spec dep) of None \<Rightarrow> empty_selector | Some s \<Rightarrow> s)
            in dep\<lparr>dep_spec := (dep_spec dep)\<lparr>selector :=
                 Some (sel\<lparr>match_labels := copyMap matchLabels\<rparr>)\<rparr>\<rparr>)"

definition WithOwnerReference :: "owner_reference list \<Rightarrow> modification" where
  "WithOwnerReference ownerRefs =
     (let ownerReference = ownerRefs in (\<lambda>dep. dep\<lparr>owner_references := ownerReference\<rparr>))"

definition WithReplicas :: "int \<Rightarrow> modification" where
  "WithReplicas n =
     (let stsReplicas = go_int32 n in
      (\<lambda>dep. dep\<lparr>dep_spec := (dep_spec dep)\<lparr>replicas := Some stsReplicas\<rparr>\<rparr>))"

definition WithRevisionHistoryLimit :: "int \<Rightarrow> modification" where
  "WithRevisionHistoryLimit revisionHistoryLimit =
     (let rhl = go_int32 revisionHistoryLimit in
      (\<lambda>dep. dep\<lparr>dep_spec := (dep_spec dep)\<lparr>revision_history_limit := Some rhl\<rparr>\<rparr>))"

definition WithPodManagementPolicyType :: "string \<Rightarrow> modification" where
  "WithPodManagementPolicyType policyType =
     (\<lambda>dep. dep\<lparr>dep_spec := (dep_spec dep)\<lparr>pod_management_policy := policyType\<rparr>\<rparr>)"

definition WithSelector :: "label_selector option \<Rightarrow> modification" where
  "WithSelector sel = (\<lambda>dep. dep\<lparr>dep_spec := (dep_spec dep)\<lparr>selector := sel\<rparr>\<rparr>)"

definition WithUpdateStrategyType :: "string \<Rightarrow> modification" where
  "WithUpdateStrategyType strategyType =
     (\<lambda>dep. dep\<lparr>dep_spec := (dep_spec dep)\<lparr>strategy :=
        \<lparr>strategy_type = strategyType, strategy_rolling = None\<rparr>\<rparr>\<rparr>)"

definition WithPodSpecTemplate :: "(pod_template \<Rightarrow> pod_template) \<Rightarrow> modification" where
  "WithPodSpecTemplate templateFunc =
     (\<lambda>dep. dep\<lparr>dep_spec := (dep_spec dep)\<lparr>template := templateFunc (template (dep_spec dep))\<rparr>\<rparr>)"

section \<open>Volume claim templates: lookup or append\<close>

text \<open>The range loop of \<open>findVolumeClaimIndexByName\<close>, with its running index.\<close>

fun find_claim_from :: "string \<Rightarrow> pvc list \<Rightarrow> int \<Rightarrow> int" where
  "find_claim_from name [] idx = notFound"
| "find_claim_from name (p # pvcs) idx =
     (if pvc_name p = name then idx else find_claim_from name pvcs (idx + 1))"

definition findVolumeClaimIndexByName :: "string \<Rightarrow> pvc list \<Rightarrow> int" where
  "findVolumeClaimIndexByName name pvcs = find_claim_from name pvcs 0"

text \<open>
  \<open>WithVolumeClaim\<close>: find the claim template by name; if there is none, append
  a zero claim and take the last index; then let \<open>f\<close> mutate the template at that
  index. The index is always in range (lemma \<open>claim_index_in_range\<close> below), so
  the slice access of the source never panics.
\<close>

definition claim_slot :: "string \<Rightarrow> pvc list \<Rightarrow> pvc list \<times> int" where
  "claim_slot name pvcs =
     (let idx = findVolumeClaimIndexByName name pvcs in
      if idx = notFound then (pvcs @ [zero_pvc], int (length (pvcs @ [zero_pvc])) - 1)
      else (pvcs, idx))"

definition WithVolumeClaim :: "string \<Rightarrow> (pvc \<Rightarrow> pvc) \<Rightarrow> modification" where
  "WithVolumeClaim name f =
     (\<lambda>dep. case claim_slot name (volume_claim_templates (dep_spec dep)) of
        (vcts, idx) \<Rightarrow>
          dep\<lparr>dep_spec := (dep_spec dep)\<lparr>volume_claim_templates :=
             vcts[nat idx := f (vcts ! nat idx)]\<rparr>\<rparr>)"

text \<open>
  \<open>WithCustomSpecs\<close> replaces the spec by \<open>merge.StatefulSetSpecs\<close> of the current
  spec and the custom one; that merge lies outside \<open>src/\<close> and the spec does not
  define it, so it is a parameter here.
\<close>

definition WithCustomSpecs ::
  "(deployment_spec \<Rightarrow> deployment_spec \<Rightarrow> deployment_spec) \<Rightarrow> deployment \<Rightarrow> modification" where
  "WithCustomSpecs merge_specs spec = (\<lambda>dep. dep\<lparr>dep_spec := merge_specs (dep_spec dep) (dep_spec spec)\<rparr>)"

section \<open>Volumes and mounts\<close>

definition CreateVolumeFromConfigMap ::
  "string \<Rightarrow> string \<Rightarrow> (volume \<Rightarrow> volume) list \<Rightarrow> volume" where
  "CreateVolumeFromConfigMap name sourceName options =
     fold (\<lambda>option v. option v) options
       \<lparr>vol_name = name,
        vol_source = \<lparr>vs_config_map = Some \<lparr>cm_name = sourceName, cm_default_mode = None\<rparr>,
                      vs_secret = None, vs_empty_dir = None\<rparr>\<rparr>"

definition CreateVolumeFromSecret ::
  "string \<Rightarrow> string \<Rightarrow> (volume \<Rightarrow> volume) list \<Rightarrow> volume" where
  "CreateVolumeFromSecret name sourceName options =
     (let permission = (416 :: int32) in
      fold (\<lambda>option v. option v) options
        \<lparr>vol_name = name,
         vol_source = \<lparr>vs_config_map = None,
                       vs_secret = Some \<lparr>secret_name = sourceName, secret_default_mode = Some permission\<rparr>,
                       vs_empty_dir = None\<rparr>\<rparr>)"

definition CreateVolumeFromEmptyDir :: "string \<Rightarrow> volume" where
  "CreateVolumeFromEmptyDir name =
     \<lparr>vol_name = name,
      vol_source = \<lparr>vs_config_map = None, vs_secret = None,
                    vs_empty_dir = Some \<lparr>ed_medium = []\<rparr>\<rparr>\<rparr>"

definition CreateVolumeMount ::
  "string \<Rightarrow> string \<Rightarrow> (volume_mount \<Rightarrow> volume_mount) list \<Rightarrow> volume_mount" where
  "CreateVolumeMount name path options =
     fold (\<lambda>option m. option m) options
       \<lparr>vm_name = name, vm_mount_path = path, vm_read_only = False, vm_sub_path = []\<rparr>"

definition WithSecretDefaultMode :: "int32 option \<Rightarrow> volume \<Rightarrow> volume" where
  "WithSecretDefaultMode mode =
     (\<lambda>v. let src = vol_source v;
             sec = (case vs_secret src of
                      None \<Rightarrow> \<lparr>secret_name = [], secret_default_mode = None\<rparr>
                    | Some s \<Rightarrow> s)
          in v\<lparr>vol_source := src\<lparr>vs_secret := Some (sec\<lparr>secret_default_mode := mode\<rparr>)\<rparr>\<rparr>)"

definition WithSubPath :: "string \<Rightarrow> volume_mount \<Rightarrow> volume_mount" where
  "WithSubPath subPath = (\<lambda>v. v\<lparr>vm_sub_path := subPath\<rparr>)"

definition WithReadOnly :: "bool \<Rightarrow> volume_mount \<Rightarrow> volume_mount" where
  "WithReadOnly readonly = (\<lambda>v. v\<lparr>vm_read_only := readonly\<rparr>)"

primrec VolumeMountWithNameExists :: "volume_mount list \<Rightarrow> string \<Rightarrow> bool" where
  "VolumeMountWithNameExists [] volumeName = False"
| "VolumeMountWithNameExists (mount # mounts) volumeName =
     (if vm_name mount = volumeName then True else VolumeMountWithNameExists mounts volumeName)"

declare New_def [modification_defs] Apply_def [modification_defs] NOOP_def [modification_defs]
  WithName_def [modification_defs] WithNamespace_def [modification_defs]
  WithServiceName_def [modification_defs] WithLabels_def [modification_defs]
  WithAnnotations_def [modification_defs] WithMatchLabels_def [modification_defs]
  WithOwnerReference_def [modification_defs] WithReplicas_def [modification_defs]
  WithRevisionHistoryLimit_def [modification_defs] WithPodManagementPolicyType_def [modification_defs]
  WithSelector_def [modification_defs] WithUpdateStrategyType_def [modification_defs]
  WithPodSpecTemplate_def [modification_defs] WithCustomSpecs_def [modification_defs]
  copyMap_def [modification_defs] StringToStringMap_def [modification_defs]

section \<open>Descriptors of the modifications\<close>

text \<open>
  To state properties of lists of modifications, each \<open>With*\<close> constructor of the
  source has a descriptor, \<open>interp\<close> maps it to the constructor, and
  \<open>fields_of\<close> names the fields of the Deployment it writes.
\<close>

datatype field = FName | FNamespace | FLabels | FAnnotations | FSelector | FOwnerRefs
  | FReplicas | FRevisionHistoryLimit | FPodManagementPolicy | FStrategy | FTemplate | FClaims

datatype mod_desc =
    MName string | MNamespace string | MLabels strmap | MAnnotations strmap
  | MMatchLabels strmap | MSelector "label_selector option" | MOwnerRefs "owner_reference list"
  | MReplicas int | MRevisionHistoryLimit int | MPodManagementPolicy string
  | MUpdateStrategy string | MPodTemplate "pod_template \<Rightarrow> pod_template"
  | MVolumeClaim string "pvc \<Rightarrow> pvc" | MNOOP | MServiceName string

fun interp :: "mod_desc \<Rightarrow> modification" where
  "interp (MName n) = WithName n"
| "interp (MNamespace n) = WithNamespace n"
| "interp (MLabels l) = WithLabels l"
| "interp (MAnnotations a) = WithAnnotations a"
| "interp (MMatchLabels l) = WithMatchLabels l"
| "interp (MSelector s) = WithSelector s"
| "interp (MOwnerRefs r) = WithOwnerReference r"
| "interp (MReplicas n) = WithReplicas n"
| "interp (MRevisionHistoryLimit n) = WithRevisionHistoryLimit n"
| "interp (MPodManagementPolicy p) = WithPodManagementPolicyType p"
| "interp (MUpdateStrategy t) = WithUpdateStrategyType t"
| "interp (MPodTemplate f) = WithPodSpecTemplate f"
| "interp (MVolumeClaim n f) = WithVolumeClaim n f"
| "interp MNOOP = NOOP"
| "interp (MServiceName s) = WithServiceName s"

fun fields_of :: "mod_desc \<Rightarrow> field list" where
  "fields_of (MName _) = [FName]"
| "fields_of (MNamespace _) = [FNamespace]"
| "fields_of (MLabels _) = [FLabels]"
| "fields_of (MAnnotations _) = [FAnnotations]"
| "fields_of (MMatchLabels _) = [FSelector]"
| "fields_of (MSelector _) = [FSelector]"
| "fields_of (MOwnerRefs _) = [FOwnerRefs]"
| "fields_of (MReplicas _) = [FReplicas]"
| "fields_of (MRevisionHistoryLimit _) = [FRevisionHistoryLimit]"
| "fields_of (MPodManagementPolicy _) = [FPodManagementPolicy]"
| "fields_of (MUpdateStrategy _) = [FStrategy]"
| "fields_of (MPodTemplate _) = [FTemplate]"
| "fields_of (MVolumeClaim _ _) = [FClaims]"
| "fields_of MNOOP = []"
| "fields_of (MServiceName _) = []"

definition disjoint_fields :: "mod_desc list \<Rightarrow> bool" where
  "disjoint_fields ms \<longleftrightarrow> distinct (concat (map fields_of ms))"

text \<open>The condition under which a modification is idempotent.\<close>

fun desc_ok :: "mod_desc \<Rightarrow> bool" where
  "desc_ok (MPodTemplate f) \<longleftrightarrow> (\<forall>t. f (f t) = f t)"
| "desc_ok (MVolumeClaim n f) \<longleftrightarrow> (\<forall>p. pvc_name (f p) = n \<and> f (f p) = f p)"
| "desc_ok _ \<longleftrightarrow> True"

text \<open>A volume the API accepts has exactly one source.\<close>

definition single_source :: "volume \<Rightarrow> bool" where
  "single_source v \<longleftrightarrow>
     length (filter id [vs_config_map (vol_source v) \<noteq> None, vs_secret (vol_source v) \<noteq> None,
                        vs_empty_dir (vol_source v) \<noteq> None]) = 1"

section \<open>Properties\<close>

lemma interp_commute:
  "set (fields_of a) \<inter> set (fields_of b) = {} \<Longrightarrow> interp a \<circ> interp b = interp b \<circ> interp a"
  by (cases a; cases b) (simp_all add: modification_defs WithVolumeClaim_def fun_eq_iff Let_def
      split: prod.split option.split)

lemma Apply_fold: "Apply fs = fold (\<lambda>f. f) fs"
  by (simp add: Apply_def fun_eq_iff)

lemma interp_list_commute:
  assumes "disjoint_fields ms" "f \<in> set (map interp ms)" "g \<in> set (map interp ms)"
  shows "f \<circ> g = g \<circ> f"
proof -
  from assms(2,3) obtain a b where ab: "a \<in> set ms" "b \<in> set ms" "f = interp a" "g = interp b"
    by auto
  show ?thesis
  proof (cases "a = b")
    case True
    with ab show ?thesis by simp
  next
    case False
    with ab assms(1) have "set (fields_of a) \<inter> set (fields_of b) = {}"
      by (auto simp: disjoint_fields_def dest: distinct_concat_disjoint)
    then have "interp a \<circ> interp b = interp b \<circ> interp a" by (rule interp_commute)
    with ab show ?thesis by simp
  qed
qed

text \<open>C18: modifications that touch disjoint fields of the Deployment give the same result in any order: \<open>Apply\<close> of any permutation of such a list is the same function.\<close>

theorem disjoint_mods_commute:
  assumes "disjoint_fields ms" and "mset ms = mset ms'"
  shows "Apply (map interp ms) d = Apply (map interp ms') d"
proof -
  have "fold (\<lambda>f. f) (map interp ms) = fold (\<lambda>f. f) (map interp ms')"
  proof (rule fold_multiset_equiv)
    show "mset (map interp ms) = mset (map interp ms')"
      using assms(2) by simp
    fix f g assume "f \<in> set (map interp ms)" "g \<in> set (map interp ms)"
    with assms(1) show "f \<circ> g = g \<circ> f" by (rule interp_list_commute)
  qed
  then show ?thesis by (simp add: Apply_fold)
qed

lemma find_claim_from_eq:
  "find_claim_from n pvcs idx =
     (if n \<in> pvc_name ` set pvcs then idx + int (length (takeWhile (\<lambda>p. pvc_name p \<noteq> n) pvcs))
      else notFound)"
  by (induction n pvcs idx rule: find_claim_from.induct) auto

lemma findVolumeClaimIndexByName_eq:
  "findVolumeClaimIndexByName n pvcs =
     (if n \<in> pvc_name ` set pvcs then int (length (takeWhile (\<lambda>p. pvc_name p \<noteq> n) pvcs))
      else -1)"
  by (simp add: findVolumeClaimIndexByName_def find_claim_from_eq notFound_def)

lemma takeWhile_index:
  assumes "n \<in> pvc_name ` set pvcs"
  shows "length (takeWhile (\<lambda>p. pvc_name p \<noteq> n) pvcs) < length pvcs"
    and "pvc_name (pvcs ! length (takeWhile (\<lambda>p. pvc_name p \<noteq> n) pvcs)) = n"
  using assms by (induction pvcs) auto

lemma claims_after:
  "volume_claim_templates (dep_spec (WithVolumeClaim n f d)) =
     (let vcts = volume_claim_templates (dep_spec d);
          i = length (takeWhile (\<lambda>p. pvc_name p \<noteq> n) vcts)
      in if n \<in> pvc_name ` set vcts then vcts[i := f (vcts ! i)] else vcts @ [f zero_pvc])"
  by (simp add: WithVolumeClaim_def claim_slot_def findVolumeClaimIndexByName_eq notFound_def Let_def)

lemma takeWhile_len_update:
  "n \<in> pvc_name ` set xs \<Longrightarrow> pvc_name y = n \<Longrightarrow>
   length (takeWhile (\<lambda>p. pvc_name p \<noteq> n)
     (xs[length (takeWhile (\<lambda>p. pvc_name p \<noteq> n) xs) := y])) =
   length (takeWhile (\<lambda>p. pvc_name p \<noteq> n) xs)"
  by (induction xs) auto

lemma takeWhile_len_append:
  "n \<notin> pvc_name ` set xs \<Longrightarrow> pvc_name y = n \<Longrightarrow>
   length (takeWhile (\<lambda>p. pvc_name p \<noteq> n) (xs @ [y])) = length xs"
  by (induction xs) auto

lemma WithVolumeClaim_frame:
  "WithVolumeClaim n f d =
     d\<lparr>dep_spec := (dep_spec d)\<lparr>volume_claim_templates :=
        volume_claim_templates (dep_spec (WithVolumeClaim n f d))\<rparr>\<rparr>"
  by (simp add: WithVolumeClaim_def split: prod.split)

lemma WithVolumeClaim_idem:
  assumes nm: "\<forall>p. pvc_name (f p) = n" and idem: "\<forall>p. f (f p) = f p"
  shows "WithVolumeClaim n f (WithVolumeClaim n f d) = WithVolumeClaim n f d"
proof -
  let ?P = "\<lambda>p. pvc_name p \<noteq> n"
  let ?vcts = "volume_claim_templates (dep_spec d)"
  let ?i = "length (takeWhile ?P ?vcts)"
  have "volume_claim_templates (dep_spec (WithVolumeClaim n f (WithVolumeClaim n f d))) =
        volume_claim_templates (dep_spec (WithVolumeClaim n f d))"
  proof (cases "n \<in> pvc_name ` set ?vcts")
    case True
    let ?v1 = "?vcts[?i := f (?vcts ! ?i)]"
    have lt: "?i < length ?vcts" using True by (rule takeWhile_index)
    have v1: "volume_claim_templates (dep_spec (WithVolumeClaim n f d)) = ?v1"
      using True by (simp add: claims_after Let_def)
    have "n \<in> pvc_name ` set ?v1"
      using lt nm by (metis image_eqI nth_mem length_list_update nth_list_update_eq)
    moreover have "length (takeWhile ?P ?v1) = ?i"
      using True nm by (simp add: takeWhile_len_update)
    ultimately show ?thesis
      using v1 lt idem by (simp add: claims_after Let_def)
  next
    case False
    let ?v1 = "?vcts @ [f zero_pvc]"
    have v1: "volume_claim_templates (dep_spec (WithVolumeClaim n f d)) = ?v1"
      using False by (simp add: claims_after Let_def)
    have "n \<in> pvc_name ` set ?v1" using nm by auto
    moreover have "length (takeWhile ?P ?v1) = length ?vcts"
      using False nm by (simp add: takeWhile_len_append)
    ultimately show ?thesis
      using v1 idem by (simp add: claims_after Let_def)
  qed
  then show ?thesis
    by (subst (1 2) WithVolumeClaim_frame) (simp add: WithVolumeClaim_frame [symmetric])
qed

lemma interp_idem: "desc_ok a \<Longrightarrow> interp a \<circ> interp a = interp a"
proof (cases a)
  case (MVolumeClaim n f)
  then show "desc_ok a \<Longrightarrow> interp a \<circ> interp a = interp a"
    by (simp add: fun_eq_iff WithVolumeClaim_idem)
qed (simp_all add: modification_defs fun_eq_iff Let_def split: option.split)

text \<open>C19: applying a list of modifications on disjoint fields twice is applying it once, when each is idempotent on its own: every \<open>With*\<close> setter is, the template modification when its function is, and the claim modification when its function sets the claim's name and is idempotent.\<close>

theorem mods_idempotent:
  assumes "disjoint_fields ms" and "\<forall>a\<in>set ms. desc_ok a"
  shows "Apply (map interp ms) (Apply (map interp ms) d) = Apply (map interp ms) d"
proof -
  have "fold (\<lambda>f. f) (map interp ms) (fold (\<lambda>f. f) (map interp ms) d) =
        fold (\<lambda>f. f) (map interp ms) d"
  proof (rule fold_apply_twice)
    fix f g assume "f \<in> set (map interp ms)" "g \<in> set (map interp ms)"
    with assms(1) show "f \<circ> g = g \<circ> f" by (rule interp_list_commute)
  next
    fix f assume "f \<in> set (map interp ms)"
    with assms(2) show "f \<circ> f = f" by (auto intro: interp_idem)
  qed
  then show ?thesis by (simp add: Apply_fold)
qed

text \<open>C21: \<open>WithVolumeClaim\<close> is not idempotent when its function does not give the appended claim the looked-up name: on any Deployment without a claim of that name, applying it twice appends two claims, where spec 4.1 expects lookup-or-append to find the first one the second time.\<close>

theorem volume_claim_not_idempotent:
  assumes "n \<notin> pvc_name ` set (volume_claim_templates (dep_spec d))"
    and "pvc_name (f zero_pvc) \<noteq> n"
  shows "volume_claim_templates (dep_spec (Apply [WithVolumeClaim n f, WithVolumeClaim n f] d)) =
    volume_claim_templates (dep_spec d) @ [f zero_pvc, f zero_pvc]"
  using assms by (simp add: Apply_def claims_after Let_def)

text \<open>C20: \<open>WithVolumeClaim\<close> mutates the first claim template with the given name in place, or, when there is none, appends a zero claim and mutates that; nothing else of the Deployment changes.\<close>

theorem WithVolumeClaim_lookup_or_append:
  "volume_claim_templates (dep_spec (WithVolumeClaim n f d)) =
     (let vcts = volume_claim_templates (dep_spec d) in
      if n \<in> pvc_name ` set vcts
      then (let i = length (takeWhile (\<lambda>p. pvc_name p \<noteq> n) vcts) in
            vcts[i := f (vcts ! i)])
      else vcts @ [f zero_pvc])
   \<and> WithVolumeClaim n f d =
     d\<lparr>dep_spec := (dep_spec d)\<lparr>volume_claim_templates :=
        volume_claim_templates (dep_spec (WithVolumeClaim n f d))\<rparr>\<rparr>"
proof (rule conjI)
  show "volume_claim_templates (dep_spec (WithVolumeClaim n f d)) =
     (let vcts = volume_claim_templates (dep_spec d) in
      if n \<in> pvc_name ` set vcts
      then (let i = length (takeWhile (\<lambda>p. pvc_name p \<noteq> n) vcts) in
            vcts[i := f (vcts ! i)])
      else vcts @ [f zero_pvc])"
    by (simp add: claims_after Let_def)
qed (rule WithVolumeClaim_frame)

text \<open>C22: \<open>findVolumeClaimIndexByName\<close> returns -1 exactly when no template has the name, and otherwise the index of the first template that has it.\<close>

theorem findVolumeClaimIndexByName_first:
  "(findVolumeClaimIndexByName n pvcs = -1 \<longleftrightarrow> (\<forall>p\<in>set pvcs. pvc_name p \<noteq> n)) \<and>
   (findVolumeClaimIndexByName n pvcs = int i \<longleftrightarrow>
     i < length pvcs \<and> pvc_name (pvcs ! i) = n \<and> (\<forall>j<i. pvc_name (pvcs ! j) \<noteq> n))"
proof (cases "n \<in> pvc_name ` set pvcs")
  case True
  then have ex: "\<exists>x\<in>set pvcs. \<not> pvc_name x \<noteq> n" by auto
  from True show ?thesis
    by (auto simp: findVolumeClaimIndexByName_eq length_takeWhile_eq [OF ex])
next
  case False
  then show ?thesis
    by (auto simp: findVolumeClaimIndexByName_eq)
qed

text \<open>C23: \<open>WithAnnotations\<close> merges additively: a key of the incoming map takes its value, every other existing annotation is kept.\<close>

theorem annotations_merge:
  "dep_annotations (WithAnnotations a d) k =
     (case a k of Some v \<Rightarrow> Some v | None \<Rightarrow> dep_annotations d k)"
  by (simp add: WithAnnotations_def StringToStringMap_def map_add_def)

text \<open>For replica counts in the int32 range, \<open>WithReplicas\<close> sets the spec's replicas to that count.\<close>

theorem WithReplicas_in_range:
  assumes "- (2 ^ 31) \<le> n" and "n < 2 ^ 31"
  shows "map_option sint (replicas (dep_spec (WithReplicas n d))) = Some n"
  using assms by (simp add: WithReplicas_def sint_go_int32)

text \<open>C25: \<open>WithReplicas\<close> does not check the range: for every count it sets the replicas to the count wrapped into the int32 range by Go's conversion, so counts from \<open>2^31\<close> on become negative (\<open>2^31\<close> replicas become \<open>-2^31\<close>).\<close>

theorem WithReplicas_wraps:
  "map_option sint (replicas (dep_spec (WithReplicas n d))) = Some ((n + 2 ^ 31) mod 2 ^ 32 - 2 ^ 31)"
  by (simp add: WithReplicas_def sint_go_int32_wrap)

text \<open>C40: \<open>VolumeMountWithNameExists\<close> holds exactly when some mount of the list has the volume name.\<close>

theorem VolumeMountWithNameExists_iff:
  "VolumeMountWithNameExists mounts volumeName \<longleftrightarrow> (\<exists>m\<in>set mounts. vm_name m = volumeName)"
  by (induction mounts) auto

text \<open>C27: the volume constructors produce volumes with exactly one source set, when their options keep that property.\<close>

theorem volume_helpers_single_source:
  assumes "\<forall>opt\<in>set opts. \<forall>v. single_source v \<longrightarrow> single_source (opt v)"
  shows "single_source (CreateVolumeFromConfigMap n s opts) \<and>
         single_source (CreateVolumeFromSecret n s opts) \<and>
         single_source (CreateVolumeFromEmptyDir n)"
  unfolding CreateVolumeFromConfigMap_def CreateVolumeFromSecret_def Let_def
  by (intro conjI fold_keeps [where P = single_source] assms)
    (simp_all add: single_source_def CreateVolumeFromEmptyDir_def)

text \<open>C28: \<open>WithSecretDefaultMode\<close> adds a Secret source to any volume, so as the last option of \<open>CreateVolumeFromConfigMap\<close>, after options that keep the ConfigMap source, it yields a volume with two sources (a ConfigMap and a Secret), which the API rejects.\<close>

theorem secret_mode_on_config_map:
  assumes "\<forall>opt\<in>set opts. \<forall>v. vs_config_map (vol_source v) \<noteq> None \<longrightarrow> vs_config_map (vol_source (opt v)) \<noteq> None"
  shows "\<not> single_source (CreateVolumeFromConfigMap n s (opts @ [WithSecretDefaultMode m]))"
proof -
  let ?v = "fold (\<lambda>option v. option v) opts
    \<lparr>vol_name = n, vol_source = \<lparr>vs_config_map = Some \<lparr>cm_name = s, cm_default_mode = None\<rparr>,
       vs_secret = None, vs_empty_dir = None\<rparr>\<rparr>"
  have "vs_config_map (vol_source ?v) \<noteq> None"
    by (rule fold_keeps [where P = "\<lambda>v. vs_config_map (vol_source v) \<noteq> None"]) (use assms in simp_all)
  then show ?thesis
    by (simp add: CreateVolumeFromConfigMap_def WithSecretDefaultMode_def single_source_def Let_def)
qed

text \<open>\<open>CreateVolumeFromSecret\<close> sets default mode 416 (octal 0640) on the secret source, and its options run after the defaults, so \<open>WithSecretDefaultMode\<close> overrides it.\<close>

theorem CreateVolumeFromSecret_mode:
  "vs_secret (vol_source (CreateVolumeFromSecret n s [])) =
     Some \<lparr>secret_name = s, secret_default_mode = Some 416\<rparr> \<and>
   unat (416 :: int32) = 6 * 8 ^ 2 + 4 * 8 \<and>
   vs_secret (vol_source (CreateVolumeFromSecret n s [WithSecretDefaultMode m])) =
     Some \<lparr>secret_name = s, secret_default_mode = m\<rparr>"
  by (simp add: CreateVolumeFromSecret_def WithSecretDefaultMode_def)

theorem disjoint_mods_commute_witness: "Apply (map interp [MName ''a'', MReplicas 3]) zero_deployment = Apply (map interp [MReplicas 3, MName ''a'']) zero_deployment"
  by (rule disjoint_mods_commute) (simp_all add: disjoint_fields_def add_mset_commute)

theorem mods_idempotent_witness: "Apply (map interp [MName ''a'', MVolumeClaim ''data'' (\<lambda>p. p\<lparr>pvc_name := ''data''\<rparr>)])
    (Apply (map interp [MName ''a'', MVolumeClaim ''data'' (\<lambda>p. p\<lparr>pvc_name := ''data''\<rparr>)]) zero_deployment) =
   Apply (map interp [MName ''a'', MVolumeClaim ''data'' (\<lambda>p. p\<lparr>pvc_name := ''data''\<rparr>)]) zero_deployment"
  by (rule mods_idempotent) (simp_all add: disjoint_fields_def)

theorem volume_helpers_single_source_witness: "single_source (CreateVolumeFromConfigMap ''config'' ''cm'' [\<lambda>v. v\<lparr>vol_name := ''renamed''\<rparr>]) \<and>
  single_source (CreateVolumeFromSecret ''config'' ''cm'' [\<lambda>v. v\<lparr>vol_name := ''renamed''\<rparr>]) \<and>
  single_source (CreateVolumeFromEmptyDir ''config'')"
  by (rule volume_helpers_single_source) (simp add: single_source_def)


theorem WithReplicas_in_range_witness:
  "map_option sint (replicas (dep_spec (WithReplicas 3 zero_deployment))) = Some 3"
  by (rule WithReplicas_in_range) simp_all

theorem findVolumeClaimIndexByName_first_witness:
  "findVolumeClaimIndexByName ''data'' [zero_pvc\<lparr>pvc_name := ''logs''\<rparr>, zero_pvc\<lparr>pvc_name := ''data''\<rparr>] = int 1 \<and>
   findVolumeClaimIndexByName ''data'' [zero_pvc\<lparr>pvc_name := ''logs''\<rparr>] = -1"
proof -
  have "findVolumeClaimIndexByName ''data'' [zero_pvc\<lparr>pvc_name := ''logs''\<rparr>, zero_pvc\<lparr>pvc_name := ''data''\<rparr>] = int 1"
    using findVolumeClaimIndexByName_first [of "''data''" "[zero_pvc\<lparr>pvc_name := ''logs''\<rparr>, zero_pvc\<lparr>pvc_name := ''data''\<rparr>]" 1]
    by (simp add: less_Suc_eq)
  moreover have "findVolumeClaimIndexByName ''data'' [zero_pvc\<lparr>pvc_name := ''logs''\<rparr>] = -1"
    using findVolumeClaimIndexByName_first [of "''data''" "[zero_pvc\<lparr>pvc_name := ''logs''\<rparr>]" 0]
    by simp
  ultimately show ?thesis ..
qed


theorem volume_claim_not_idempotent_witness:
  "volume_claim_templates (dep_spec
     (Apply [WithVolumeClaim ''data'' id, WithVolumeClaim ''data'' id] zero_deployment)) =
   [zero_pvc, zero_pvc]"
  using volume_claim_not_idempotent [of "''data''" zero_deployment id]
  by (simp add: zero_deployment_def zero_deployment_spec_def zero_pvc_def)

theorem secret_mode_on_config_map_witness:
  "\<not> single_source (CreateVolumeFromConfigMap ''config'' ''cm''
     [\<lambda>v. v\<lparr>vol_name := ''renamed''\<rparr>, WithSecretDefaultMode (Some 256)])"
  using secret_mode_on_config_map [of "[\<lambda>v. v\<lparr>vol_name := ''renamed''\<rparr>]" "''config''" "''cm''" "Some 256"]
  by simp

end
