(* ===== verification/Readiness.thy ===== *)
theory Readiness
  imports Workload
begin

text \<open>
  The readiness check \<open>IsReady\<close> of \<open>src/pkg/kube/statefulset/statefulset.go\<close>:
  a StatefulSet is ready when the expected replica count, converted to
  \<open>int32\<close>, equals both the updated and the ready replica counts of its status,
  and its generation has been observed. Go's conversion keeps the low 32 bits,
  so the check is exact only for counts in the int32 range.
\<close>

definition IsReady :: "stateful_set \<Rightarrow> int \<Rightarrow> bool" where
  "IsReady sts expectedReplicas =
     (let allUpdated = (go_int32 expectedReplicas = updated_replicas (sts_status sts));
          allReady = (go_int32 expectedReplicas = ready_replicas (sts_status sts));
          atExpectedGeneration = (sts_generation sts = observed_generation (sts_status sts))
      in allUpdated \<and> allReady \<and> atExpectedGeneration)"

text \<open>C30: for expected counts in the int32 range, \<open>IsReady\<close> holds exactly when the updated and the ready replica counts (read as signed int32) both equal the expected count and the generation equals the observed generation; each of the three conditions is necessary.\<close>

theorem IsReady_iff:
  assumes "- (2 ^ 31) \<le> n" and "n < 2 ^ 31"
  shows "IsReady sts n \<longleftrightarrow>
    sint (updated_replicas (sts_status sts)) = n \<and>
    sint (ready_replicas (sts_status sts)) = n \<and>
    sts_generation sts = observed_generation (sts_status sts)"
proof -
  have "go_int32 n = w \<longleftrightarrow> sint w = n" for w :: int32
    using assms by (rule go_int32_eq_sint_iff)
  then show ?thesis by (simp add: IsReady_def)
qed

text \<open>C31: \<open>IsReady\<close> does not check the range of the expected count: for every count, it compares the replica counts with the count wrapped into the int32 range, so a count outside that range is judged as the in-range count with the same low 32 bits (\<open>2^32 + 3\<close> expected replicas are ready when 3 are).\<close>

theorem IsReady_wraps:
  "IsReady sts n \<longleftrightarrow>
    sint (updated_replicas (sts_status sts)) = (n + 2 ^ 31) mod 2 ^ 32 - 2 ^ 31 \<and>
    sint (ready_replicas (sts_status sts)) = (n + 2 ^ 31) mod 2 ^ 32 - 2 ^ 31 \<and>
    sts_generation sts = observed_generation (sts_status sts)"
proof -
  have "go_int32 n = w \<longleftrightarrow> sint w = (n + 2 ^ 31) mod 2 ^ 32 - 2 ^ 31" for w :: int32
    by (metis go_int32_sint sint_go_int32_wrap)
  then show ?thesis by (simp add: IsReady_def)
qed

theorem IsReady_iff_witness:
  "IsReady \<lparr>sts_generation = 2,
     sts_status = \<lparr>updated_replicas = 3, ready_replicas = 3, observed_generation = 2\<rparr>\<rparr> 3 \<and>
   \<not> IsReady \<lparr>sts_generation = 2,
     sts_status = \<lparr>updated_replicas = 3, ready_replicas = 2, observed_generation = 2\<rparr>\<rparr> 3 \<and>
   \<not> IsReady \<lparr>sts_generation = 2,
     sts_status = \<lparr>updated_replicas = 3, ready_replicas = 3, observed_generation = 1\<rparr>\<rparr> 3"
  using IsReady_iff [of 3] by simp

end
