(* ===== verification/Reconcile.thy ===== *)
theory Reconcile
  imports Status Mem_Store Modification Readiness
begin

text \<open>
  The reconciliation pass that composes the components, and the control loop
  that repeats it. The controller that calls them is not part of the
  repository; both are modelled from the spec (sections 2, 3 and 7): a pass
  builds the desired Deployment with \<open>New\<close>, persists it with
  \<open>CreateOrUpdate\<close>, judges the observed StatefulSet with \<open>IsReady\<close> in a
  status option (the spec's "workload not yet at expected replica count"
  producer) and reports through \<open>status.Update\<close>; the loop runs passes until
  one reports Done, retrying after a store error or a requeue. The observed
  StatefulSet of each pass comes from the environment (the kubelet drives it),
  a sequence indexed by the pass number. Not returning is the value \<open>None\<close>
  of a \<open>partial_function (option)\<close>.
\<close>

section \<open>One pass\<close>

text \<open>
  The replica-count option: when the workload is ready it records phase
  Running and the member count and asks for nothing; otherwise it records
  phase Pending and asks for a requeue after \<open>delay\<close> nanoseconds.
\<close>

definition replicas_option :: "int \<Rightarrow> stateful_set \<Rightarrow> int \<Rightarrow> status_option" where
  "replicas_option delay sts n =
     (if IsReady sts n
      then \<lparr>apply_option = (\<lambda>ocb. ocb\<lparr>status := (status ocb)\<lparr>phase := Running,
              current_statefulset_replicas := n\<rparr>\<rparr>),
            get_result = (empty_result, None)\<rparr>
      else \<lparr>apply_option = (\<lambda>ocb. ocb\<lparr>status := (status ocb)\<lparr>phase := Pending\<rparr>\<rparr>),
            get_result = (empty_result\<lparr>requeue_after := delay\<rparr>, None)\<rparr>)"

text \<open>What a pass reports: the store error of the apply, or the control decision.\<close>

datatype pass_result = ApplyFailed store_error | Decided control_decision

text \<open>
  One pass over the cluster client's state and the status writer's state:
  an apply error ends the pass before any status write (spec section 7:
  store errors propagate unchanged, fatal to the pass).
\<close>

definition reconcile_pass ::
  "'c dep_client \<Rightarrow> 's status_writer \<Rightarrow> int \<Rightarrow> mod_desc list \<Rightarrow> opencga_community \<Rightarrow>
   stateful_set \<Rightarrow> 'c \<times> 's \<Rightarrow> pass_result \<times> ('c \<times> 's)" where
  "reconcile_pass c w delay ms ocb sts world =
     (case world of (cs, ws) \<Rightarrow>
       (case CreateOrUpdate c cs (New (map interp ms)) of
          (Inl err, cs') \<Rightarrow> (ApplyFailed err, (cs', ws))
        | (Inr _, cs') \<Rightarrow>
            (case Update w ws ocb [replicas_option delay sts (members (spec ocb))] of
               (r, _, ws') \<Rightarrow> (Decided (to_decision r), (cs', ws')))))"

section \<open>The control loop\<close>

text \<open>
  The outer loop (spec section 7): pass \<open>i\<close> runs on the world the previous
  pass left; Done ends the loop with the pass number and the world, anything
  else schedules pass \<open>i + 1\<close>. A loop whose passes never report Done does not
  return.
\<close>

partial_function (option) control_loop ::
  "(nat \<Rightarrow> 'x \<Rightarrow> pass_result \<times> 'x) \<Rightarrow> nat \<Rightarrow> 'x \<Rightarrow> (nat \<times> 'x) option" where
  "control_loop pass i x =
     (case pass i x of
        (r, x') \<Rightarrow> if r = Decided Done then Some (i, x') else control_loop pass (Suc i) x')"

definition reconcile_loop ::
  "'c dep_client \<Rightarrow> 's status_writer \<Rightarrow> int \<Rightarrow> mod_desc list \<Rightarrow> opencga_community \<Rightarrow>
   (nat \<Rightarrow> stateful_set) \<Rightarrow> nat \<Rightarrow> 'c \<times> 's \<Rightarrow> (nat \<times> ('c \<times> 's)) option" where
  "reconcile_loop c w delay ms ocb env =
     control_loop (\<lambda>i. reconcile_pass c w delay ms ocb (env i))"

text \<open>
  The status-persistence collaborator of spec section 6 as a store of the
  last written resource; status writes do not fail.
\<close>

definition status_store :: "opencga_community option status_writer" where
  "status_store = (\<lambda>_ ocb. (None, Some ocb))"

text \<open>An observed StatefulSet at generation 1 with 3 updated replicas, for the examples.\<close>

definition example_sts :: "int32 \<Rightarrow> stateful_set" where
  "example_sts ready = \<lparr>sts_generation = 1,
     sts_status = \<lparr>updated_replicas = 3, ready_replicas = ready, observed_generation = 1\<rparr>\<rparr>"

section \<open>The loop: termination and first-ready characterisation\<close>

lemma control_loop_induct:
  assumes ret: "control_loop pass i x = Some r"
    and step: "\<And>f pass i x r. (\<And>pass i x r. f pass i x = Some r \<Longrightarrow> P pass i x r) \<Longrightarrow>
      (case pass i x of (d, x') \<Rightarrow> if d = Decided Done then Some (i, x') else f pass (Suc i) x') = Some r \<Longrightarrow>
      P pass i x r"
  shows "P pass i x r"
proof (rule control_loop.raw_induct [of P "((pass, i), x)" r, simplified])
  show "control_loop pass i x = Some r" by (rule ret)
  fix f pass i x r
  assume "\<And>pass i x r. f pass i x = Some r \<Longrightarrow> P pass i x r"
    and "(case pass i x of (d, x') \<Rightarrow> if d = Decided Done then Some (i, x') else f pass (Suc i) x') = Some r"
  then show "P pass i x r" by (rule step)
qed

lemma control_loop_reaches:
  assumes "i \<le> k" and "\<forall>y. fst (pass k y) = Decided Done"
  shows "\<exists>j x'. control_loop pass i x = Some (j, x') \<and> i \<le> j \<and> j \<le> k"
  using assms(1)
proof (induction "k - i" arbitrary: i x)
  case 0
  obtain r x' where p: "pass i x = (r, x')" by fastforce
  from 0 have "i = k" by simp
  with assms(2) p have "r = Decided Done" by (metis fst_conv)
  with p \<open>i = k\<close> show ?case by (subst control_loop.simps) simp
next
  case (Suc d)
  obtain r x' where p: "pass i x = (r, x')" by fastforce
  show ?case
  proof (cases "r = Decided Done")
    case True
    with p Suc.prems show ?thesis by (subst control_loop.simps) simp
  next
    case False
    have "i \<noteq> k"
    proof
      assume "i = k"
      with assms(2) p False show False by (metis fst_conv)
    qed
    with Suc.prems have "Suc i \<le> k" by simp
    moreover from Suc.hyps have "d = k - Suc i" by simp
    ultimately obtain j x'' where "control_loop pass (Suc i) x' = Some (j, x'')" "Suc i \<le> j" "j \<le> k"
      using Suc.hyps(1) by blast
    with p False show ?thesis by (subst control_loop.simps) simp
  qed
qed

lemma control_loop_first:
  assumes verdict: "\<forall>m y. fst (pass m y) = Decided Done \<longleftrightarrow> D m"
    and ret: "control_loop pass i x = Some r"
  shows "i \<le> fst r \<and> D (fst r) \<and> (\<forall>m. i \<le> m \<and> m < fst r \<longrightarrow> \<not> D m) \<and>
    (\<exists>y. pass (fst r) y = (Decided Done, snd r))"
  using verdict
proof (induction rule: control_loop_induct [OF ret])
  case (1 f pass i x r)
  obtain d x' where p: "pass i x = (d, x')" by fastforce
  show ?case
  proof (cases "d = Decided Done")
    case True
    with "1.hyps" p have "r = (i, x')" by simp
    moreover from "1.prems" p True have "D i" by (metis fst_conv)
    ultimately show ?thesis using p True by auto
  next
    case False
    with "1.hyps" p have rec: "f pass (Suc i) x' = Some r" by simp
    from "1.prems" p False have "\<not> D i" by (metis fst_conv)
    from "1.IH" [OF rec "1.prems"] have
      rest: "Suc i \<le> fst r" "D (fst r)" "\<forall>m. Suc i \<le> m \<and> m < fst r \<longrightarrow> \<not> D m"
        "\<exists>y. pass (fst r) y = (Decided Done, snd r)"
      by blast+
    have "\<forall>m. i \<le> m \<and> m < fst r \<longrightarrow> \<not> D m"
    proof (intro allI impI)
      fix m assume m: "i \<le> m \<and> m < fst r"
      show "\<not> D m"
      proof (cases "m = i")
        case True
        with \<open>\<not> D i\<close> show ?thesis by simp
      next
        case False
        with m rest(3) show ?thesis by simp
      qed
    qed
    with rest show ?thesis by simp
  qed
qed


section \<open>A pass against the store\<close>

lemma interp_resource_version: "dep_resource_version (interp a d) = dep_resource_version d"
  by (cases a) (simp_all add: modification_defs WithVolumeClaim_def Let_def split: prod.split)

lemma New_map_interp_rv: "dep_resource_version (New (map interp ms)) = 0"
proof -
  have "dep_resource_version (fold (\<lambda>f. f) (map interp ms) d) = dep_resource_version d" for d
    by (induction ms arbitrary: d) (simp_all add: interp_resource_version)
  then show ?thesis by (simp add: New_def zero_deployment_def)
qed

lemma replicas_option_decision:
  "to_decision (determineReconciliationResult [replicas_option delay sts n]) =
     (if IsReady sts n \<or> \<not> 0 < delay then Done else RequeueAfter delay)"
  by (simp add: replicas_option_def determineReconciliationResult_def is_requeue_def
      empty_result_def)

lemma reconcile_pass_mem:
  assumes "\<forall>s c. fst (w s c) = None"
  shows "reconcile_pass mem_client w delay ms ocb sts (st, s) =
    (Decided (if IsReady sts (members (spec ocb)) \<or> \<not> 0 < delay then Done else RequeueAfter delay),
     (snd (mem_store st (New (map interp ms))),
      snd (w s (apply_option (replicas_option delay sts (members (spec ocb))) ocb))))"
proof -
  let ?opt = "replicas_option delay sts (members (spec ocb))"
  obtain d where cu: "CreateOrUpdate mem_client st (New (map interp ms)) =
      (Inr d, snd (mem_store st (New (map interp ms))))"
    using CreateOrUpdate_fresh_stores [OF New_map_interp_rv, of st ms]
    by (cases "objects st (key_of (New (map interp ms)))") auto
  obtain s' where wr: "w s (apply_option ?opt ocb) = (None, s')"
    using assms by (metis prod.collapse)
  then have "Update w s ocb [?opt] = (determineReconciliationResult [?opt], apply_option ?opt ocb, s')"
    by (simp add: Update_def Let_def)
  with cu wr show ?thesis
    by (simp add: reconcile_pass_def replicas_option_decision)
qed

lemma reconcile_pass_verdict:
  assumes "\<forall>s c. fst (w s c) = None" and "0 < delay"
  shows "\<forall>m y. fst (reconcile_pass mem_client w delay ms ocb (env m) y) = Decided Done \<longleftrightarrow>
    IsReady (env m) (members (spec ocb))"
  using assms by (simp add: reconcile_pass_mem split_paired_All)

lemma replicas_option_ready:
  "IsReady sts n \<Longrightarrow> apply_option (replicas_option delay sts n) ocb =
     ocb\<lparr>status := (status ocb)\<lparr>phase := Running, current_statefulset_replicas := n\<rparr>\<rparr>"
  by (simp add: replicas_option_def)

section \<open>Properties of the loop\<close>

text \<open>C38: liveness of reconciliation. Against the store, with a status writer that does not fail and a positive requeue delay, if the workload is observed ready at some pass \<open>k\<close> at or after \<open>i\<close>, the loop started at pass \<open>i\<close> returns, at the first pass \<open>j \<le> k\<close> whose workload is ready; the store then holds the desired Deployment and the last status write records phase Running with the member count.\<close>

theorem reconcile_loop_first_ready:
  assumes wr: "\<forall>s c. fst (w s c) = None" and pos: "0 < delay"
    and "i \<le> k" and "IsReady (env k) (members (spec ocb))"
  shows "\<exists>j st' s'. reconcile_loop mem_client w delay ms ocb env i (st, s) = Some (j, (st', s')) \<and>
    i \<le> j \<and> j \<le> k \<and> IsReady (env j) (members (spec ocb)) \<and>
    (\<forall>m. i \<le> m \<and> m < j \<longrightarrow> \<not> IsReady (env m) (members (spec ocb))) \<and>
    (\<exists>v. objects st' (key_of (New (map interp ms))) =
       Some ((New (map interp ms))\<lparr>dep_resource_version := v\<rparr>)) \<and>
    (\<exists>s0. s' = snd (w s0 (ocb\<lparr>status := (status ocb)\<lparr>phase := Running,
       current_statefulset_replicas := members (spec ocb)\<rparr>\<rparr>)))"
proof -
  let ?pass = "\<lambda>i. reconcile_pass mem_client w delay ms ocb (env i)"
  let ?n = "members (spec ocb)"
  let ?D = "New (map interp ms)"
  let ?ocb' = "ocb\<lparr>status := (status ocb)\<lparr>phase := Running, current_statefulset_replicas := ?n\<rparr>\<rparr>"
  have v: "\<forall>m y. fst (?pass m y) = Decided Done \<longleftrightarrow> IsReady (env m) ?n"
    using wr pos by (rule reconcile_pass_verdict)
  with assms(4) have "\<forall>y. fst (?pass k y) = Decided Done" by blast
  from control_loop_reaches [where pass = ?pass and x = "(st, s)", OF assms(3) this]
  obtain j x' where ret: "control_loop ?pass i (st, s) = Some (j, x')" and "j \<le> k"
    by blast
  from control_loop_first [OF v ret] have first: "i \<le> j" "IsReady (env j) ?n"
    "\<forall>m. i \<le> m \<and> m < j \<longrightarrow> \<not> IsReady (env m) ?n" "\<exists>y. ?pass j y = (Decided Done, x')"
    by simp_all
  from first(4) obtain y where "?pass j y = (Decided Done, x')" by blast
  moreover obtain st0 s0 where "y = (st0, s0)" by fastforce
  ultimately have "?pass j (st0, s0) = (Decided Done, x')" by simp
  with wr first(2) have x': "x' = (snd (mem_store st0 ?D), snd (w s0 ?ocb'))"
    by (simp add: reconcile_pass_mem replicas_option_ready)
  have "objects (snd (mem_store st0 ?D)) (key_of ?D) =
      Some (?D\<lparr>dep_resource_version := next_version st0\<rparr>)"
    by simp
  with ret \<open>j \<le> k\<close> first(1-3) x' show ?thesis
    unfolding reconcile_loop_def by blast
qed

text \<open>C39: the loop never reports Done against a workload that is not ready: with a status writer that does not fail and a positive delay, if no pass from \<open>i\<close> on observes a ready workload, the loop started at \<open>i\<close> requeues forever and does not return.\<close>

theorem reconcile_loop_waits:
  assumes wr: "\<forall>s c. fst (w s c) = None" and pos: "0 < delay"
    and never: "\<forall>m\<ge>i. \<not> IsReady (env m) (members (spec ocb))"
  shows "reconcile_loop mem_client w delay ms ocb env i x = None"
proof (rule ccontr)
  let ?pass = "\<lambda>i. reconcile_pass mem_client w delay ms ocb (env i)"
  assume "reconcile_loop mem_client w delay ms ocb env i x \<noteq> None"
  then obtain r where ret: "control_loop ?pass i x = Some r"
    by (auto simp: reconcile_loop_def)
  have v: "\<forall>m y. fst (?pass m y) = Decided Done \<longleftrightarrow> IsReady (env m) (members (spec ocb))"
    using wr pos by (rule reconcile_pass_verdict)
  from control_loop_first [OF v ret] never show False by auto
qed

theorem reconcile_loop_first_ready_witness:
  "\<exists>j st' s'. reconcile_loop mem_client status_store 10 [MName ''opencga'']
      (zero_community\<lparr>spec := zero_opencga_spec\<lparr>members := 3\<rparr>\<rparr>)
      (\<lambda>m. if m < 2 then example_sts 1 else example_sts 3) 0 (mem_init, None) = Some (j, (st', s')) \<and>
    0 \<le> j \<and> j \<le> 2 \<and> IsReady (if j < 2 then example_sts 1 else example_sts 3) 3 \<and>
    (\<forall>m. 0 \<le> m \<and> m < j \<longrightarrow> \<not> IsReady (if m < 2 then example_sts 1 else example_sts 3) 3) \<and>
    (\<exists>v. objects st' (key_of (New (map interp [MName ''opencga'']))) =
       Some ((New (map interp [MName ''opencga'']))\<lparr>dep_resource_version := v\<rparr>)) \<and>
    (\<exists>s0. s' = snd (status_store s0 (zero_community\<lparr>spec := zero_opencga_spec\<lparr>members := 3\<rparr>,
       status := zero_status\<lparr>phase := Running, current_statefulset_replicas := 3\<rparr>\<rparr>)))"
  using reconcile_loop_first_ready [where w = status_store and delay = 10 and i = 0 and k = 2
      and env = "\<lambda>m. if m < 2 then example_sts 1 else example_sts 3"
      and ocb = "zero_community\<lparr>spec := zero_opencga_spec\<lparr>members := 3\<rparr>\<rparr>"
      and st = mem_init and s = None and ms = "[MName ''opencga'']"]
  by (simp add: status_store_def example_sts_def IsReady_def go_int32_def zero_opencga_spec_def
      zero_community_def)

theorem reconcile_loop_waits_witness:
  "reconcile_loop mem_client status_store 10 [MName ''opencga'']
      (zero_community\<lparr>spec := zero_opencga_spec\<lparr>members := 3\<rparr>\<rparr>)
      (\<lambda>m. example_sts 1) 0 (mem_init, None) = None"
  by (rule reconcile_loop_waits)
    (simp_all add: status_store_def example_sts_def IsReady_def go_int32_def zero_opencga_spec_def)

end
