(* ===== verification/Interleaving.thy ===== *)
theory Interleaving
  imports Reconcile
begin

text \<open>
  The control loop of \<open>Reconcile\<close> with other writers of the cluster
  interleaved: before pass \<open>i\<close> the store is changed by \<open>other i\<close>, any
  sequence of calls of other clients (a user deleting the Deployment, another
  controller updating it). Spec section 5 makes the store the only shared
  mutable resource and leaves consistency to optimistic concurrency; here the
  loop is shown to terminate by the first ready pass whatever the other
  writers do, to leave the desired Deployment stored, and, when the other
  writers are calls of the store (steps of \<open>mem_step\<close>), to keep the store
  reachable and so its invariant.
\<close>

definition interleaved_loop ::
  "'s status_writer \<Rightarrow> int \<Rightarrow> mod_desc list \<Rightarrow> opencga_community \<Rightarrow> (nat \<Rightarrow> stateful_set) \<Rightarrow>
   (nat \<Rightarrow> mem_state \<Rightarrow> mem_state) \<Rightarrow> nat \<Rightarrow> mem_state \<times> 's \<Rightarrow> (nat \<times> (mem_state \<times> 's)) option" where
  "interleaved_loop w delay ms ocb env other =
     control_loop (\<lambda>i x. reconcile_pass mem_client w delay ms ocb (env i) (other i (fst x), snd x))"

text \<open>Another writer that deletes the Deployment with the given key before every pass.\<close>

definition deleting_writer :: "object_key \<Rightarrow> nat \<Rightarrow> mem_state \<Rightarrow> mem_state" where
  "deleting_writer k i st = snd (mem_delete st k)"

lemma control_loop_last:
  assumes "control_loop pass i x = Some r"
  shows "i \<le> fst r \<and> (\<exists>y. pass (fst r) y = (Decided Done, snd r))"
proof (induction rule: control_loop_induct [OF assms])
  case (1 f pass i x r)
  obtain d x' where p: "pass i x = (d, x')" by fastforce
  show ?case
  proof (cases "d = Decided Done")
    case True
    with "1.hyps" p show ?thesis by auto
  next
    case False
    with "1.hyps" p have "f pass (Suc i) x' = Some r" by simp
    from "1.IH" [OF this] show ?thesis by auto
  qed
qed

lemma control_loop_keeps:
  assumes ret: "control_loop pass i x = Some r"
    and step: "\<forall>m y. Q y \<longrightarrow> Q (snd (pass m y))" and q: "Q x"
  shows "Q (snd r)"
  using step q
proof (induction rule: control_loop_induct [OF ret])
  case (1 f pass i x r)
  obtain d x' where p: "pass i x = (d, x')" by fastforce
  from "1.prems" p have "Q x'" by (metis snd_conv)
  show ?case
  proof (cases "d = Decided Done")
    case True
    with "1.hyps" p \<open>Q x'\<close> show ?thesis by auto
  next
    case False
    with "1.hyps" p have "f pass (Suc i) x' = Some r" by simp
    from "1.IH" [OF this "1.prems"(1) \<open>Q x'\<close>] show ?thesis .
  qed
qed

lemma reconcile_pass_mem_state:
  assumes "\<forall>s c. fst (w s c) = None"
  shows "fst (snd (reconcile_pass mem_client w delay ms ocb sts (st, s))) = snd (mem_store st (New (map interp ms)))"
  using assms by (simp add: reconcile_pass_mem)

lemma reachable_mem_store_built:
  "mem_reachable st \<Longrightarrow> mem_reachable (snd (mem_store st (New (map interp ms))))"
  using CreateOrUpdate_mem_state [of st "New (map interp ms)"]
    CreateOrUpdate_fresh_stores [OF New_map_interp_rv, of st ms]
  by (auto simp: reachable_create reachable_update split: option.splits)

lemma reachable_delete: "mem_reachable st \<Longrightarrow> mem_reachable (snd (mem_delete st k))"
  by (blast intro: mem_reachable.step mem_step.delete)

text \<open>C11: termination of the control loop under interference. Against the store, with a status writer that does not fail, and whatever other writers do to the store before each pass, the loop started at pass \<open>i\<close> returns by any pass \<open>k \<ge> i\<close> whose workload is ready; the store it returns holds the desired Deployment, and when the other writers' changes are store calls from a reachable state, the returned store is reachable and satisfies the store invariant.\<close>

theorem interleaved_loop_terminates:
  assumes wr: "\<forall>s c. fst (w s c) = None" and "i \<le> k" and ready: "IsReady (env k) (members (spec ocb))"
    and reach: "mem_reachable st" and others: "\<forall>m st. mem_reachable st \<longrightarrow> mem_reachable (other m st)"
  shows "\<exists>j st' s'. interleaved_loop w delay ms ocb env other i (st, s) = Some (j, (st', s')) \<and>
    i \<le> j \<and> j \<le> k \<and>
    (\<exists>v. objects st' (key_of (New (map interp ms))) =
       Some ((New (map interp ms))\<lparr>dep_resource_version := v\<rparr>)) \<and>
    mem_inv st'"
proof -
  let ?D = "New (map interp ms)"
  let ?pass = "\<lambda>i x. reconcile_pass mem_client w delay ms ocb (env i) (other i (fst x), snd x)"
  have state: "fst (snd (?pass m y)) = snd (mem_store (other m (fst y)) ?D)" for m y
    using wr by (simp add: reconcile_pass_mem_state)
  have "\<forall>y. fst (?pass k y) = Decided Done"
    using wr ready by (simp add: reconcile_pass_mem)
  from control_loop_reaches [where pass = ?pass and x = "(st, s)", OF assms(2) this]
  obtain j x' where ret: "control_loop ?pass i (st, s) = Some (j, x')" and "i \<le> j" "j \<le> k"
    by blast
  from control_loop_last [OF ret] obtain y where "?pass j y = (Decided Done, x')" by auto
  then have "fst x' = snd (mem_store (other j (fst y)) ?D)"
    using state [of j y] by simp
  then have stored: "objects (fst x') (key_of ?D) =
      Some (?D\<lparr>dep_resource_version := next_version (other j (fst y))\<rparr>)"
    by simp
  have "\<forall>m y. mem_reachable (fst y) \<longrightarrow> mem_reachable (fst (snd (?pass m y)))"
    using others by (simp add: state reachable_mem_store_built)
  from control_loop_keeps [where Q = "\<lambda>x. mem_reachable (fst x)", OF ret this] reach
  have "mem_reachable (fst x')" by simp
  then have "mem_inv (fst x')" by (rule mem_reachable_inv)
  moreover from ret have "interleaved_loop w delay ms ocb env other i (st, s) = Some (j, (fst x', snd x'))"
    by (simp add: interleaved_loop_def)
  ultimately show ?thesis
    using \<open>i \<le> j\<close> \<open>j \<le> k\<close> stored by blast
qed

theorem interleaved_loop_terminates_witness:
  "\<exists>j st' s'. interleaved_loop status_store 10 [MName ''opencga'']
      (zero_community\<lparr>spec := zero_opencga_spec\<lparr>members := 3\<rparr>\<rparr>)
      (\<lambda>m. if m < 2 then example_sts 1 else example_sts 3) (deleting_writer (''opencga'', []))
      0 (mem_init, None) = Some (j, (st', s')) \<and>
    0 \<le> j \<and> j \<le> 2 \<and>
    (\<exists>v. objects st' (key_of (New (map interp [MName ''opencga'']))) =
       Some ((New (map interp [MName ''opencga'']))\<lparr>dep_resource_version := v\<rparr>)) \<and>
    mem_inv st'"
  by (rule interleaved_loop_terminates)
    (simp_all add: status_store_def example_sts_def IsReady_def go_int32_def zero_opencga_spec_def
      zero_community_def deleting_writer_def reachable_delete mem_reachable.init)

end
