(* ===== verification/Aliasing.thy ===== *)
theory Aliasing
  imports Modification
begin

text \<open>
  A pointer-level model of the modifications of
  \<open>src/pkg/kube/statefulset/statefulset.go\<close> that store pointers or slices
  in the Deployment. \<open>WithReplicas\<close> and \<open>WithRevisionHistoryLimit\<close> convert
  their argument once, when the modification is made, and make every
  Deployment they are applied to point at that one variable;
  \<open>WithOwnerReference\<close> copies its argument once into a new backing array that
  every Deployment then shares; \<open>WithSelector\<close> stores the caller's pointer;
  \<open>WithMatchLabels\<close> writes through the selector pointer, allocating a selector
  only when there is none. Go's memory is an explicit heap here: typed cells
  addressed by natural numbers, allocation at the next free address, as in the
  heaps of Imperative HOL. A Deployment keeps its pointer fields as addresses,
  and \<open>read_dep\<close> reads the Deployment value they denote.

  Two results: for a single \<open>New\<close> whose modifications are made for it, the
  pointer-level model agrees with the value model of \<open>Modification\<close> that the
  rest of the development uses; and once a selector pointer is shared, a
  later build overwrites the match labels of an earlier Deployment and of the
  caller's selector.
\<close>

section \<open>The heap\<close>

record heap =
  sel_cells :: "nat \<rightharpoonup> label_selector"
  int32_cells :: "nat \<rightharpoonup> int32"
  ref_cells :: "nat \<rightharpoonup> owner_reference list"
  next_addr :: nat

definition alloc_sel :: "label_selector \<Rightarrow> heap \<Rightarrow> nat \<times> heap" where
  "alloc_sel v h = (next_addr h,
     h\<lparr>sel_cells := (sel_cells h)(next_addr h \<mapsto> v), next_addr := Suc (next_addr h)\<rparr>)"

definition alloc_int32 :: "int32 \<Rightarrow> heap \<Rightarrow> nat \<times> heap" where
  "alloc_int32 v h = (next_addr h,
     h\<lparr>int32_cells := (int32_cells h)(next_addr h \<mapsto> v), next_addr := Suc (next_addr h)\<rparr>)"

definition alloc_refs :: "owner_reference list \<Rightarrow> heap \<Rightarrow> nat \<times> heap" where
  "alloc_refs v h = (next_addr h,
     h\<lparr>ref_cells := (ref_cells h)(next_addr h \<mapsto> v), next_addr := Suc (next_addr h)\<rparr>)"

text \<open>
  A Deployment at the pointer level: the fields held by value, and the four
  pointer or slice fields as addresses (\<open>None\<close> is nil). The pointer fields of
  \<open>hd_value\<close> are not used.
\<close>

record hdeployment =
  hd_value :: deployment
  hd_replicas :: "nat option"
  hd_rhl :: "nat option"
  hd_selector :: "nat option"
  hd_owner_refs :: "nat option"

definition zero_hdeployment :: hdeployment where
  "zero_hdeployment = \<lparr>hd_value = zero_deployment, hd_replicas = None, hd_rhl = None,
     hd_selector = None, hd_owner_refs = None\<rparr>"

definition deref :: "(nat \<rightharpoonup> 'a) \<Rightarrow> nat option \<Rightarrow> 'a option" where
  "deref cells p = (case p of None \<Rightarrow> None | Some a \<Rightarrow> cells a)"

definition read_dep :: "heap \<Rightarrow> hdeployment \<Rightarrow> deployment" where
  "read_dep h d =
     (hd_value d)\<lparr>owner_references := (case deref (ref_cells h) (hd_owner_refs d) of
                                        None \<Rightarrow> [] | Some refs \<Rightarrow> refs),
       dep_spec := (dep_spec (hd_value d))\<lparr>replicas := deref (int32_cells h) (hd_replicas d),
         revision_history_limit := deref (int32_cells h) (hd_rhl d),
         selector := deref (sel_cells h) (hd_selector d)\<rparr>\<rparr>"

section \<open>Modifications with pointers\<close>

text \<open>A modification at this level runs on the heap and the Deployment it is given.\<close>

type_synonym hmodification = "heap \<Rightarrow> hdeployment \<Rightarrow> heap \<times> hdeployment"

text \<open>A modification that touches only fields held by value.\<close>

definition hlift :: "modification \<Rightarrow> hmodification" where
  "hlift m = (\<lambda>h d. (h, d\<lparr>hd_value := m (hd_value d)\<rparr>))"

text \<open>
  \<open>WithReplicas\<close>: \<open>stsReplicas := int32(replicas)\<close> is one variable, allocated
  when the modification is made; the closure stores its address.
\<close>

definition hWithReplicas :: "int \<Rightarrow> heap \<Rightarrow> hmodification \<times> heap" where
  "hWithReplicas n h =
     (case alloc_int32 (go_int32 n) h of
        (a, h') \<Rightarrow> ((\<lambda>h d. (h, d\<lparr>hd_replicas := Some a\<rparr>)), h'))"

definition hWithRevisionHistoryLimit :: "int \<Rightarrow> heap \<Rightarrow> hmodification \<times> heap" where
  "hWithRevisionHistoryLimit n h =
     (case alloc_int32 (go_int32 n) h of
        (a, h') \<Rightarrow> ((\<lambda>h d. (h, d\<lparr>hd_rhl := Some a\<rparr>)), h'))"

text \<open>\<open>WithOwnerReference\<close>: \<open>make\<close> and \<open>copy\<close> give one new backing array, shared by every use.\<close>

definition hWithOwnerReference :: "owner_reference list \<Rightarrow> heap \<Rightarrow> hmodification \<times> heap" where
  "hWithOwnerReference ownerRefs h =
     (case alloc_refs ownerRefs h of
        (a, h') \<Rightarrow> ((\<lambda>h d. (h, d\<lparr>hd_owner_refs := Some a\<rparr>)), h'))"

text \<open>\<open>WithSelector\<close>: the caller's pointer is stored as it is.\<close>

definition hWithSelector :: "nat option \<Rightarrow> hmodification" where
  "hWithSelector sel = (\<lambda>h d. (h, d\<lparr>hd_selector := sel\<rparr>))"

text \<open>
  \<open>WithMatchLabels\<close>: a nil selector is replaced by a new empty one; then the
  match labels are written through the pointer, into whatever selector it
  points at.
\<close>

definition hWithMatchLabels :: "strmap \<Rightarrow> hmodification" where
  "hWithMatchLabels matchLabels =
     (\<lambda>h d. case (case hd_selector d of None \<Rightarrow> alloc_sel empty_selector h | Some a \<Rightarrow> (a, h)) of
        (a, h1) \<Rightarrow> (h1\<lparr>sel_cells := (sel_cells h1)(a := map_option
                       (\<lambda>s. s\<lparr>match_labels := copyMap matchLabels\<rparr>) (sel_cells h1 a))\<rparr>,
                    d\<lparr>hd_selector := Some a\<rparr>))"

text \<open>\<open>New\<close>: run the modifications in order on a zero Deployment.\<close>

definition hNew :: "hmodification list \<Rightarrow> heap \<Rightarrow> heap \<times> hdeployment" where
  "hNew mods h = fold (\<lambda>m (h, d). m h d) mods (h, zero_hdeployment)"

text \<open>
  Making the modifications of a descriptor list, left to right, as Go
  evaluates the arguments of \<open>New\<close> before the call. The selector of
  \<open>MSelector\<close> is a value in the value model; here the caller allocates it and
  passes its address.
\<close>

fun hclosure :: "mod_desc \<Rightarrow> heap \<Rightarrow> hmodification \<times> heap" where
  "hclosure (MReplicas n) h = hWithReplicas n h"
| "hclosure (MRevisionHistoryLimit n) h = hWithRevisionHistoryLimit n h"
| "hclosure (MOwnerRefs r) h = hWithOwnerReference r h"
| "hclosure (MSelector None) h = (hWithSelector None, h)"
| "hclosure (MSelector (Some s)) h = (case alloc_sel s h of (a, h') \<Rightarrow> (hWithSelector (Some a), h'))"
| "hclosure (MMatchLabels l) h = (hWithMatchLabels l, h)"
| "hclosure m h = (hlift (interp m), h)"

fun hconstruct :: "mod_desc list \<Rightarrow> heap \<Rightarrow> hmodification list \<times> heap" where
  "hconstruct [] h = ([], h)"
| "hconstruct (m # ms) h =
     (case hclosure m h of (c, h1) \<Rightarrow> (case hconstruct ms h1 of (cs, h2) \<Rightarrow> (c # cs, h2)))"

definition hbuild :: "mod_desc list \<Rightarrow> heap \<Rightarrow> heap \<times> hdeployment" where
  "hbuild ms h = (case hconstruct ms h of (cs, h1) \<Rightarrow> hNew cs h1)"

text \<open>The descriptors whose modification stores or writes through a pointer.\<close>

fun pointer_desc :: "mod_desc \<Rightarrow> bool" where
  "pointer_desc (MReplicas n) = True"
| "pointer_desc (MRevisionHistoryLimit n) = True"
| "pointer_desc (MOwnerRefs r) = True"
| "pointer_desc (MSelector s) = True"
| "pointer_desc (MMatchLabels l) = True"
| "pointer_desc m = False"

text \<open>Two heaps agree on the cells of the addresses in \<open>[lo, hi)\<close>.\<close>

definition agree :: "heap \<Rightarrow> heap \<Rightarrow> nat \<Rightarrow> nat \<Rightarrow> bool" where
  "agree h h' lo hi \<longleftrightarrow> (\<forall>a. lo \<le> a \<and> a < hi \<longrightarrow>
     sel_cells h a = sel_cells h' a \<and> int32_cells h a = int32_cells h' a \<and> ref_cells h a = ref_cells h' a)"

text \<open>The Deployment's selector pointer is nil or points at an allocated selector outside \<open>[lo, hi)\<close>.\<close>

definition sel_ok :: "heap \<Rightarrow> hdeployment \<Rightarrow> nat \<Rightarrow> nat \<Rightarrow> bool" where
  "sel_ok h d lo hi \<longleftrightarrow>
     (case hd_selector d of None \<Rightarrow> True | Some a \<Rightarrow> sel_cells h a \<noteq> None \<and> (a < lo \<or> hi \<le> a))"

text \<open>A heap holding one empty selector at address 0, for the examples.\<close>

definition example_heap :: heap where
  "example_heap = \<lparr>sel_cells = [0 \<mapsto> empty_selector], int32_cells = Map.empty,
     ref_cells = Map.empty, next_addr = 1\<rparr>"

section \<open>Agreement with the value model\<close>

lemma agree_refl [simp]: "agree h h lo hi"
  by (simp add: agree_def)

lemma agree_sub: "agree h h' lo hi \<Longrightarrow> lo \<le> lo' \<Longrightarrow> hi' \<le> hi \<Longrightarrow> agree h h' lo' hi'"
  by (simp add: agree_def)

lemma agree_trans: "agree h h' lo hi \<Longrightarrow> agree h' h'' lo hi \<Longrightarrow> agree h h'' lo hi"
  by (simp add: agree_def)

lemma agree_sym: "agree h h' lo hi \<Longrightarrow> agree h' h lo hi"
  by (simp add: agree_def)

lemma hclosure_heap:
  "next_addr h \<le> next_addr (snd (hclosure m h)) \<and> agree (snd (hclosure m h)) h 0 (next_addr h)"
  by (cases "(m, h)" rule: hclosure.cases)
    (auto simp: agree_def hWithReplicas_def hWithRevisionHistoryLimit_def hWithOwnerReference_def
      alloc_int32_def alloc_refs_def alloc_sel_def)

lemma hconstruct_heap:
  "next_addr h \<le> next_addr (snd (hconstruct ms h)) \<and> agree (snd (hconstruct ms h)) h 0 (next_addr h)"
proof (induction ms arbitrary: h)
  case Nil
  then show ?case by simp
next
  case (Cons m ms)
  obtain c h1 where c: "hclosure m h = (c, h1)" by fastforce
  from hclosure_heap [of h m] c have "next_addr h \<le> next_addr h1" "agree h1 h 0 (next_addr h)" by simp_all
  moreover from Cons.IH [of h1] have "next_addr h1 \<le> next_addr (snd (hconstruct ms h1))"
    "agree (snd (hconstruct ms h1)) h1 0 (next_addr h1)" by simp_all
  ultimately show ?case
    using c by (auto simp: split_beta intro: agree_trans agree_sub)
qed

lemma read_dep_lift:
  "\<not> pointer_desc m \<Longrightarrow> read_dep h (d\<lparr>hd_value := interp m (hd_value d)\<rparr>) = interp m (read_dep h d)"
  by (cases m) (simp_all add: read_dep_def modification_defs WithVolumeClaim_def Let_def
      split: prod.split)

lemma hclosure_value: "\<not> pointer_desc m \<Longrightarrow> hclosure m h = (hlift (interp m), h)"
  by (cases "(m, h)" rule: hclosure.cases) simp_all

lemma read_dep_replicas:
  "read_dep h (d\<lparr>hd_replicas := Some a\<rparr>) =
     (read_dep h d)\<lparr>dep_spec := (dep_spec (read_dep h d))\<lparr>replicas := int32_cells h a\<rparr>\<rparr>"
  by (simp add: read_dep_def deref_def)

lemma read_dep_rhl:
  "read_dep h (d\<lparr>hd_rhl := Some a\<rparr>) =
     (read_dep h d)\<lparr>dep_spec := (dep_spec (read_dep h d))\<lparr>revision_history_limit := int32_cells h a\<rparr>\<rparr>"
  by (simp add: read_dep_def deref_def)

lemma read_dep_owner_refs:
  "ref_cells h a = Some r \<Longrightarrow> read_dep h (d\<lparr>hd_owner_refs := Some a\<rparr>) = (read_dep h d)\<lparr>owner_references := r\<rparr>"
  by (simp add: read_dep_def deref_def)

lemma read_dep_selector:
  "read_dep h (d\<lparr>hd_selector := p\<rparr>) =
     (read_dep h d)\<lparr>dep_spec := (dep_spec (read_dep h d))\<lparr>selector := deref (sel_cells h) p\<rparr>\<rparr>"
  by (simp add: read_dep_def)

text \<open>A write into a selector cell the Deployment does not point at, and allocation, leave its reading alone.\<close>

lemma read_dep_sel_write:
  "hd_selector d \<noteq> Some a \<Longrightarrow> read_dep (h\<lparr>sel_cells := (sel_cells h)(a := v)\<rparr>) d = read_dep h d"
  by (simp add: read_dep_def deref_def split: option.split)

lemma read_dep_next_addr: "read_dep (h\<lparr>next_addr := n\<rparr>) d = read_dep h d"
  by (simp add: read_dep_def)

text \<open>
  \<open>WithMatchLabels\<close> at the pointer level: it writes only into a selector the
  Deployment points at (outside \<open>[lo, hi)\<close>) or into a new one above \<open>hi\<close>.
\<close>

lemma hWithMatchLabels_step:
  assumes hi: "hi \<le> next_addr h"
    and ok: "sel_ok h d lo hi"
    and st: "hWithMatchLabels l h d = (h', d')"
  shows "read_dep h' d' = WithMatchLabels l (read_dep h d) \<and> next_addr h \<le> next_addr h' \<and>
    agree h' h lo hi \<and> sel_ok h' d' lo hi"
proof (cases "hd_selector d")
  case None
  let ?b = "next_addr h"
  from None st have h': "h' = h\<lparr>sel_cells := (sel_cells h)(?b \<mapsto> empty_selector\<lparr>match_labels := l\<rparr>),
      next_addr := Suc ?b\<rparr>" and d': "d' = d\<lparr>hd_selector := Some ?b\<rparr>"
    by (auto simp: hWithMatchLabels_def alloc_sel_def copyMap_def)
  have "read_dep h' d = read_dep h d"
    using None by (simp add: h' read_dep_def deref_def)
  then have "read_dep h' d' = WithMatchLabels l (read_dep h d)"
    using None by (simp add: d' h' read_dep_selector deref_def WithMatchLabels_def
        copyMap_def) (simp add: read_dep_def deref_def)
  with hi show ?thesis by (simp add: h' d' agree_def sel_ok_def)
next
  case (Some a)
  with ok obtain sel where sel: "sel_cells h a = Some sel" and out: "a < lo \<or> hi \<le> a"
    by (auto simp: sel_ok_def)
  from Some st have h': "h' = h\<lparr>sel_cells := (sel_cells h)(a \<mapsto> sel\<lparr>match_labels := l\<rparr>)\<rparr>"
    and d': "d' = d"
    using sel by (auto simp: hWithMatchLabels_def copyMap_def)
  have "read_dep h' d' = WithMatchLabels l (read_dep h d)"
    using Some sel by (simp add: h' d' read_dep_def deref_def WithMatchLabels_def copyMap_def Let_def)
  with out Some show ?thesis by (auto simp: h' d' agree_def sel_ok_def)
qed

text \<open>One modification made at \<open>h0\<close>, applied at \<open>(h, d)\<close>: the pointer level simulates the value level.\<close>

lemma hclosure_step:
  assumes cl: "hclosure m h0 = (c, h0')"
    and hi: "next_addr h0' \<le> hi" "hi \<le> next_addr h"
    and ag: "agree h h0' (next_addr h0) (next_addr h0')"
    and ok: "sel_ok h d (next_addr h0) hi"
    and st: "c h d = (h', d')"
  shows "read_dep h' d' = interp m (read_dep h d) \<and> next_addr h \<le> next_addr h' \<and>
    agree h' h (next_addr h0') hi \<and> sel_ok h' d' (next_addr h0') hi"
proof (cases "pointer_desc m")
  case False
  with cl have "c = hlift (interp m)" "h0' = h0" by (simp_all add: hclosure_value)
  with st have "h' = h" "d' = d\<lparr>hd_value := interp m (hd_value d)\<rparr>" by (simp_all add: hlift_def)
  with False ok \<open>h0' = h0\<close> show ?thesis by (simp add: read_dep_lift sel_ok_def)
next
  case True
  let ?a = "next_addr h0"
  show ?thesis
  proof (cases m)
    case (MReplicas n)
    with cl have "c = (\<lambda>h d. (h, d\<lparr>hd_replicas := Some ?a\<rparr>))" "h0' = snd (alloc_int32 (go_int32 n) h0)"
      by (auto simp: hWithReplicas_def alloc_int32_def)
    moreover from this ag have "int32_cells h ?a = Some (go_int32 n)"
      by (simp add: agree_def alloc_int32_def)
    ultimately show ?thesis using st ok MReplicas
      by (auto simp: read_dep_replicas WithReplicas_def sel_ok_def alloc_int32_def split: option.splits)
  next
    case (MRevisionHistoryLimit n)
    with cl have "c = (\<lambda>h d. (h, d\<lparr>hd_rhl := Some ?a\<rparr>))" "h0' = snd (alloc_int32 (go_int32 n) h0)"
      by (auto simp: hWithRevisionHistoryLimit_def alloc_int32_def)
    moreover from this ag have "int32_cells h ?a = Some (go_int32 n)"
      by (simp add: agree_def alloc_int32_def)
    ultimately show ?thesis using st ok MRevisionHistoryLimit
      by (auto simp: read_dep_rhl WithRevisionHistoryLimit_def sel_ok_def alloc_int32_def split: option.splits)
  next
    case (MOwnerRefs r)
    with cl have "c = (\<lambda>h d. (h, d\<lparr>hd_owner_refs := Some ?a\<rparr>))" "h0' = snd (alloc_refs r h0)"
      by (auto simp: hWithOwnerReference_def alloc_refs_def)
    moreover from this ag have "ref_cells h ?a = Some r"
      by (simp add: agree_def alloc_refs_def)
    ultimately show ?thesis using st ok MOwnerRefs
      by (auto simp: read_dep_owner_refs WithOwnerReference_def sel_ok_def alloc_refs_def split: option.splits)
  next
    case (MSelector p)
    show ?thesis
    proof (cases p)
      case None
      with MSelector cl st ok show ?thesis
        by (auto simp: hWithSelector_def read_dep_selector deref_def WithSelector_def sel_ok_def)
    next
      case (Some sel)
      with MSelector cl have "c = hWithSelector (Some ?a)" "h0' = snd (alloc_sel sel h0)"
        by (auto simp: alloc_sel_def)
      moreover from this ag have "sel_cells h ?a = Some sel"
        by (simp add: agree_def alloc_sel_def)
      ultimately show ?thesis using st MSelector Some
        by (auto simp: hWithSelector_def read_dep_selector deref_def WithSelector_def sel_ok_def
            alloc_sel_def)
    qed
  next
    case (MMatchLabels l)
    with cl have "c = hWithMatchLabels l" "h0' = h0" by simp_all
    with MMatchLabels hi(2) ok st show ?thesis by (simp add: hWithMatchLabels_step)
  qed (use True in simp_all)
qed

lemma hconstruct_apply:
  assumes "hconstruct ms h0 = (cs, h1)"
    and "next_addr h1 \<le> next_addr h"
    and "agree h h1 (next_addr h0) (next_addr h1)"
    and "sel_ok h d (next_addr h0) (next_addr h1)"
  shows "case fold (\<lambda>m (h, d). m h d) cs (h, d) of (h', d') \<Rightarrow> read_dep h' d' = fold interp ms (read_dep h d)"
  using assms
proof (induction ms arbitrary: h0 cs h d)
  case Nil
  then show ?case by simp
next
  case (Cons m ms)
  obtain c h0' where cl: "hclosure m h0 = (c, h0')" by fastforce
  obtain cs' where cs': "hconstruct ms h0' = (cs', h1)" and cs: "cs = c # cs'"
    using Cons.prems(1) cl by (auto split: prod.splits)
  have mono: "next_addr h0' \<le> next_addr h1" "agree h1 h0' 0 (next_addr h0')"
    using hconstruct_heap [of h0' ms] cs' by simp_all
  have agh: "agree h h0' (next_addr h0) (next_addr h0')"
  proof -
    have "agree h h1 (next_addr h0) (next_addr h0')"
      by (rule agree_sub [OF Cons.prems(3)]) (simp_all add: mono(1))
    moreover have "agree h1 h0' (next_addr h0) (next_addr h0')"
      by (rule agree_sub [OF mono(2)]) simp_all
    ultimately show ?thesis by (rule agree_trans)
  qed
  obtain h' d' where st: "c h d = (h', d')" by fastforce
  from hclosure_step [OF cl mono(1) Cons.prems(2) agh Cons.prems(4) st]
  have step: "read_dep h' d' = interp m (read_dep h d)" "next_addr h \<le> next_addr h'"
    "agree h' h (next_addr h0') (next_addr h1)" "sel_ok h' d' (next_addr h0') (next_addr h1)"
    by simp_all
  have agh': "agree h' h1 (next_addr h0') (next_addr h1)"
  proof -
    have "agree h h1 (next_addr h0') (next_addr h1)"
      by (rule agree_sub [OF Cons.prems(3)]) (use hclosure_heap [of h0 m] cl in simp_all)
    with step(3) show ?thesis by (rule agree_trans)
  qed
  have n': "next_addr h1 \<le> next_addr h'" using Cons.prems(2) step(2) by simp
  from Cons.IH [OF cs' n' agh' step(4)] cs st step(1) show ?case by simp
qed

lemma read_dep_zero: "read_dep h zero_hdeployment = zero_deployment"
  by (simp add: read_dep_def zero_hdeployment_def deref_def zero_deployment_def zero_deployment_spec_def)

lemma hNew_selector_matchlabels:
  assumes "sel_cells h p = Some sel"
  shows "hNew [hWithSelector (Some p), hWithMatchLabels l] h =
    (h\<lparr>sel_cells := (sel_cells h)(p \<mapsto> sel\<lparr>match_labels := l\<rparr>)\<rparr>,
     zero_hdeployment\<lparr>hd_selector := Some p\<rparr>)"
  using assms by (simp add: hNew_def hWithSelector_def hWithMatchLabels_def copyMap_def)

lemma read_dep_selector_at:
  "hd_selector d = Some p \<Longrightarrow> selector (dep_spec (read_dep h d)) = sel_cells h p"
  by (simp add: read_dep_def deref_def)

text \<open>Two Deployments to which one \<open>WithReplicas\<close> modification was applied point at the same variable: a write through one is read in the other.\<close>

lemma shared_replicas_write:
  assumes "hWithReplicas n h = (c, h0)" and "c h1 d1 = (h1', d1')" and "c h2 d2 = (h2', d2')"
  shows "hd_replicas d1' = hd_replicas d2' \<and>
    replicas (dep_spec (read_dep (hx\<lparr>int32_cells := (int32_cells hx)(the (hd_replicas d1') \<mapsto> v)\<rparr>) d2')) = Some v"
  using assms by (auto simp: hWithReplicas_def alloc_int32_def read_dep_def deref_def)

section \<open>Properties\<close>

text \<open>C12: refinement of the value model. A Deployment built by \<open>New\<close> from modifications made for it (left to right, as Go evaluates the arguments), read through its pointers in the final heap, is the Deployment the value model \<open>New\<close> builds from the same descriptors: as long as no pointer is shared between builds, copying values is a faithful model of the pointer code.\<close>

theorem hbuild_refines_New:
  "case hbuild ms h of (h', d) \<Rightarrow> read_dep h' d = New (map interp ms)"
proof -
  obtain cs h1 where c: "hconstruct ms h = (cs, h1)" by fastforce
  have "case fold (\<lambda>m (h, d). m h d) cs (h1, zero_hdeployment) of
      (h', d') \<Rightarrow> read_dep h' d' = fold interp ms (read_dep h1 zero_hdeployment)"
    by (rule hconstruct_apply [OF c]) (simp_all add: sel_ok_def zero_hdeployment_def)
  then show ?thesis
    using c by (simp add: hbuild_def hNew_def New_def read_dep_zero fold_map comp_def)
qed

text \<open>C24: a shared selector pointer is overwritten. Two Deployments built with \<open>WithSelector\<close> of the same caller pointer and then \<open>WithMatchLabels\<close> share one selector: the second build writes its match labels into the caller's selector, and the first Deployment, read afterwards, carries the second build's labels instead of its own.\<close>

theorem shared_selector_clobbered:
  assumes "sel_cells h p = Some sel"
    and "hNew [hWithSelector (Some p), hWithMatchLabels l1] h = (h1, d1)"
    and "hNew [hWithSelector (Some p), hWithMatchLabels l2] h1 = (h2, d2)"
  shows "selector (dep_spec (read_dep h1 d1)) = Some (sel\<lparr>match_labels := l1\<rparr>) \<and>
    selector (dep_spec (read_dep h2 d1)) = Some (sel\<lparr>match_labels := l2\<rparr>) \<and>
    selector (dep_spec (read_dep h2 d2)) = Some (sel\<lparr>match_labels := l2\<rparr>) \<and>
    sel_cells h2 p = Some (sel\<lparr>match_labels := l2\<rparr>)"
proof -
  from assms(1,2) have h1: "h1 = h\<lparr>sel_cells := (sel_cells h)(p \<mapsto> sel\<lparr>match_labels := l1\<rparr>)\<rparr>"
    and d1: "d1 = zero_hdeployment\<lparr>hd_selector := Some p\<rparr>"
    by (simp_all add: hNew_selector_matchlabels)
  then have "sel_cells h1 p = Some (sel\<lparr>match_labels := l1\<rparr>)" by simp
  with assms(3) have h2: "h2 = h1\<lparr>sel_cells := (sel_cells h1)(p \<mapsto> sel\<lparr>match_labels := l2\<rparr>)\<rparr>"
    and d2: "d2 = zero_hdeployment\<lparr>hd_selector := Some p\<rparr>"
    by (simp_all add: hNew_selector_matchlabels)
  show ?thesis
    using h1 d1 h2 d2 by (simp add: read_dep_selector_at)
qed

theorem shared_selector_clobbered_witness:
  "selector (dep_spec (read_dep (fst (hNew [hWithSelector (Some 0), hWithMatchLabels [''app'' \<mapsto> ''a'']] example_heap))
       (snd (hNew [hWithSelector (Some 0), hWithMatchLabels [''app'' \<mapsto> ''a'']] example_heap)))) =
     Some (empty_selector\<lparr>match_labels := [''app'' \<mapsto> ''a'']\<rparr>) \<and>
   selector (dep_spec (read_dep
       (fst (hNew [hWithSelector (Some 0), hWithMatchLabels [''app'' \<mapsto> ''b'']]
          (fst (hNew [hWithSelector (Some 0), hWithMatchLabels [''app'' \<mapsto> ''a'']] example_heap))))
       (snd (hNew [hWithSelector (Some 0), hWithMatchLabels [''app'' \<mapsto> ''a'']] example_heap)))) =
     Some (empty_selector\<lparr>match_labels := [''app'' \<mapsto> ''b'']\<rparr>) \<and>
   selector (dep_spec (read_dep
       (fst (hNew [hWithSelector (Some 0), hWithMatchLabels [''app'' \<mapsto> ''b'']]
          (fst (hNew [hWithSelector (Some 0), hWithMatchLabels [''app'' \<mapsto> ''a'']] example_heap))))
       (snd (hNew [hWithSelector (Some 0), hWithMatchLabels [''app'' \<mapsto> ''b'']]
          (fst (hNew [hWithSelector (Some 0), hWithMatchLabels [''app'' \<mapsto> ''a'']] example_heap)))))) =
     Some (empty_selector\<lparr>match_labels := [''app'' \<mapsto> ''b'']\<rparr>) \<and>
   sel_cells (fst (hNew [hWithSelector (Some 0), hWithMatchLabels [''app'' \<mapsto> ''b'']]
          (fst (hNew [hWithSelector (Some 0), hWithMatchLabels [''app'' \<mapsto> ''a'']] example_heap)))) 0 =
     Some (empty_selector\<lparr>match_labels := [''app'' \<mapsto> ''b'']\<rparr>)"
  by (rule shared_selector_clobbered) (simp_all add: example_heap_def)

end
