(* ===== verification/Volume_Heap.thy ===== *)
theory Volume_Heap
  imports Aliasing
begin

text \<open>
  The volume constructors of \<open>src/pkg/kube/statefulset/statefulset.go\<close> at the
  pointer level, on the heap of \<open>Aliasing\<close>. A \<open>corev1.Volume\<close> is returned
  by value, and its secret source is a new struct in every call, but the
  secret's \<open>DefaultMode\<close> is an \<open>*int32\<close>: \<open>CreateVolumeFromSecret\<close> points it
  at a variable \<open>permission\<close> of its own call, and \<open>WithSecretDefaultMode\<close>
  stores the caller's pointer as it is. The value model of \<open>Modification\<close>
  is what a volume reads when it is built; a caller that writes through its
  mode pointer afterwards changes the mode of every volume built with it.
\<close>

section \<open>Volumes with a mode pointer\<close>

text \<open>A volume with its secret's \<open>DefaultMode\<close> as an address; the mode inside \<open>hv_value\<close> is not used.\<close>

record hvolume =
  hv_value :: volume
  hv_secret_mode :: "nat option"

type_synonym hvolume_option = "heap \<Rightarrow> hvolume \<Rightarrow> heap \<times> hvolume"

definition read_volume :: "heap \<Rightarrow> hvolume \<Rightarrow> volume" where
  "read_volume h v =
     (let val = hv_value v; src = vol_source val
      in val\<lparr>vol_source := src\<lparr>vs_secret := map_option
           (\<lambda>s. s\<lparr>secret_default_mode := deref (int32_cells h) (hv_secret_mode v)\<rparr>) (vs_secret src)\<rparr>\<rparr>)"

text \<open>\<open>WithSecretDefaultMode\<close>: a nil secret source is replaced by a new empty one, whose \<open>DefaultMode\<close> is then the caller's pointer.\<close>

definition hWithSecretDefaultMode :: "nat option \<Rightarrow> hvolume_option" where
  "hWithSecretDefaultMode mode =
     (\<lambda>h v. let src = vol_source (hv_value v);
               sec = (case vs_secret src of
                        None \<Rightarrow> \<lparr>secret_name = [], secret_default_mode = None\<rparr>
                      | Some s \<Rightarrow> s)
            in (h, v\<lparr>hv_value := (hv_value v)\<lparr>vol_source := src\<lparr>vs_secret := Some sec\<rparr>\<rparr>,
                     hv_secret_mode := mode\<rparr>))"

text \<open>
  \<open>CreateVolumeFromSecret\<close>: \<open>permission := int32(416)\<close> is a new variable of
  this call, the secret source points at it, and the options run in order.
\<close>

definition hCreateVolumeFromSecret ::
  "string \<Rightarrow> string \<Rightarrow> hvolume_option list \<Rightarrow> heap \<Rightarrow> heap \<times> hvolume" where
  "hCreateVolumeFromSecret name sourceName options h =
     (case alloc_int32 416 h of
        (permission, h1) \<Rightarrow>
          fold (\<lambda>option (h, v). option h v) options
            (h1, \<lparr>hv_value = \<lparr>vol_name = name,
                    vol_source = \<lparr>vs_config_map = None,
                      vs_secret = Some \<lparr>secret_name = sourceName, secret_default_mode = None\<rparr>,
                      vs_empty_dir = None\<rparr>\<rparr>,
                  hv_secret_mode = Some permission\<rparr>))"

text \<open>The caller's \<open>*mode = x\<close>.\<close>

definition write_int32 :: "nat \<Rightarrow> int32 \<Rightarrow> heap \<Rightarrow> heap" where
  "write_int32 a x h = h\<lparr>int32_cells := (int32_cells h)(a \<mapsto> x)\<rparr>"

text \<open>A heap holding one \<open>int32\<close> variable, 256 (octal 0400), at address 0.\<close>

definition mode_heap :: heap where
  "mode_heap = \<lparr>sel_cells = Map.empty, int32_cells = [0 \<mapsto> 256], ref_cells = Map.empty, next_addr = 1\<rparr>"

section \<open>Agreement with the value model\<close>

lemma hWithSecretDefaultMode_read:
  "hWithSecretDefaultMode p h v = (h', v') \<Longrightarrow>
     h' = h \<and> read_volume h v' = WithSecretDefaultMode (deref (int32_cells h) p) (read_volume h v)"
  by (auto simp: hWithSecretDefaultMode_def WithSecretDefaultMode_def read_volume_def Let_def
      split: option.splits)

lemma fold_hWithSecretDefaultMode:
  "fold (\<lambda>option (h, v). option h v) (map hWithSecretDefaultMode ps) (h, v) = (h', v') \<Longrightarrow>
     h' = h \<and> read_volume h v' =
       fold (\<lambda>option v. option v) (map (\<lambda>p. WithSecretDefaultMode (deref (int32_cells h) p)) ps)
         (read_volume h v)"
proof (induction ps arbitrary: v)
  case Nil
  then show ?case by simp
next
  case (Cons p ps)
  obtain h1 v1 where st: "hWithSecretDefaultMode p h v = (h1, v1)" by fastforce
  with hWithSecretDefaultMode_read [OF st] Cons.prems Cons.IH [of v1] show ?case by simp
qed

text \<open>Allocating \<open>permission\<close> leaves every cell below the next free address alone.\<close>

lemma deref_alloc_int32:
  "(\<forall>a. p = Some a \<longrightarrow> a < next_addr h) \<Longrightarrow>
     deref (int32_cells (snd (alloc_int32 x h))) p = deref (int32_cells h) p"
  by (auto simp: deref_def alloc_int32_def split: option.split)

text \<open>C17: refinement of the value model of the volume helpers. A secret volume built by \<open>CreateVolumeFromSecret\<close> with \<open>WithSecretDefaultMode\<close> options whose pointers were allocated before the call (nil or below the next free address) reads, right after the build, as the value model's volume built with the values the pointers point at; with no option it reads mode 416 from its own \<open>permission\<close>.\<close>

lemma hCreateVolumeFromSecret_refines:
  assumes ps: "\<forall>p\<in>set ps. \<forall>a. p = Some a \<longrightarrow> a < next_addr h"
    and st: "hCreateVolumeFromSecret n s (map hWithSecretDefaultMode ps) h = (h', v)"
  shows "read_volume h' v =
    CreateVolumeFromSecret n s (map (\<lambda>p. WithSecretDefaultMode (deref (int32_cells h) p)) ps)"
proof -
  obtain a h1 where al: "alloc_int32 416 h = (a, h1)" by fastforce
  let ?v0 = "\<lparr>hv_value = \<lparr>vol_name = n, vol_source = \<lparr>vs_config_map = None,
      vs_secret = Some \<lparr>secret_name = s, secret_default_mode = None\<rparr>, vs_empty_dir = None\<rparr>\<rparr>,
    hv_secret_mode = Some a\<rparr>"
  from st al have "fold (\<lambda>option (h, v). option h v) (map hWithSecretDefaultMode ps) (h1, ?v0) = (h', v)"
    by (simp add: hCreateVolumeFromSecret_def)
  from fold_hWithSecretDefaultMode [OF this] have h': "h' = h1"
    and rd: "read_volume h1 v = fold (\<lambda>option v. option v)
      (map (\<lambda>p. WithSecretDefaultMode (deref (int32_cells h1) p)) ps) (read_volume h1 ?v0)"
    by simp_all
  have "deref (int32_cells h1) p = deref (int32_cells h) p" if "p \<in> set ps" for p
  proof -
    from ps that have "\<forall>a. p = Some a \<longrightarrow> a < next_addr h" by blast
    from deref_alloc_int32 [OF this, of 416] al show ?thesis by simp
  qed
  then have m: "map (\<lambda>p. WithSecretDefaultMode (deref (int32_cells h1) p)) ps =
      map (\<lambda>p. WithSecretDefaultMode (deref (int32_cells h) p)) ps"
    by simp
  have r0: "read_volume h1 ?v0 = \<lparr>vol_name = n, vol_source = \<lparr>vs_config_map = None,
      vs_secret = Some \<lparr>secret_name = s, secret_default_mode = Some 416\<rparr>, vs_empty_dir = None\<rparr>\<rparr>"
  proof -
    from al have "a = next_addr h" "int32_cells h1 = (int32_cells h)(next_addr h \<mapsto> 416)"
      by (auto simp: alloc_int32_def)
    then show ?thesis by (simp add: read_volume_def deref_def)
  qed
  show ?thesis
    using rd unfolding h' m r0 by (simp add: CreateVolumeFromSecret_def)
qed

text \<open>A secret volume built with one mode option: its mode pointer is the option's.\<close>

lemma hCreateVolumeFromSecret_mode:
  "hCreateVolumeFromSecret n s [hWithSecretDefaultMode p] h = (h', v) \<Longrightarrow>
     h' = snd (alloc_int32 416 h) \<and>
     v = \<lparr>hv_value = \<lparr>vol_name = n, vol_source = \<lparr>vs_config_map = None,
            vs_secret = Some \<lparr>secret_name = s, secret_default_mode = None\<rparr>, vs_empty_dir = None\<rparr>\<rparr>,
          hv_secret_mode = p\<rparr>"
  by (simp add: hCreateVolumeFromSecret_def hWithSecretDefaultMode_def split: prod.splits)

text \<open>What a secret volume reads depends on its mode cell only.\<close>

lemma read_volume_write_int32:
  "hv_secret_mode v = Some a \<Longrightarrow> vs_secret (vol_source (hv_value v)) = Some sec \<Longrightarrow>
     read_volume (write_int32 a x h) v =
       (hv_value v)\<lparr>vol_source := (vol_source (hv_value v))\<lparr>vs_secret :=
          Some (sec\<lparr>secret_default_mode := Some x\<rparr>)\<rparr>\<rparr>"
  by (simp add: read_volume_def write_int32_def deref_def Let_def)

text \<open>Without a mode option each secret volume points at a \<open>permission\<close> of its own call: a write to the first one's leaves the second.\<close>

lemma own_permission_private:
  assumes v1: "hCreateVolumeFromSecret n1 s1 [] h = (h1, v1)"
    and v2: "hCreateVolumeFromSecret n2 s2 [] h1 = (h2, v2)"
  shows "hv_secret_mode v1 = Some (next_addr h) \<and>
    read_volume (write_int32 (next_addr h) x h2) v2 = CreateVolumeFromSecret n2 s2 []"
  using v1 v2
  by (auto simp: hCreateVolumeFromSecret_def alloc_int32_def read_volume_def write_int32_def deref_def
      CreateVolumeFromSecret_def Let_def)

text \<open>C37: two secret volumes built with \<open>WithSecretDefaultMode\<close> of one caller pointer share the caller's variable: a write through that pointer after both builds changes the default mode of both volumes.\<close>

theorem shared_secret_mode_clobbered:
  assumes v1: "hCreateVolumeFromSecret n1 s1 [hWithSecretDefaultMode (Some p)] h = (h1, v1)"
    and v2: "hCreateVolumeFromSecret n2 s2 [hWithSecretDefaultMode (Some p)] h1 = (h2, v2)"
  shows "read_volume (write_int32 p x h2) v1 = CreateVolumeFromSecret n1 s1 [WithSecretDefaultMode (Some x)] \<and>
    read_volume (write_int32 p x h2) v2 = CreateVolumeFromSecret n2 s2 [WithSecretDefaultMode (Some x)]"
  using hCreateVolumeFromSecret_mode [OF v1] hCreateVolumeFromSecret_mode [OF v2]
  by (simp add: read_volume_write_int32 CreateVolumeFromSecret_def WithSecretDefaultMode_def)

theorem shared_secret_mode_clobbered_witness:
  "read_volume (write_int32 0 288 (fst (hCreateVolumeFromSecret ''data'' ''tls'' [hWithSecretDefaultMode (Some 0)]
       (fst (hCreateVolumeFromSecret ''keys'' ''keyfile'' [hWithSecretDefaultMode (Some 0)] mode_heap)))))
     (snd (hCreateVolumeFromSecret ''keys'' ''keyfile'' [hWithSecretDefaultMode (Some 0)] mode_heap)) =
   CreateVolumeFromSecret ''keys'' ''keyfile'' [WithSecretDefaultMode (Some 288)] \<and>
   read_volume (write_int32 0 288 (fst (hCreateVolumeFromSecret ''data'' ''tls'' [hWithSecretDefaultMode (Some 0)]
       (fst (hCreateVolumeFromSecret ''keys'' ''keyfile'' [hWithSecretDefaultMode (Some 0)] mode_heap)))))
     (snd (hCreateVolumeFromSecret ''data'' ''tls'' [hWithSecretDefaultMode (Some 0)]
       (fst (hCreateVolumeFromSecret ''keys'' ''keyfile'' [hWithSecretDefaultMode (Some 0)] mode_heap)))) =
   CreateVolumeFromSecret ''data'' ''tls'' [WithSecretDefaultMode (Some 288)]"
  by (rule shared_secret_mode_clobbered) simp_all


theorem hCreateVolumeFromSecret_refines_witness:
  "read_volume (fst (hCreateVolumeFromSecret ''keys'' ''keyfile'' (map hWithSecretDefaultMode [Some 0, None]) mode_heap))
     (snd (hCreateVolumeFromSecret ''keys'' ''keyfile'' (map hWithSecretDefaultMode [Some 0, None]) mode_heap)) =
   CreateVolumeFromSecret ''keys'' ''keyfile'' [WithSecretDefaultMode (Some 256), WithSecretDefaultMode None]"
  using hCreateVolumeFromSecret_refines [of "[Some 0, None]" mode_heap "''keys''" "''keyfile''"
      "fst (hCreateVolumeFromSecret ''keys'' ''keyfile'' (map hWithSecretDefaultMode [Some 0, None]) mode_heap)"
      "snd (hCreateVolumeFromSecret ''keys'' ''keyfile'' (map hWithSecretDefaultMode [Some 0, None]) mode_heap)"]
  by (simp add: mode_heap_def deref_def)

end
