(* ===== verification/Predicates.thy ===== *)
theory Predicates
  imports Api_Types
begin

text \<open>
  The event filter of \<open>src/cmd/predicates/predicates.go\<close>. controller-runtime's
  \<open>predicate.Funcs\<close> holds one optional function per kind of event and lets an
  event through when the function for its kind is absent; \<open>OnlyOnSpecChange\<close>
  sets only the update function, which lets an update through when the spec of
  the resource changed (\<open>reflect.DeepEqual\<close> on the spec struct, which is
  equality of the record). The type assertions to \<open>*OpenCGACommunity\<close> cannot
  fail here because events carry that type.
\<close>

datatype event =
    CreateEvent opencga_community
  | UpdateEvent opencga_community opencga_community
  | DeleteEvent opencga_community
  | GenericEvent opencga_community

record predicate_funcs =
  CreateFunc :: "(opencga_community \<Rightarrow> bool) option"
  UpdateFunc :: "(opencga_community \<Rightarrow> opencga_community \<Rightarrow> bool) option"
  DeleteFunc :: "(opencga_community \<Rightarrow> bool) option"
  GenericFunc :: "(opencga_community \<Rightarrow> bool) option"

text \<open>How controller-runtime applies a \<open>predicate.Funcs\<close>: an absent function accepts.\<close>

fun passes :: "predicate_funcs \<Rightarrow> event \<Rightarrow> bool" where
  "passes p (CreateEvent o') = (case CreateFunc p of None \<Rightarrow> True | Some f \<Rightarrow> f o')"
| "passes p (UpdateEvent old new) = (case UpdateFunc p of None \<Rightarrow> True | Some f \<Rightarrow> f old new)"
| "passes p (DeleteEvent o') = (case DeleteFunc p of None \<Rightarrow> True | Some f \<Rightarrow> f o')"
| "passes p (GenericEvent o') = (case GenericFunc p of None \<Rightarrow> True | Some f \<Rightarrow> f o')"

definition OnlyOnSpecChange :: predicate_funcs where
  "OnlyOnSpecChange =
     \<lparr>CreateFunc = None,
      UpdateFunc = Some (\<lambda>oldResource newResource.
        let specChanged = (spec oldResource \<noteq> spec newResource) in specChanged),
      DeleteFunc = None, GenericFunc = None\<rparr>"

text \<open>C32: \<open>OnlyOnSpecChange\<close> lets an update through exactly when the spec changed, so changes of status, annotations or other metadata alone do not trigger a reconciliation; create, delete and generic events always pass.\<close>

theorem OnlyOnSpecChange_filters:
  "(passes OnlyOnSpecChange (UpdateEvent old new) \<longleftrightarrow> spec old \<noteq> spec new) \<and>
   passes OnlyOnSpecChange (CreateEvent o') \<and>
   passes OnlyOnSpecChange (DeleteEvent o') \<and>
   passes OnlyOnSpecChange (GenericEvent o')"
  by (simp add: OnlyOnSpecChange_def)

end
