(* ===== verification/Config.thy ===== *)
theory Config
  imports Api_Types "HOL-Library.AList"
begin

text \<open>
  The free-form configuration document of the custom resource
  (\<open>OpenCGAConfiguration\<close> in \<open>src/api/v1/opencgacommunity_types.go\<close>):
  \<open>NewOpenCGAConfiguration\<close> and \<open>SetOption\<close>, which sets a value at a dotted key
  path through the objx library. objx lies outside the repository; its
  \<open>Set\<close>/\<open>Get\<close> are modelled as the spec's design notes describe the document
  (key paths into nested objects, last writer wins per leaf). \<open>MarshalJSON\<close>
  and \<open>UnmarshalJSON\<close> are modelled over a JSON codec taken as a parameter
  (the text layer of \<open>encoding/json\<close>), with the library's rules for
  unmarshalling into a \<open>map[string]interface{}\<close> written out. The theory
  proves the set/get round trip, the well-formedness invariant of the document
  (distinct keys at every level), the marshal/unmarshal round trip, and the
  merge and reset behaviour of \<open>UnmarshalJSON\<close>. \<open>DeepCopy\<close>
  (\<open>runtime.DeepCopyJSON\<close>) is modelled with the Go values that are not of a
  JSON type kept apart (\<open>JGo\<close>), on which it panics.
\<close>

text \<open>
  The values an \<open>interface{}\<close> of the configuration document holds: JSON
  values (a number is what \<open>json.Unmarshal\<close> produces, a \<open>float64\<close>, or an
  \<open>int64\<close>), objects as association lists (Go maps have unique keys), and
  \<open>JGo\<close>, a value of any other Go type, such as an \<open>int\<close>, that a caller of
  \<open>SetOption\<close> may store (its type name is the argument).
\<close>

datatype json = JNull | JBool bool | JNum int | JStr string | JArr "json list"
  | JObj "(string \<times> json) list" | JGo string

text \<open>
  objx splits a selector at its first dot: the key of this level and the rest
  of the path (a trailing dot leaves an empty rest). The array-index syntax
  \<open>a[0]\<close> of objx selectors is not modelled.
\<close>

definition get_key :: "string \<Rightarrow> string \<times> string" where
  "get_key s = (takeWhile (\<lambda>c. c \<noteq> CHR ''.'') s, drop 1 (dropWhile (\<lambda>c. c \<noteq> CHR ''.'') s))"

text \<open>
  objx \<open>Map.Set\<close> (its \<open>access\<close> walk with \<open>isSet\<close>): at the last key store the
  value; otherwise make sure the key holds an object (a missing or non-object
  value is replaced by an empty one) and continue in it. Go mutates the nested
  maps in place; here the updated objects are rebuilt.
\<close>

function access_set :: "string \<Rightarrow> json \<Rightarrow> (string \<times> json) list \<Rightarrow> (string \<times> json) list" where
  "access_set sel v m =
     (let (thisSel, nextSel) = get_key sel in
      if nextSel = [] then AList.update thisSel v m
      else (let child = (case map_of m thisSel of Some (JObj c) \<Rightarrow> c | _ \<Rightarrow> []) in
            AList.update thisSel (JObj (access_set nextSel v child)) m))"
  by pat_completeness auto
termination
  by (relation "measure (\<lambda>(sel, v, m). length sel)")
    (simp_all add: get_key_def dropWhile_tail_shorter)

text \<open>objx \<open>Map.Get\<close>: follow the path; a missing key or a non-object on the way gives nil.\<close>

function access_get :: "string \<Rightarrow> (string \<times> json) list \<Rightarrow> json option" where
  "access_get sel m =
     (let (thisSel, nextSel) = get_key sel in
      case map_of m thisSel of
        None \<Rightarrow> None
      | Some v \<Rightarrow> if nextSel = [] then Some v
                  else (case v of JObj c \<Rightarrow> access_get nextSel c | _ \<Rightarrow> None))"
  by pat_completeness auto
termination
  by (relation "measure (\<lambda>(sel, m). length sel)")
    (simp_all add: get_key_def dropWhile_tail_shorter)

declare access_set.simps [simp del] access_get.simps [simp del]

text \<open>
  \<open>OpenCGAConfiguration\<close> wraps \<open>Object map[string]interface{}\<close>; a nil map
  (the zero value, \<open>OpenCGAConfiguration{}\<close>) is \<open>None\<close>. Writing to a nil map
  is a Go panic, a value of \<open>go_panic\<close> here.
\<close>

record opencga_configuration =
  Object :: "(string \<times> json) list option"

text \<open>
  The panics of the wrapper's methods: an assignment into a nil map, and
  \<open>runtime.DeepCopyJSON\<close> meeting a value that is not of a JSON type (the
  type it names depends on Go's map iteration order, so it is not kept).
\<close>

datatype go_panic = NilMapAssignment | CannotDeepCopy

definition NewOpenCGAConfiguration :: opencga_configuration where
  "NewOpenCGAConfiguration = \<lparr>Object = Some []\<rparr>"

text \<open>\<open>SetOption\<close>: \<open>objx.New(m.Object).Set(key, value)\<close> stored back into the copy \<open>m\<close>.\<close>

definition SetOption :: "opencga_configuration \<Rightarrow> string \<Rightarrow> json \<Rightarrow> go_panic + opencga_configuration" where
  "SetOption m key value =
     (case Object m of
        None \<Rightarrow> Inl NilMapAssignment
      | Some obj \<Rightarrow> Inr (m\<lparr>Object := Some (access_set key value obj)\<rparr>))"

text \<open>
  The type invariant of the document: every object, at every level, has
  distinct keys, as a Go \<open>map[string]interface{}\<close> does.
\<close>

fun wf_json :: "json \<Rightarrow> bool"
  and wf_items :: "json list \<Rightarrow> bool"
  and wf_fields :: "(string \<times> json) list \<Rightarrow> bool" where
  "wf_json (JArr vs) = wf_items vs"
| "wf_json (JObj kvs) = (distinct (map fst kvs) \<and> wf_fields kvs)"
| "wf_json JNull = True"
| "wf_json (JBool b) = True"
| "wf_json (JNum n) = True"
| "wf_json (JStr s) = True"
| "wf_json (JGo t) = True"
| "wf_items [] = True"
| "wf_items (v # vs) = (wf_json v \<and> wf_items vs)"
| "wf_fields [] = True"
| "wf_fields (kv # kvs) = (wf_json (snd kv) \<and> wf_fields kvs)"

section \<open>JSON marshalling of the wrapper\<close>

text \<open>
  \<open>MarshalJSON\<close> and \<open>UnmarshalJSON\<close> defer to \<open>encoding/json\<close>. The text
  layer of that library (rendering and parsing JSON text) is a parameter: a
  codec whose \<open>encode\<close> returns \<open>None\<close> where \<open>json.Marshal\<close> fails (a value
  of an unsupported Go type) and whose \<open>decode\<close> returns \<open>None\<close> on a syntax
  error. What the repository's
  code decides on top of it is modelled: \<open>json.Marshal\<close> of a nil map is
  \<open>null\<close>, and \<open>json.Unmarshal\<close> into a \<open>map[string]interface{}\<close> follows the
  library's documented rules (\<open>unmarshal_into_map\<close> below).
\<close>

record json_codec =
  encode :: "json \<Rightarrow> string option"
  decode :: "string \<Rightarrow> json option"

datatype json_error = SyntaxError | UnmarshalTypeError | UnsupportedValue

text \<open>The JSON value of the wrapped map: a nil map marshals as \<open>null\<close>.\<close>

definition object_value :: "(string \<times> json) list option \<Rightarrow> json" where
  "object_value obj = (case obj of None \<Rightarrow> JNull | Some kvs \<Rightarrow> JObj kvs)"

text \<open>\<open>MarshalJSON\<close> returns what \<open>json.Marshal\<close> returns: the text, or its error.\<close>

definition MarshalJSON :: "json_codec \<Rightarrow> opencga_configuration \<Rightarrow> json_error + string" where
  "MarshalJSON codec m =
     (case encode codec (object_value (Object m)) of
        None \<Rightarrow> Inl UnsupportedValue
      | Some data \<Rightarrow> Inr data)"

text \<open>
  \<open>json.Unmarshal\<close> of a decoded value into a non-nil \<open>map[string]interface{}\<close>:
  \<open>null\<close> sets the map to nil; an object stores each of its members into the
  existing map in order (existing keys are kept, a later duplicate wins); any
  other value is an \<open>UnmarshalTypeError\<close> and leaves the map alone.
\<close>

definition store_members :: "(string \<times> json) list \<Rightarrow> (string \<times> json) list \<Rightarrow> (string \<times> json) list" where
  "store_members kvs obj = fold (\<lambda>(k, x) acc. AList.update k x acc) kvs obj"

definition unmarshal_into_map ::
  "json \<Rightarrow> (string \<times> json) list \<Rightarrow> json_error option \<times> (string \<times> json) list option" where
  "unmarshal_into_map v obj =
     (case v of
        JNull \<Rightarrow> (None, None)
      | JObj kvs \<Rightarrow> (None, Some (store_members kvs obj))
      | _ \<Rightarrow> (Some UnmarshalTypeError, Some obj))"

text \<open>
  \<open>UnmarshalJSON\<close>: a nil map is first replaced by an empty one, then the data is
  decoded into it; a syntax error leaves that (non-nil) map.
\<close>

definition UnmarshalJSON ::
  "json_codec \<Rightarrow> string \<Rightarrow> opencga_configuration \<Rightarrow> json_error option \<times> opencga_configuration" where
  "UnmarshalJSON codec data m =
     (let obj = (case Object m of None \<Rightarrow> [] | Some kvs \<Rightarrow> kvs) in
      case decode codec data of
        None \<Rightarrow> (Some SyntaxError, m\<lparr>Object := Some obj\<rparr>)
      | Some v \<Rightarrow> (case unmarshal_into_map v obj of
                    (err, obj') \<Rightarrow> (err, m\<lparr>Object := obj'\<rparr>)))"

section \<open>Deep copy\<close>

text \<open>
  \<open>runtime.DeepCopyJSONValue\<close>: maps and slices are copied element by
  element, strings, numbers, booleans and nil are returned as they are, and
  any other value panics. Values are immutable here, so a copy is the value.
\<close>

fun deep_copy_json :: "json \<Rightarrow> go_panic + json"
  and deep_copy_items :: "json list \<Rightarrow> go_panic + json list"
  and deep_copy_fields :: "(string \<times> json) list \<Rightarrow> go_panic + (string \<times> json) list" where
  "deep_copy_json (JObj kvs) = map_sum id JObj (deep_copy_fields kvs)"
| "deep_copy_json (JArr vs) = map_sum id JArr (deep_copy_items vs)"
| "deep_copy_json (JGo t) = Inl CannotDeepCopy"
| "deep_copy_json JNull = Inr JNull"
| "deep_copy_json (JBool b) = Inr (JBool b)"
| "deep_copy_json (JNum n) = Inr (JNum n)"
| "deep_copy_json (JStr s) = Inr (JStr s)"
| "deep_copy_items [] = Inr []"
| "deep_copy_items (v # vs) =
     (case deep_copy_json v of Inl p \<Rightarrow> Inl p
      | Inr v' \<Rightarrow> map_sum id (Cons v') (deep_copy_items vs))"
| "deep_copy_fields [] = Inr []"
| "deep_copy_fields (kv # kvs) =
     (case deep_copy_json (snd kv) of Inl p \<Rightarrow> Inl p
      | Inr v' \<Rightarrow> map_sum id (Cons (fst kv, v')) (deep_copy_fields kvs))"

text \<open>\<open>DeepCopy\<close>: a nil map stays nil (\<open>DeepCopyJSONValue\<close> returns a typed nil as it is).\<close>

definition DeepCopy :: "opencga_configuration \<Rightarrow> go_panic + opencga_configuration" where
  "DeepCopy m =
     (case Object m of
        None \<Rightarrow> Inr \<lparr>Object = None\<rparr>
      | Some obj \<Rightarrow> map_sum id (\<lambda>obj'. \<lparr>Object = Some obj'\<rparr>) (deep_copy_fields obj))"

text \<open>The values \<open>DeepCopyJSON\<close> accepts: no \<open>JGo\<close> at any depth.\<close>

fun typed_json :: "json \<Rightarrow> bool"
  and typed_items :: "json list \<Rightarrow> bool"
  and typed_fields :: "(string \<times> json) list \<Rightarrow> bool" where
  "typed_json (JObj kvs) = typed_fields kvs"
| "typed_json (JArr vs) = typed_items vs"
| "typed_json (JGo t) = False"
| "typed_json JNull = True"
| "typed_json (JBool b) = True"
| "typed_json (JNum n) = True"
| "typed_json (JStr s) = True"
| "typed_items [] = True"
| "typed_items (v # vs) = (typed_json v \<and> typed_items vs)"
| "typed_fields [] = True"
| "typed_fields (kv # kvs) = (typed_json (snd kv) \<and> typed_fields kvs)"

lemma access_get_set: "access_get sel (access_set sel v m) = Some v"
proof (induction sel v m rule: access_set.induct)
  case (1 sel v m)
  obtain t n where k: "get_key sel = (t, n)" by fastforce
  show ?case
  proof (cases "n = []")
    case True
    with k show ?thesis
      by (simp add: access_set.simps [of sel] access_get.simps [of sel] update_conv')
  next
    case False
    let ?child = "case map_of m t of Some (JObj c) \<Rightarrow> c | _ \<Rightarrow> []"
    have "access_get n (access_set n v ?child) = Some v"
      using k False by (intro "1.IH") auto
    with k False show ?thesis
      by (simp add: access_set.simps [of sel] access_get.simps [of sel] update_conv')
  qed
qed

lemma access_get_set_other:
  assumes "fst (get_key p) \<noteq> fst (get_key sel)"
  shows "access_get p (access_set sel v m) = access_get p m"
proof -
  obtain t n where k: "get_key sel = (t, n)" by fastforce
  obtain t' n' where k': "get_key p = (t', n')" by fastforce
  from assms k k' have "t' \<noteq> t" by simp
  then have "map_of (access_set sel v m) t' = map_of m t'"
    using k by (simp add: access_set.simps [of sel] update_conv' Let_def split: if_split)
  then show ?thesis
    using k' by (simp add: access_get.simps [of p])
qed

lemma SetOption_nested_example: "SetOption NewOpenCGAConfiguration ''net.port'' (JNum 27017) = Inr \<lparr>Object = Some [(''net'', JObj [(''port'', JNum 27017)])]\<rparr>"
  by (simp add: SetOption_def NewOpenCGAConfiguration_def access_set.simps get_key_def)

text \<open>C35: after \<open>SetOption\<close> on a configuration with a map, looking the same dotted key up yields the value set (set/get round trip), intermediate objects being created as needed.\<close>

theorem SetOption_roundtrip:
  assumes "Object m = Some obj"
  shows "\<exists>m'. SetOption m key v = Inr m' \<and> access_get key (the (Object m')) = Some v"
  using assms by (simp add: SetOption_def access_get_set)

text \<open>\<open>SetOption\<close> leaves every path under a different top-level key unchanged.\<close>

theorem SetOption_frame:
  assumes "Object m = Some obj" and "fst (get_key p) \<noteq> fst (get_key key)"
  shows "\<exists>m'. SetOption m key v = Inr m' \<and> access_get p (the (Object m')) = access_get p obj"
  using assms by (simp add: SetOption_def access_get_set_other)

text \<open>\<open>SetOption\<close> on the zero value \<open>OpenCGAConfiguration{}\<close>, whose map is nil, panics: only \<open>NewOpenCGAConfiguration\<close> or \<open>UnmarshalJSON\<close> give it a map.\<close>

theorem SetOption_nil_panics: "SetOption \<lparr>Object = None\<rparr> key v = Inl NilMapAssignment"
  by (simp add: SetOption_def)

theorem SetOption_roundtrip_witness:
  "\<exists>m'. SetOption NewOpenCGAConfiguration ''net.port'' (JNum 27017) = Inr m' \<and>
     access_get ''net.port'' (the (Object m')) = Some (JNum 27017)"
  by (rule SetOption_roundtrip) (simp add: NewOpenCGAConfiguration_def)

theorem SetOption_frame_witness:
  "\<exists>m'. SetOption \<lparr>Object = Some [(''storage'', JStr ''ssd'')]\<rparr> ''net.port'' (JNum 27017) = Inr m' \<and>
     access_get ''storage'' (the (Object m')) = access_get ''storage'' [(''storage'', JStr ''ssd'')]"
  by (rule SetOption_frame) (simp_all add: get_key_def)

section \<open>Well-formedness and the JSON wrapper\<close>

lemma configuration_update_eq [simp]: "m\<lparr>Object := x\<rparr> = \<lparr>Object = x\<rparr>"
  by (cases m) simp

lemma wf_fields_map_of: "wf_fields kvs \<Longrightarrow> map_of kvs k = Some v \<Longrightarrow> wf_json v"
  by (induction kvs) (auto split: if_splits)

lemma wf_fields_update: "wf_fields kvs \<Longrightarrow> wf_json v \<Longrightarrow> wf_fields (AList.update k v kvs)"
  by (induction kvs) auto

lemma wf_obj_update:
  "wf_json (JObj kvs) \<Longrightarrow> wf_json v \<Longrightarrow> wf_json (JObj (AList.update k v kvs))"
  by (simp add: wf_fields_update distinct_update)

lemma access_set_wf: "wf_json (JObj m) \<Longrightarrow> wf_json v \<Longrightarrow> wf_json (JObj (access_set sel v m))"
proof (induction sel v m rule: access_set.induct)
  case (1 sel v m)
  obtain t n where k: "get_key sel = (t, n)" by fastforce
  show ?case
  proof (cases "n = []")
    case True
    with k "1.prems" show ?thesis
      by (simp add: access_set.simps [of sel] wf_obj_update del: wf_json.simps(2))
  next
    case False
    let ?child = "case map_of m t of Some (JObj c) \<Rightarrow> c | _ \<Rightarrow> []"
    have "wf_json (JObj ?child)"
    proof (cases "map_of m t")
      case None
      then show ?thesis by simp
    next
      case (Some c)
      from "1.prems"(1) have "wf_fields m" by simp
      then have "wf_json c" using Some by (rule wf_fields_map_of)
      with Some show ?thesis by (cases c) simp_all
    qed
    then have "wf_json (JObj (access_set n v ?child))"
      using k False "1.prems"(2) by (intro "1.IH") auto
    with k False "1.prems"(1) show ?thesis
      by (simp add: access_set.simps [of sel] wf_obj_update del: wf_json.simps(2))
  qed
qed

lemma update_fresh_append:
  "k \<notin> fst ` set acc \<Longrightarrow> AList.update k x acc = acc @ [(k, x)]"
  by (induction acc) auto

lemma store_members_fresh:
  "distinct (map fst kvs) \<Longrightarrow> fst ` set kvs \<inter> fst ` set acc = {} \<Longrightarrow>
   store_members kvs acc = acc @ kvs"
proof (induction kvs arbitrary: acc)
  case Nil
  then show ?case by (simp add: store_members_def)
next
  case (Cons kv kvs)
  obtain k x where kv: "kv = (k, x)" by fastforce
  with Cons.prems have "AList.update k x acc = acc @ [(k, x)]"
    by (auto intro: update_fresh_append)
  moreover have "store_members kvs (acc @ [(k, x)]) = (acc @ [(k, x)]) @ kvs"
    using Cons.prems kv by (intro Cons.IH) auto
  ultimately show ?case
    using kv by (simp add: store_members_def)
qed

lemma store_members_map_of: "map_of (store_members kvs acc) = map_of acc ++ map_of (rev kvs)"
proof (induction kvs arbitrary: acc)
  case Nil
  then show ?case by (simp add: store_members_def)
next
  case (Cons kv kvs)
  obtain k x where kv: "kv = (k, x)" by fastforce
  have "map_of (store_members (kv # kvs) acc) = map_of (AList.update k x acc) ++ map_of (rev kvs)"
    using Cons.IH kv by (simp add: store_members_def)
  also have "\<dots> = map_of acc ++ map_of (rev (kv # kvs))"
    using kv by (simp add: update_conv' map_add_upd_left map_add_assoc [symmetric])
  finally show ?case .
qed

text \<open>The type invariant of the document: \<open>SetOption\<close> with a well-formed value on a configuration whose map is well formed (distinct keys in every object, as Go maps have) yields a well-formed configuration.\<close>

theorem SetOption_keeps_wf:
  assumes "Object m = Some obj" and "wf_json (JObj obj)" and "wf_json v"
  shows "\<exists>m'. SetOption m key v = Inr m' \<and> wf_json (object_value (Object m'))"
  using assms by (simp add: SetOption_def object_value_def access_set_wf del: wf_json.simps(2))

text \<open>C26: marshal/unmarshal round trip of the wrapper. For a text codec that parses back every well-formed value it renders (a property of the codec alone), when \<open>MarshalJSON\<close> succeeds, unmarshalling its text into the zero configuration gives back the same configuration without error, both for a nil map (through \<open>null\<close>) and for a well-formed map.\<close>

theorem UnmarshalJSON_MarshalJSON:
  assumes codec: "\<forall>v data. wf_json v \<longrightarrow> encode codec v = Some data \<longrightarrow> decode codec data = Some v"
    and wf: "wf_json (object_value (Object m))"
    and ok: "MarshalJSON codec m = Inr data"
  shows "UnmarshalJSON codec data \<lparr>Object = None\<rparr> = (None, m)"
proof -
  from ok have "encode codec (object_value (Object m)) = Some data"
    by (simp add: MarshalJSON_def split: option.splits)
  with codec wf have dec: "decode codec data = Some (object_value (Object m))" by blast
  show ?thesis
  proof (cases "Object m")
    case None
    with dec show ?thesis
      by (simp add: UnmarshalJSON_def unmarshal_into_map_def object_value_def)
  next
    case (Some kvs)
    with wf have "distinct (map fst kvs)" by (simp add: object_value_def)
    then have "store_members kvs [] = kvs" by (simp add: store_members_fresh)
    with Some dec show ?thesis
      by (simp add: UnmarshalJSON_def unmarshal_into_map_def object_value_def)
  qed
qed

text \<open>C29: \<open>UnmarshalJSON\<close> of an object into a configuration that already has a map merges: keys present in the data take their (last) value, every other existing key is kept; the existing options are not replaced.\<close>

theorem UnmarshalJSON_merges:
  assumes "decode codec data = Some (JObj kvs)" and "Object m = Some obj"
  shows "\<exists>obj'. UnmarshalJSON codec data m = (None, \<lparr>Object = Some obj'\<rparr>) \<and>
    map_of obj' = map_of obj ++ map_of (rev kvs)"
  using assms by (simp add: UnmarshalJSON_def unmarshal_into_map_def store_members_map_of)

text \<open>C36: \<open>UnmarshalJSON\<close> of \<open>null\<close> sets the map to nil, even when the configuration had one, so a later \<open>SetOption\<close> on the result panics.\<close>

theorem UnmarshalJSON_null_resets:
  assumes "decode codec data = Some JNull"
  shows "UnmarshalJSON codec data m = (None, \<lparr>Object = None\<rparr>) \<and>
    SetOption (snd (UnmarshalJSON codec data m)) key v = Inl NilMapAssignment"
  using assms by (simp add: UnmarshalJSON_def unmarshal_into_map_def SetOption_def)

theorem SetOption_keeps_wf_witness:
  "\<exists>m'. SetOption NewOpenCGAConfiguration ''net.port'' (JNum 27017) = Inr m' \<and>
     wf_json (object_value (Object m'))"
  by (rule SetOption_keeps_wf [where obj = "[]"]) (simp_all add: NewOpenCGAConfiguration_def)

theorem UnmarshalJSON_MarshalJSON_witness:
  "MarshalJSON \<lparr>encode = (\<lambda>v. if v = JObj [] then Some ''{}'' else None),
       decode = (\<lambda>s. if s = ''{}'' then Some (JObj []) else None)\<rparr> NewOpenCGAConfiguration = Inr ''{}'' \<and>
   UnmarshalJSON \<lparr>encode = (\<lambda>v. if v = JObj [] then Some ''{}'' else None),
       decode = (\<lambda>s. if s = ''{}'' then Some (JObj []) else None)\<rparr>
     ''{}'' \<lparr>Object = None\<rparr> = (None, NewOpenCGAConfiguration)"
proof
  show "MarshalJSON \<lparr>encode = (\<lambda>v. if v = JObj [] then Some ''{}'' else None),
       decode = (\<lambda>s. if s = ''{}'' then Some (JObj []) else None)\<rparr> NewOpenCGAConfiguration = Inr ''{}''"
    by (simp add: MarshalJSON_def object_value_def NewOpenCGAConfiguration_def)
  then show "UnmarshalJSON \<lparr>encode = (\<lambda>v. if v = JObj [] then Some ''{}'' else None),
       decode = (\<lambda>s. if s = ''{}'' then Some (JObj []) else None)\<rparr>
     ''{}'' \<lparr>Object = None\<rparr> = (None, NewOpenCGAConfiguration)"
    by (rule UnmarshalJSON_MarshalJSON [rotated 2])
      (simp_all add: object_value_def NewOpenCGAConfiguration_def)
qed


theorem UnmarshalJSON_merges_witness:
  "\<exists>obj'. UnmarshalJSON \<lparr>encode = (\<lambda>v. Some ''{}''), decode = (\<lambda>s. Some (JObj [(''b'', JNum 2)]))\<rparr>
      ''{}'' \<lparr>Object = Some [(''a'', JNum 1)]\<rparr> = (None, \<lparr>Object = Some obj'\<rparr>) \<and>
    map_of obj' = map_of [(''a'', JNum 1)] ++ map_of (rev [(''b'', JNum 2)])"
  by (rule UnmarshalJSON_merges) simp_all

theorem UnmarshalJSON_null_resets_witness:
  "UnmarshalJSON \<lparr>encode = (\<lambda>v. Some ''null''), decode = (\<lambda>s. Some JNull)\<rparr> ''null'' NewOpenCGAConfiguration =
     (None, \<lparr>Object = None\<rparr>) \<and>
   SetOption (snd (UnmarshalJSON \<lparr>encode = (\<lambda>v. Some ''null''), decode = (\<lambda>s. Some JNull)\<rparr> ''null''
     NewOpenCGAConfiguration)) ''net.port'' (JNum 27017) = Inl NilMapAssignment"
  by (rule UnmarshalJSON_null_resets) simp

section \<open>Deep copy: which configurations it accepts\<close>

lemma deep_copy_typed:
  "deep_copy_json v = (if typed_json v then Inr v else Inl CannotDeepCopy)"
  "deep_copy_items vs = (if typed_items vs then Inr vs else Inl CannotDeepCopy)"
  "deep_copy_fields kvs = (if typed_fields kvs then Inr kvs else Inl CannotDeepCopy)"
  by (induction v and vs and kvs rule: deep_copy_json_deep_copy_items_deep_copy_fields.induct)
    (auto split: sum.split)

lemma DeepCopy_result:
  "DeepCopy m = (if (case Object m of None \<Rightarrow> True | Some obj \<Rightarrow> typed_fields obj)
                 then Inr m else Inl CannotDeepCopy)"
  by (cases m) (simp add: DeepCopy_def deep_copy_typed split: option.split)

lemma typed_fields_map_of: "typed_fields kvs \<Longrightarrow> map_of kvs k = Some v \<Longrightarrow> typed_json v"
  by (induction kvs) (auto split: if_splits)

lemma access_get_typed: "typed_fields m \<Longrightarrow> access_get sel m = Some v \<Longrightarrow> typed_json v"
proof (induction sel m rule: access_get.induct)
  case (1 sel m)
  obtain t n where k: "get_key sel = (t, n)" by fastforce
  show ?case
  proof (cases "map_of m t")
    case None
    with "1.prems"(2) k show ?thesis by (simp add: access_get.simps [of sel])
  next
    case (Some u)
    with "1.prems"(1) have tu: "typed_json u" by (rule typed_fields_map_of)
    show ?thesis
    proof (cases "n = []")
      case True
      with "1.prems"(2) k Some tu show ?thesis by (simp add: access_get.simps [of sel])
    next
      case False
      show ?thesis
      proof (cases u)
        case (JObj c)
        with "1.prems"(2) k Some False have "access_get n c = Some v"
          by (simp add: access_get.simps [of sel])
        moreover from tu JObj have "typed_fields c" by simp
        ultimately show ?thesis
          using "1.IH" [OF refl k [symmetric] Some False JObj] by blast
      qed (use "1.prems"(2) k Some False in \<open>simp_all add: access_get.simps [of sel]\<close>)
    qed
  qed
qed

text \<open>C3: \<open>SetOption\<close> accepts a value of any Go type, but \<open>DeepCopy\<close> of the result panics when that value is not of a JSON type (for example a Go \<open>int\<close>): \<open>runtime.DeepCopyJSON\<close> accepts only what \<open>json.Unmarshal\<close> produces and \<open>int64\<close>.\<close>

theorem SetOption_DeepCopy_panics:
  assumes "Object m = Some obj"
  shows "\<exists>m'. SetOption m key (JGo t) = Inr m' \<and> DeepCopy m' = Inl CannotDeepCopy"
proof -
  let ?obj' = "access_set key (JGo t) obj"
  have "\<not> typed_fields ?obj'"
  proof
    assume "typed_fields ?obj'"
    moreover have "access_get key ?obj' = Some (JGo t)" by (rule access_get_set)
    ultimately have "typed_json (JGo t)" by (rule access_get_typed)
    then show False by simp
  qed
  with assms show ?thesis by (simp add: SetOption_def DeepCopy_result)
qed

theorem SetOption_DeepCopy_panics_witness:
  "\<exists>m'. SetOption NewOpenCGAConfiguration ''net.port'' (JGo ''int'') = Inr m' \<and>
     DeepCopy m' = Inl CannotDeepCopy"
  by (rule SetOption_DeepCopy_panics) (simp add: NewOpenCGAConfiguration_def)

end
