(* ===== verification/Builder.thy ===== *)
theory Builder
  imports Config Modification
begin

text \<open>
  The deployment builder package (\<open>src/controllers/construct/opencgadeployment.go\<close>):
  its naming constants, the \<open>OpenCGADeploymentOwner\<close> interface that resources
  generating an OpenCGA deployment implement, and the builder function. The
  builder is unfinished in the source: it builds a label map and returns it
  where a \<open>statefulset.Modification\<close> is declared, so the package does not
  type-check. The model gives the function the type of what its body computes
  (a label map) and proves that, used as the labels and the match labels of
  a Deployment, it makes the selector match the Deployment's own labels.
\<close>

section \<open>Naming constants\<close>

definition AgentName :: string where "AgentName = ''opencga-agent''"
definition opencgaName :: string where "opencgaName = ''opencga''"

definition versionUpgradeHookName :: string where "versionUpgradeHookName = ''opencga-posthook''"
definition ReadinessProbeContainerName :: string where
  "ReadinessProbeContainerName = ''opencga-agent-readinessprobe''"
definition readinessProbePath :: string where "readinessProbePath = ''/opt/scripts/readinessprobe''"
definition agentHealthStatusFilePathEnv :: string where
  "agentHealthStatusFilePathEnv = ''AGENT_STATUS_FILEPATH''"
definition clusterFilePath :: string where
  "clusterFilePath = ''/var/lib/automation/config/cluster-config.json''"
definition opencgaDatabaseServiceAccountName :: string where
  "opencgaDatabaseServiceAccountName = ''opencga-database''"
definition agentHealthStatusFilePathValue :: string where
  "agentHealthStatusFilePathValue =
     ''/var/log/opencga-mms-automation/healthstatus/agent-health-status.json''"

definition opencgaRepoUrl :: string where "opencgaRepoUrl = ''opencga_REPO_URL''"

definition headlessAgentEnv :: string where "headlessAgentEnv = ''HEADLESS_AGENT''"
definition podNamespaceEnv :: string where "podNamespaceEnv = ''POD_NAMESPACE''"
definition automationConfigEnv :: string where "automationConfigEnv = ''AUTOMATION_CONFIG_MAP''"
definition AgentImageEnv :: string where "AgentImageEnv = ''AGENT_IMAGE''"
definition OpencgaImageEnv :: string where "OpencgaImageEnv = ''OPENCGA_IMAGE''"
definition VersionUpgradeHookImageEnv :: string where
  "VersionUpgradeHookImageEnv = ''VERSION_UPGRADE_HOOK_IMAGE''"
definition ReadinessProbeImageEnv :: string where "ReadinessProbeImageEnv = ''READINESS_PROBE_IMAGE''"
definition ManagedSecurityContextEnv :: string where
  "ManagedSecurityContextEnv = ''MANAGED_SECURITY_CONTEXT''"

definition automationMongodConfFileName :: string where
  "automationMongodConfFileName = ''automation-opencga.conf''"
definition keyfileFilePath :: string where
  "keyfileFilePath = ''/var/lib/opencga-mms-automation/authentication/keyfile''"

definition automationAgentOptions :: string where
  "automationAgentOptions = '' -skipMongoStart -noDaemonize -useLocalOpencgaTools''"

text \<open>The shell prelude of the OpenCGA container, a raw string literal of ten lines, each ended by a newline.\<close>

definition OpencgaUserCommand :: string where
  \<open>OpencgaUserCommand = concat (map (\<lambda>l. l @ [CHR 0x0A])
     [''current_uid=$(id -u)'',
      ''AGENT_API_KEY="$(cat /opencga-automation/agent-api-key/agentApiKey)"'',
      ''declare -r current_uid'',
      ''if ! grep -q "${current_uid}" /etc/passwd ; then'',
      ''sed -e "s/^opencga:/builder:/" /etc/passwd > /tmp/passwd'',
      ''echo "opencga:x:$(id -u):$(id -g):,,,:/:/bin/bash" >> /tmp/passwd'',
      ''export NSS_WRAPPER_PASSWD=/tmp/passwd'',
      ''export LD_PRELOAD=libnss_wrapper.so'',
      ''export NSS_WRAPPER_GROUP=/etc/group'',
      ''fi''])\<close>

section \<open>The owner interface and the builder\<close>

text \<open>
  \<open>OpenCGADeploymentOwner\<close>: the answers of its methods for one resource.
  \<open>GetUpdateStrategyType\<close> returns a \<open>StatefulSetUpdateStrategyType\<close>, a string.
\<close>

record opencga_deployment_owner =
  ServiceName :: string
  GetName :: string
  GetNamespace :: string
  GetOpenCGAVersion :: string
  AutomationConfigSecretName :: string
  GetUpdateStrategyType :: string
  HasSeparateDataAndLogsVolumes :: bool
  GetAgentKeyfileSecretNamespacedName :: object_key
  DataVolumeName :: string
  LogsVolumeName :: string
  GetOpenCGAConfiguration :: opencga_configuration
  NeedsAutomationConfigVolume :: bool

text \<open>
  \<open>BuildOpenCGABReplicaSetDeploymentModificationFunction\<close>: the labels map
  \<open>{"app": ocb.ServiceName()}\<close>, returned as it is; the scaler
  (\<open>scale.ReplicaSetScaler\<close>, outside \<open>src/\<close>) is not used.
\<close>

definition BuildOpenCGABReplicaSetDeploymentModificationFunction ::
  "opencga_deployment_owner \<Rightarrow> 'scaler \<Rightarrow> strmap" where
  "BuildOpenCGABReplicaSetDeploymentModificationFunction ocb scaler =
     (let labels = [''app'' \<mapsto> ServiceName ocb] in labels)"

section \<open>Properties\<close>

text \<open>
  The builder's map has the single key \<open>app\<close>, set to the service name;
  given to \<open>WithMatchLabels\<close> it makes the selector require exactly that label.
\<close>

lemma Build_labels:
  "BuildOpenCGABReplicaSetDeploymentModificationFunction ocb scaler = [''app'' \<mapsto> ServiceName ocb]"
  by (simp add: BuildOpenCGABReplicaSetDeploymentModificationFunction_def)

lemma Build_selector_matches:
  "map_option match_labels (selector (dep_spec
     (WithMatchLabels (BuildOpenCGABReplicaSetDeploymentModificationFunction ocb scaler) d))) =
     Some [''app'' \<mapsto> ServiceName ocb]"
  by (simp add: WithMatchLabels_def copyMap_def Let_def Build_labels)

end
