(* ===== verification/Spec2Isabelle.thy ===== *)
theory Spec2Isabelle
  imports Interleaving Volume_Heap Predicates Builder
begin

text \<open>
  \<^bold>\<open>A verification development for the opencga-operator reconciliation core.\<close>

  \<^bold>\<open>The program.\<close> The operator reconciles an \<open>OpenCGACommunity\<close> custom
  resource (\<open>src/api/v1/opencgacommunity_types.go\<close>) against a Deployment in the
  cluster. Its core has three parts, leaves first:
  \<^item> the modification engine (\<open>src/pkg/kube/statefulset/statefulset.go\<close>,
    \<open>Modification\<close>, \<open>New\<close>, \<open>Apply\<close>, \<open>NOOP\<close> and the \<open>With*\<close> constructors,
    with the volume, mount and claim helpers), which builds the desired
    Deployment from independent concerns;
  \<^item> the reconcile-apply protocol (same file: \<open>CreateOrUpdate\<close>,
    \<open>GetAndUpdate\<close>, \<open>ResetUpdateStrategy\<close>, the client interfaces
    \<open>Getter\<close>/\<open>Updater\<close>/\<open>Creator\<close>/\<open>Deleter\<close>, and the readiness check
    \<open>IsReady\<close>), which persists it through the cluster API;
  \<^item> the status-decision aggregator (\<open>src/pkg/util/status/status.go\<close>: \<open>Update\<close>,
    \<open>determineReconciliationResult\<close>), which folds the findings of independent
    status options into one status write and one control decision.
  The event filter \<open>OnlyOnSpecChange\<close> (\<open>src/cmd/predicates/predicates.go\<close>)
  decides which changes of the resource start a pass at all. The controller
  that runs passes is not in the repository; the development composes the
  parts into a pass and a control loop as the spec describes them. The
  resource's free-form configuration (\<open>OpenCGAConfiguration\<close>) and the
  unfinished deployment builder (\<open>src/controllers/construct/opencgadeployment.go\<close>)
  complete the sources.

  \<^bold>\<open>Theories.\<close>
  \<^item> \<open>Prelude\<close>: Go's \<open>int32\<close>/\<open>int64\<close> as \<open>32 word\<close>/\<open>64 word\<close>, the truncating
    conversion \<open>int32(x)\<close> as \<open>go_int32\<close>, string maps, errors as messages; the
    rule collections \<open>modification_defs\<close>, \<open>store_defs\<close>, \<open>status_defs\<close>; generic
    lemmas on the int32 conversion, map merges, folds of commuting idempotent
    functions (\<open>fold_apply_twice\<close>) and list search.
  \<^item> \<open>Api_Types\<close>: the resource's spec, status, object and list records and
    the named \<open>Type\<close>/\<open>Phase\<close> constants.
  \<^item> \<open>Workload\<close>: the Deployment, its spec, metadata, selectors, volumes, mounts,
    claims and strategy, and the StatefulSet status \<open>IsReady\<close> reads; pointers
    are \<open>option\<close>s, zero values are definitions.
  \<^item> \<open>Status\<close>: \<open>status.Option\<close> as a record of its two methods, the status
    writer as a function over its own state, \<open>apply_options\<close>, the two loops
    \<open>first_error\<close> and \<open>first_requeue\<close>, \<open>determineReconciliationResult\<close> and
    \<open>Update\<close>; the abstract \<open>control_decision\<close> and the one-pass specification
    \<open>decide_spec\<close>. Lemmas C1, C2, C4--C6, C33: error dominance, first requeue, the
    refinement of \<open>decide_spec\<close>, short-circuit on a failed status write, and a
    single status write (through the recording writer \<open>log_writer\<close>), Done
    when no option reports an error or a requeue.
  \<^item> \<open>Store\<close>: the client interface as a record of methods over a state \<open>'s\<close>,
    \<open>CreateOrUpdate\<close>, \<open>GetAndUpdate\<close>, \<open>ResetUpdateStrategy\<close>, and the wrapper
    \<open>logging\<close> that records the calls. Lemmas C7--C10, C13 and C34 hold for every
    client: which calls each operation makes, in which order, with which
    arguments, and what it returns on every branch, errors included. C13 states
    that \<open>ResetUpdateStrategy\<close> acts exactly during a version change, against its
    doc comment.
  \<^item> \<open>Mem_Store\<close>: the cluster API of spec section 6 as an in-memory store with
    resource versions and optimistic concurrency (\<open>mem_get\<close>, \<open>mem_create\<close>,
    \<open>mem_update\<close>, \<open>mem_delete\<close>), every interleaving of calls as the inductive
    step relation \<open>mem_step\<close> with reachable states \<open>mem_reachable\<close>, and the
    invariant \<open>mem_inv\<close> proved by rule induction. Lemmas C14--C16:
    \<open>CreateOrUpdate\<close> converges, a stale write is refused with Conflict,
    consecutive \<open>GetAndUpdate\<close> calls lose no update; the protocol keeps the
    store invariant (\<open>protocol_keeps_store_inv\<close>).
  \<^item> \<open>Modification\<close>: every modification constructor as a Deployment
    transformer, \<open>New\<close>/\<open>Apply\<close> as folds, the claim lookup-or-append and the
    volume helpers; descriptors (\<open>mod_desc\<close>, \<open>interp\<close>, \<open>fields_of\<close>) to speak of
    lists of modifications. Lemmas C18--C23, C25, C27, C28, C40: modifications on
    disjoint fields commute, lists of idempotent ones are idempotent, the
    lookup-or-append and its failure of idempotence for every function that
    does not name the appended claim, the index search, the annotation merge,
    \<open>WithReplicas\<close> wrapping every count into the int32 range, the one-source
    invariant of volumes with its violation by \<open>WithSecretDefaultMode\<close> on every
    ConfigMap volume, and the mount search.
  \<^item> \<open>Readiness\<close>: \<open>IsReady\<close>; C30 characterises it in the int32 range, C31
    for every count, through the wrap-around of the conversion.
  \<^item> \<open>Predicates\<close>: \<open>predicate.Funcs\<close> and \<open>OnlyOnSpecChange\<close>; C32.
  \<^item> \<open>Config\<close>: \<open>OpenCGAConfiguration\<close> as an optional JSON object (a nil
    map is \<open>None\<close>), \<open>NewOpenCGAConfiguration\<close>, \<open>SetOption\<close>, and objx's
    dotted-path \<open>Set\<close>/\<open>Get\<close> as \<open>access_set\<close>/\<open>access_get\<close>, defined with
    \<open>function\<close> and terminating because each step drops a key and its dot;
    the type invariant \<open>wf_json\<close> (distinct keys at every level, as Go maps
    have); \<open>MarshalJSON\<close>/\<open>UnmarshalJSON\<close> over a JSON codec taken as a
    parameter (the text layer of \<open>encoding/json\<close>, whose rendering may fail as
    \<open>json.Marshal\<close> does) with the library's rules for decoding into a map
    (\<open>unmarshal_into_map\<close>). C35: set/get round trip; a nil map panics
    (\<open>SetOption_nil_panics\<close>); \<open>SetOption\<close> keeps the invariant
    (\<open>SetOption_keeps_wf\<close>); C26: the marshal/unmarshal round trip for every
    codec that parses back what it renders;
    C29: unmarshalling into a configuration merges top-level keys; C36:
    unmarshalling \<open>null\<close> leaves a nil map, on which \<open>SetOption\<close> panics;
    \<open>DeepCopy\<close> through \<open>deep_copy_json\<close>, with the Go values that are not of
    a JSON type kept apart (\<open>JGo\<close>): C3, a value of such a type stored by
    \<open>SetOption\<close> makes \<open>DeepCopy\<close> panic.
  \<^item> \<open>Builder\<close>: the naming constants of the builder package, the
    \<open>OpenCGADeploymentOwner\<close> interface as a record of its method answers, and
    the builder with the type of what its body computes (a label map).
  \<^item> \<open>Reconcile\<close> (modelled from the spec, sections 2, 3, 5 and 7): one pass
    \<open>reconcile_pass\<close> builds the Deployment with \<open>New\<close>, persists it with
    \<open>CreateOrUpdate\<close>, judges the observed StatefulSet with \<open>IsReady\<close> in a
    status option (\<open>replicas_option\<close>: Running, or Pending with a requeue after
    a delay) and reports through \<open>Update\<close>; the outer loop \<open>control_loop\<close>
    repeats passes until one reports Done. The observed StatefulSet of pass
    \<open>i\<close> is \<open>env i\<close>, a sequence the environment (the kubelet) supplies.
    C38 (liveness): against the store, with a status writer that does not fail
    and a positive delay, the loop returns at the first pass whose workload is
    ready, with the built Deployment stored and phase Running written; C39: if
    no pass observes a ready workload, the loop does not return.
  \<^item> \<open>Interleaving\<close>: the same loop with other writers of the store running
    before each pass (\<open>interleaved_loop\<close>), for instance one that deletes the
    Deployment every time (\<open>deleting_writer\<close>, a \<open>DeleteDeployment\<close> of another
    client). C11 (termination): the loop still returns by the first ready
    pass, the store it returns holds the built Deployment, and when the other
    writers are store calls the store stays reachable, so it satisfies the store
    invariant (the invariant carried through the loop by \<open>control_loop_keeps\<close>).
  \<^item> \<open>Aliasing\<close>: the modifications that keep pointers or slices
    (\<open>WithReplicas\<close>, \<open>WithRevisionHistoryLimit\<close>, \<open>WithOwnerReference\<close>,
    \<open>WithSelector\<close>, \<open>WithMatchLabels\<close>) over an explicit heap of typed cells,
    closures allocating once when they are made, Deployments holding
    addresses and \<open>read_dep\<close> reading their value. C12 (refinement): a build
    by \<open>New\<close> from modifications made for it reads as the value model's
    \<open>New\<close>, which justifies the value model used everywhere else; C24: a
    selector pointer shared by two builds is overwritten by the second, in the
    caller's selector and in the first Deployment.
  \<^item> \<open>Volume_Heap\<close>: the secret volumes on the same heap, whose \<open>DefaultMode\<close>
    is a pointer: \<open>CreateVolumeFromSecret\<close> points it at a \<open>permission\<close> of
    its own call, \<open>WithSecretDefaultMode\<close> stores the caller's pointer.
    C17 (refinement): a build reads as the value model's volume; \<open>own_permission_private\<close>: without the option, volumes do not
    share their mode; C37: with one caller pointer, a later write through it
    changes the mode of every volume built with it.
  \<^item> this theory: lemmas spanning components: a status write does not
    retrigger a pass (\<open>status_update_not_retriggered\<close>) and a built Deployment
    converges in one apply (\<open>built_deployment_converges\<close>).

  \<^bold>\<open>Modelling choices.\<close> Go's in-place mutation through pointers is explicit
  state passing: a modification returns the new Deployment, \<open>Update\<close> returns
  the mutated resource, collaborators return their new state. Every
  \<open>(value, error)\<close> pair is a sum or option. Range loops are folds or
  structural recursion, so no fuel is needed and every function is total and
  executable; the witnesses evaluate them with \<open>simp\<close>. The objx path walks
  terminate by the length of the path. The control loop may run forever (a
  workload that never becomes ready), so it is a \<open>partial_function (option)\<close>
  whose value \<open>None\<close> is not returning, without fuel: C38 proves that it
  returns (\<open>Some\<close>) by the first ready pass, C39 that it is \<open>None\<close> when no
  pass is ready. Counts that the source
  converts to \<open>int32\<close> go through \<open>go_int32\<close>, which keeps the low 32 bits as Go
  does.

  \<^bold>\<open>Not modelled.\<close> Code outside \<open>src/\<close> that the source calls is modelled from
  the spec where the spec defines it (\<open>copyMap\<close>, \<open>merge.StringToStringMap\<close>, the
  cluster API, the controller's pass and loop) and is a parameter where it
  does not (\<open>merge.StatefulSetSpecs\<close>, \<open>annotations.Versioned\<close>, the JSON
  text codec). Pointers are copied values in the value model; the aliasing they
  allow is modelled in \<open>Aliasing\<close> and \<open>Volume_Heap\<close> for the modifications and
  volume options that store them, and
  not for the pod template and claim functions the caller supplies (which
  receive pointers into the Deployment being built, as the value model's
  functions receive the value). Not modelled are objx's array-index
  selectors and the scheme registration (\<open>init\<close>, which
  registers the two types with a scheme builder defined outside \<open>src/\<close>;
  the spec puts the schema and versioning of the resource out of its scope, so
  there is no contract to model that builder from). Of the cluster API only the
  calls the code makes are modelled, not the watch and cache layer the spec
  assumes. The builder's declared return type
  \<open>statefulset.Modification\<close> cannot be given to a function whose body returns
  a map. Every other function and type of the five source files is modelled;
  \<open>init\<close> is the exception.
\<close>

text \<open>A Deployment built by \<open>New\<close> from any list of modifications carries the empty resource version, so \<open>CreateOrUpdate\<close> of it against the store always succeeds and leaves exactly the built object under its key: a reconciliation pass converges in one apply.\<close>

theorem built_deployment_converges:
  "objects (snd (CreateOrUpdate mem_client st (New (map interp ms)))) (key_of (New (map interp ms))) =
     Some ((New (map interp ms))\<lparr>dep_resource_version := next_version st\<rparr>)"
  using CreateOrUpdate_fresh_stores [OF New_map_interp_rv, of st ms] by (simp split: option.split)

lemma apply_options_spec:
  "\<forall>opt\<in>set opts. \<forall>c. spec (apply_option opt c) = spec c \<Longrightarrow> spec (apply_options opts ocb) = spec ocb"
  by (induction opts arbitrary: ocb) simp_all

text \<open>When every status option changes only what is not the spec (status, annotations), the object \<open>Update\<close> writes differs from the one read only outside the spec, so the resulting update event is filtered out by \<open>OnlyOnSpecChange\<close>: the status write of a pass does not trigger another pass.\<close>

theorem status_update_not_retriggered:
  assumes "\<forall>opt\<in>set opts. \<forall>c. spec (apply_option opt c) = spec c"
  shows "\<not> passes OnlyOnSpecChange (UpdateEvent ocb (fst (snd (Update w s ocb opts))))"
proof -
  from assms show ?thesis
    unfolding Update_object
    by (simp add: OnlyOnSpecChange_def apply_options_spec)
qed

theorem status_update_not_retriggered_witness:
  "\<not> passes OnlyOnSpecChange (UpdateEvent zero_community (fst (snd (Update (\<lambda>s c. (None, s)) ()
      zero_community [\<lparr>apply_option = (\<lambda>c. c\<lparr>status := (status c)\<lparr>phase := Running\<rparr>\<rparr>),
                       get_result = (empty_result, None)\<rparr>]))))"
  by (rule status_update_not_retriggered) simp

end
